theory Spec2Isabelle
  imports Main "HOL-Library.Word" "HOL-Library.Signed_Division"
begin

section \<open>The certificate issuance orchestrator of lego (certificate/certificates.go)\<close>

text \<open>
  A shallow embedding of \<^verbatim>\<open>src/certificate/certificates.go\<close>.
  Go values are modelled as follows: a \<^verbatim>\<open>[]byte\<close> is a \<open>string option\<close>
  (\<open>None\<close> is the nil slice), a pointer that may be nil is an \<open>option\<close>, the
  interface value \<^verbatim>\<open>error\<close> is an \<open>error option\<close> (\<open>None\<close> is nil), a
  \<^verbatim>\<open>time.Duration\<close> is a signed 64-bit word counting nanoseconds, and a run-time
  panic is the left injection of a sum. Logging is left out. Every call to the CA, to
  the solver and to the wait primitive is recorded as an event, in program order.
\<close>

subsection \<open>Data\<close>

type_synonym bytes = "string option"

definition len_bytes :: "bytes \<Rightarrow> nat" where
  "len_bytes b = (case b of None \<Rightarrow> 0 | Some s \<Rightarrow> length s)"

type_synonym Duration = "64 word"

text \<open>\<^verbatim>\<open>time.Second\<close>, in nanoseconds.\<close>

definition Second :: Duration where
  "Second = 1000000000"

text \<open>Go's \<^verbatim>\<open>/\<close> on signed integers truncates towards zero.\<close>

definition duration_div :: "Duration \<Rightarrow> Duration \<Rightarrow> Duration" where
  "duration_div a b = word_of_int (sint a sdiv sint b)"

text \<open>
  The error values of the package. \<open>ErrExternal\<close> stands for an error returned by a
  collaborator (the ACME core, the solver, certcrypto, idna). \<open>ErrInvalidOrder\<close> is
  \<^verbatim>\<open>fmt.Errorf("invalid order: %w", order.Err())\<close>; \<open>ErrStartsWithCA\<close> is
  \<^verbatim>\<open>fmt.Errorf("[%s] Certificate bundle starts with a CA certificate", domain)\<close>.
  \<open>ErrTimeLimit\<close> and \<open>ErrObtain\<close> come from the wait primitive and from the error
  aggregator (see below).
\<close>

datatype error =
    ErrNoDomains
  | ErrCSRMissing
  | ErrExternal string
  | ErrInvalidOrder "error option"
  | ErrStartsWithCA string
  | ErrTimeLimit string
  | ErrObtain "(string \<times> error) list"

text \<open>Where an index expression of the source can be out of range.\<close>

datatype site = AtGetForOrder | AtGetForCSR | AtHasPreferredChain | AtRenew | AtGet

datatype panic = IndexOutOfRange site | NilDereference

record Resource =
  Domain :: string
  CertURL :: string
  CertStableURL :: string
  PrivateKey :: bytes
  Certificate :: bytes
  IssuerCertificate :: bytes
  CSR :: bytes

text \<open>\<^verbatim>\<open>crypto.PrivateKey\<close>, \<^verbatim>\<open>certcrypto.KeyType\<close> and \<^verbatim>\<open>time.Time\<close> are opaque here.\<close>

type_synonym PrivateKey = string
type_synonym KeyType = string
type_synonym Time = int

record ObtainRequest =
  req_Domains :: "string list"
  req_PrivateKey :: "PrivateKey option"
  req_MustStaple :: bool
  req_EmailAddresses :: "string list"
  req_NotBefore :: Time
  req_NotAfter :: Time
  req_Bundle :: bool
  req_PreferredChain :: string
  req_Profile :: string
  req_AlwaysDeactivateAuthorizations :: bool
  req_ReplacesCertID :: string

text \<open>\<^verbatim>\<open>x509.CertificateRequest\<close>: only its \<^verbatim>\<open>Raw\<close> field is read here.\<close>

record CertificateRequest =
  csr_Raw :: bytes

record ObtainForCSRRequest =
  creq_CSR :: "CertificateRequest option"
  creq_PrivateKey :: "PrivateKey option"
  creq_NotBefore :: Time
  creq_NotAfter :: Time
  creq_Bundle :: bool
  creq_PreferredChain :: string
  creq_Profile :: string
  creq_AlwaysDeactivateAuthorizations :: bool
  creq_ReplacesCertID :: string

record CertifierOptions =
  KeyType :: KeyType
  Timeout :: Duration
  OverallRequestLimit :: int
  DisableCommonName :: bool

record RenewOptions =
  ro_NotBefore :: Time
  ro_NotAfter :: Time
  ro_Bundle :: bool
  ro_PreferredChain :: string
  ro_Profile :: string
  ro_AlwaysDeactivateAuthorizations :: bool
  ro_MustStaple :: bool
  ro_EmailAddresses :: "string list"

text \<open>The types of the packages \<^verbatim>\<open>acme\<close>, \<^verbatim>\<open>acme/api\<close>, \<^verbatim>\<open>certcrypto\<close> and
  \<^verbatim>\<open>crypto/x509\<close>, with the fields this file reads.\<close>

record Identifier =
  id_Type :: string
  id_Value :: string

record Authorization =
  az_Identifier :: Identifier
  az_Wildcard :: bool

record ExtendedOrder =
  o_Status :: string
  o_Identifiers :: "Identifier list"
  o_Authorizations :: "string list"
  o_Finalize :: string
  o_Certificate :: string
  o_Location :: string
  o_Err :: "error option"

record OrderOptions =
  oo_NotBefore :: Time
  oo_NotAfter :: Time
  oo_Profile :: string
  oo_ReplacesCertID :: string

record RawCertificate =
  Cert :: bytes
  Issuer :: bytes

record x509Certificate =
  IsCA :: bool
  Issuer_CommonName :: string

record CSROptions =
  co_Domain :: string
  co_SAN :: "string list"
  co_MustStaple :: bool
  co_EmailAddresses :: "string list"

text \<open>\<^verbatim>\<open>acme.StatusValid\<close> and \<^verbatim>\<open>acme.StatusInvalid\<close> (RFC 8555, section 7.1.6).\<close>

definition StatusValid :: string where
  "StatusValid = ''valid''"

definition StatusInvalid :: string where
  "StatusInvalid = ''invalid''"

subsection \<open>The collaborators\<close>

text \<open>
  Everything the file calls outside itself, as parameters: the ACME core
  (\<^verbatim>\<open>c.core.Orders\<close>, \<^verbatim>\<open>c.core.Certificates\<close>), the challenge solver
  (\<^verbatim>\<open>c.resolver\<close>), the method \<^verbatim>\<open>getAuthorizations\<close>, and the functions of
  \<^verbatim>\<open>certcrypto\<close>, \<^verbatim>\<open>challenge\<close> and \<^verbatim>\<open>idna\<close>. \<open>Orders_Get\<close> takes the number of
  earlier polls, since the CA may answer each poll differently. \<open>Certificates_GetAll\<close>
  returns a Go map from link to \<^verbatim>\<open>*RawCertificate\<close>; it is given as the list of its
  entries in the order in which \<^verbatim>\<open>range\<close> visits them, which Go does not fix.
  \<open>wait_samples\<close> is the number of times the wait primitive runs its callback before
  the time limit, for a given timeout and interval. \<^verbatim>\<open>certcrypto.PEMEncode\<close> takes a
  value of any type; it appears once for each type it is applied to.
\<close>

record world =
  idna_ToASCII :: "string \<Rightarrow> error + string"
  Orders_NewWithOptions :: "string list \<Rightarrow> OrderOptions \<Rightarrow> error + ExtendedOrder"
  getAuthorizations :: "ExtendedOrder \<Rightarrow> error + Authorization list"
  resolver_Solve :: "Authorization list \<Rightarrow> error option"
  GetTargetedDomain :: "Authorization \<Rightarrow> string"
  GeneratePrivateKey :: "KeyType \<Rightarrow> error + PrivateKey"
  CreateCSR :: "PrivateKey \<Rightarrow> CSROptions \<Rightarrow> error + bytes"
  PEMEncode_key :: "PrivateKey \<Rightarrow> bytes"
  PEMEncode_csr :: "CertificateRequest \<Rightarrow> bytes"
  Orders_UpdateForCSR :: "string \<Rightarrow> bytes \<Rightarrow> error + ExtendedOrder"
  Orders_Get :: "nat \<Rightarrow> string \<Rightarrow> error + ExtendedOrder"
  Certificates_GetAll :: "string \<Rightarrow> bool \<Rightarrow> error + (string \<times> RawCertificate) list"
  Certificates_Get :: "string \<Rightarrow> bool \<Rightarrow> error + (bytes \<times> bytes)"
  ParsePEMBundle :: "bytes \<Rightarrow> error + x509Certificate list"
  GetCertificateMainDomain :: "x509Certificate \<Rightarrow> error + string"
  ExtractDomains :: "x509Certificate \<Rightarrow> string list"
  ExtractDomainsCSR :: "CertificateRequest \<Rightarrow> string list"
  PemDecodeTox509CSR :: "bytes \<Rightarrow> error + CertificateRequest"
  ParsePEMPrivateKey :: "bytes \<Rightarrow> error + PrivateKey"
  wait_samples :: "Duration \<Rightarrow> Duration \<Rightarrow> nat"

text \<open>The calls made so far, and how many times the order was polled.\<close>

datatype event =
    EvNewOrder "string list" OrderOptions
  | EvGetAuthorizations
  | EvSolve
  | EvDeactivate string
  | EvFinalize string
  | EvWait string Duration Duration
  | EvOrderGet string
  | EvGetAll string bool
  | EvCertGet string bool

record net =
  events :: "event list"
  polls :: nat

definition emit :: "event \<Rightarrow> net \<Rightarrow> net" where
  "emit e s = s\<lparr>events := events s @ [e]\<rparr>"

definition net0 :: net where
  "net0 = \<lparr>events = [], polls = 0\<rparr>"

subsection \<open>sanitizeDomain\<close>

fun sanitize_loop :: "world \<Rightarrow> string list \<Rightarrow> string list \<Rightarrow> string list" where
  "sanitize_loop w sanitizedDomains [] = sanitizedDomains"
| "sanitize_loop w sanitizedDomains (domain # rest) =
     (case idna_ToASCII w domain of
        Inl err \<Rightarrow> sanitize_loop w sanitizedDomains rest
      | Inr sanitizedDomain \<Rightarrow> sanitize_loop w (sanitizedDomains @ [sanitizedDomain]) rest)"

definition sanitizeDomain :: "world \<Rightarrow> string list \<Rightarrow> string list" where
  "sanitizeDomain w domains = sanitize_loop w [] domains"

subsection \<open>The Certifier\<close>

record Certifier =
  options :: CertifierOptions
  overallRequestLimit :: int

definition DefaultOverallRequestLimit :: int where
  "DefaultOverallRequestLimit = 18"

definition NewCertifier :: "CertifierOptions \<Rightarrow> Certifier" where
  "NewCertifier opts =
     \<lparr>options = opts,
      overallRequestLimit =
        (if OverallRequestLimit opts \<le> 0 then DefaultOverallRequestLimit
         else OverallRequestLimit opts)\<rparr>"

subsection \<open>Helpers of the package that are not in certificates.go\<close>

text \<open>
  Modelled from the spec: the error aggregator (\<^verbatim>\<open>newObtainError\<close>, \<^verbatim>\<open>Add\<close>, \<^verbatim>\<open>Join\<close>;
  their file is not among the sources). It accumulates (domain, error) pairs; joining
  zero entries yields no error, joining one or more yields a single composite error
  that enumerates every affected domain and its cause.
\<close>

type_synonym obtainError = "(string \<times> error) list"

definition newObtainError :: obtainError where
  "newObtainError = []"

definition obtainError_Add :: "obtainError \<Rightarrow> string \<Rightarrow> error \<Rightarrow> obtainError" where
  "obtainError_Add e domain err = e @ [(domain, err)]"

definition obtainError_Join :: "obtainError \<Rightarrow> error option" where
  "obtainError_Join e = (if e = [] then None else Some (ErrObtain e))"

text \<open>
  Modelled from the spec: \<^verbatim>\<open>deactivateAuthorizations(order, force)\<close> (a method of the
  Certifier whose file is not among the sources). The spec has the authorizations of
  the order deactivated "if requested", "per flag": with the flag set, one
  deactivation call per authorization URL of the order; with the flag unset, none.
\<close>

definition deactivateAuthorizations :: "ExtendedOrder \<Rightarrow> bool \<Rightarrow> net \<Rightarrow> net" where
  "deactivateAuthorizations order force s =
     (if force then s\<lparr>events := events s @ map EvDeactivate (o_Authorizations order)\<rparr>
      else s)"

text \<open>
  Modelled from the spec: \<^verbatim>\<open>wait.For(msg, timeout, interval, f)\<close> (package
  \<^verbatim>\<open>platform/wait\<close> is not among the sources). The spec has the poll loop sample the
  callback until it reports completion, a fatal error ends the loop with that error,
  and the expiry of the time limit is a failure of its own. The number of samples
  that fit into the time limit is \<open>wait_samples\<close> of the world.
\<close>

fun wait_loop ::
  "nat \<Rightarrow> string \<Rightarrow> ('s \<Rightarrow> panic + ('s \<times> bool \<times> error option)) \<Rightarrow> 's \<Rightarrow> panic + ('s \<times> error option)"
where
  "wait_loop 0 msg f s = Inr (s, Some (ErrTimeLimit msg))"
| "wait_loop (Suc n) msg f s =
     (case f s of
        Inl p \<Rightarrow> Inl p
      | Inr (s', stop, err) \<Rightarrow>
          (case err of
             Some e \<Rightarrow> Inr (s', Some e)
           | None \<Rightarrow> if stop then Inr (s', None) else wait_loop n msg f s'))"

definition wait_For ::
  "world \<Rightarrow> string \<Rightarrow> Duration \<Rightarrow> Duration \<Rightarrow>
   (net \<times> 'r \<Rightarrow> panic + ((net \<times> 'r) \<times> bool \<times> error option)) \<Rightarrow> net \<times> 'r \<Rightarrow>
   panic + ((net \<times> 'r) \<times> error option)"
where
  "wait_For w msg timeout interval f st =
     wait_loop (wait_samples w timeout interval) msg f
       (emit (EvWait msg timeout interval) (fst st), snd st)"

subsection \<open>checkOrderStatus, hasPreferredChain, checkResponse\<close>

definition checkOrderStatus :: "ExtendedOrder \<Rightarrow> bool \<times> error option" where
  "checkOrderStatus order =
     (if o_Status order = StatusValid then (True, None)
      else if o_Status order = StatusInvalid then (False, Some (ErrInvalidOrder (o_Err order)))
      else (False, None))"

definition hasPreferredChain :: "world \<Rightarrow> bytes \<Rightarrow> string \<Rightarrow> panic + (bool \<times> error option)" where
  "hasPreferredChain w issuer preferredChain =
     (case ParsePEMBundle w issuer of
        Inl err \<Rightarrow> Inr (False, Some err)
      | Inr certs \<Rightarrow>
          if certs = [] then Inl (IndexOutOfRange AtHasPreferredChain)
          else
            (let topCert = certs ! (length certs - 1) in
             if Issuer_CommonName topCert = preferredChain then Inr (True, None)
             else Inr (False, None)))"

text \<open>The loop \<^verbatim>\<open>for link, cert := range certs\<close> of checkResponse.\<close>

fun chain_loop ::
  "world \<Rightarrow> string \<Rightarrow> (string \<times> RawCertificate) list \<Rightarrow> Resource \<Rightarrow>
   panic + (Resource \<times> bool \<times> error option)"
where
  "chain_loop w preferredChain [] certRes = Inr (certRes, True, None)"
| "chain_loop w preferredChain ((link, cert) # rest) certRes =
     (case hasPreferredChain w (Issuer cert) preferredChain of
        Inl p \<Rightarrow> Inl p
      | Inr (ok, err) \<Rightarrow>
          (case err of
             Some e \<Rightarrow> Inr (certRes, False, Some e)
           | None \<Rightarrow>
               if ok then
                 Inr (certRes\<lparr>IssuerCertificate := Issuer cert, Certificate := Cert cert,
                        CertURL := link, CertStableURL := link\<rparr>, True, None)
               else chain_loop w preferredChain rest certRes))"

text \<open>
  checkResponse writes through the pointer \<^verbatim>\<open>certRes\<close>; the model returns the
  Resource it leaves behind, also when it returns an error. Reading a field of
  \<^verbatim>\<open>certs[order.Certificate]\<close> when the map has no such key dereferences nil.
\<close>

definition checkResponse ::
  "world \<Rightarrow> ExtendedOrder \<Rightarrow> Resource \<Rightarrow> bool \<Rightarrow> string \<Rightarrow> net \<Rightarrow>
   panic + (net \<times> Resource \<times> bool \<times> error option)"
where
  "checkResponse w order certRes bundle preferredChain s =
     (case checkOrderStatus order of
        (valid, err) \<Rightarrow>
          if err \<noteq> None \<or> \<not> valid then Inr (s, certRes, valid, err)
          else
            (let s1 = emit (EvGetAll (o_Certificate order) bundle) s in
             case Certificates_GetAll w (o_Certificate order) bundle of
               Inl e \<Rightarrow> Inr (s1, certRes, False, Some e)
             | Inr certs \<Rightarrow>
                 (case map_of certs (o_Certificate order) of
                    None \<Rightarrow> Inl NilDereference
                  | Some dflt \<Rightarrow>
                      (let certRes1 = certRes\<lparr>IssuerCertificate := Issuer dflt,
                                        Certificate := Cert dflt,
                                        CertURL := o_Certificate order,
                                        CertStableURL := o_Certificate order\<rparr> in
                       if preferredChain = [] then Inr (s1, certRes1, True, None)
                       else
                         (case chain_loop w preferredChain certs certRes1 of
                            Inl p \<Rightarrow> Inl p
                          | Inr (r, ok, e) \<Rightarrow> Inr (s1, r, ok, e))))))"

subsection \<open>getForCSR and getForOrder\<close>

text \<open>The timeout and the interval that getForCSR hands to the wait primitive.\<close>

definition pollTimeout :: "Certifier \<Rightarrow> Duration" where
  "pollTimeout c =
     (if sint (Timeout (options c)) \<le> 0 then 30 * Second else Timeout (options c))"

definition pollInterval :: "Certifier \<Rightarrow> Duration" where
  "pollInterval c = duration_div (pollTimeout c) 60"

text \<open>The callback of the wait primitive: one poll of the order.\<close>

definition poll_step ::
  "world \<Rightarrow> ExtendedOrder \<Rightarrow> bool \<Rightarrow> string \<Rightarrow> net \<times> Resource \<Rightarrow>
   panic + ((net \<times> Resource) \<times> bool \<times> error option)"
where
  "poll_step w order bundle preferredChain st =
     (let s = fst st; certRes = snd st;
          s1 = (emit (EvOrderGet (o_Location order)) s)\<lparr>polls := Suc (polls s)\<rparr> in
      case Orders_Get w (polls s) (o_Location order) of
        Inl errW \<Rightarrow> Inr ((s1, certRes), False, Some errW)
      | Inr ord \<Rightarrow>
          (case checkResponse w ord certRes bundle preferredChain s1 of
             Inl p \<Rightarrow> Inl p
           | Inr (s2, certRes2, done, errW) \<Rightarrow>
               (case errW of
                  Some e \<Rightarrow> Inr ((s2, certRes2), False, Some e)
                | None \<Rightarrow> Inr ((s2, certRes2), done, None))))"

definition poll_certificate ::
  "world \<Rightarrow> Certifier \<Rightarrow> ExtendedOrder \<Rightarrow> bool \<Rightarrow> string \<Rightarrow> Resource \<Rightarrow> net \<Rightarrow>
   panic + (net \<times> Resource option \<times> error option)"
where
  "poll_certificate w c order bundle preferredChain certRes s =
     (case wait_For w ''certificate'' (pollTimeout c) (pollInterval c)
             (poll_step w order bundle preferredChain) (s, certRes) of
        Inl p \<Rightarrow> Inl p
      | Inr ((s', certRes'), err) \<Rightarrow> Inr (s', Some certRes', err))"

definition getForCSR ::
  "world \<Rightarrow> Certifier \<Rightarrow> string list \<Rightarrow> ExtendedOrder \<Rightarrow> bool \<Rightarrow> bytes \<Rightarrow> bytes \<Rightarrow> string \<Rightarrow>
   net \<Rightarrow> panic + (net \<times> Resource option \<times> error option)"
where
  "getForCSR w c domains order bundle csr privateKeyPem preferredChain s =
     (let s1 = emit (EvFinalize (o_Finalize order)) s in
      case Orders_UpdateForCSR w (o_Finalize order) csr of
        Inl err \<Rightarrow> Inr (s1, None, Some err)
      | Inr respOrder \<Rightarrow>
          (case domains of
             [] \<Rightarrow> Inl (IndexOutOfRange AtGetForCSR)
           | domain0 # _ \<Rightarrow>
               (let certRes = \<lparr>Domain = domain0, CertURL = o_Certificate respOrder,
                               CertStableURL = [], PrivateKey = privateKeyPem,
                               Certificate = None, IssuerCertificate = None, CSR = None\<rparr> in
                if o_Status respOrder = StatusValid then
                  (case checkResponse w respOrder certRes bundle preferredChain s1 of
                     Inl p \<Rightarrow> Inl p
                   | Inr (s2, certRes2, ok, errR) \<Rightarrow>
                       (case errR of
                          Some e \<Rightarrow> Inr (s2, None, Some e)
                        | None \<Rightarrow>
                            if ok then Inr (s2, Some certRes2, None)
                            else poll_certificate w c order bundle preferredChain certRes2 s2))
                else poll_certificate w c order bundle preferredChain certRes s1)))"

text \<open>The loop \<^verbatim>\<open>for _, auth := range order.Identifiers\<close> of getForOrder.\<close>

fun san_loop :: "string \<Rightarrow> string list \<Rightarrow> Identifier list \<Rightarrow> string list" where
  "san_loop commonName san [] = san"
| "san_loop commonName san (auth # rest) =
     (if id_Value auth \<noteq> commonName then san_loop commonName (san @ [id_Value auth]) rest
      else san_loop commonName san rest)"

text \<open>Lines 304 to 332 of getForOrder, for \<^verbatim>\<open>domains[0] = domain0\<close>.\<close>

definition csrOptions_of :: "Certifier \<Rightarrow> string \<Rightarrow> ExtendedOrder \<Rightarrow> ObtainRequest \<Rightarrow> CSROptions" where
  "csrOptions_of c domain0 order request =
     (let commonName =
            (if length domain0 \<le> 64 \<and> \<not> DisableCommonName (options c) then domain0 else []);
          san0 = (if commonName \<noteq> [] then [commonName] else []);
          san = san_loop commonName san0 (o_Identifiers order)
      in \<lparr>co_Domain = commonName, co_SAN = san,
           co_MustStaple = req_MustStaple request,
           co_EmailAddresses = req_EmailAddresses request\<rparr>)"

definition getForOrder ::
  "world \<Rightarrow> Certifier \<Rightarrow> string list \<Rightarrow> ExtendedOrder \<Rightarrow> ObtainRequest \<Rightarrow> net \<Rightarrow>
   panic + (net \<times> Resource option \<times> error option)"
where
  "getForOrder w c domains order request s =
     (case (case req_PrivateKey request of
              Some k \<Rightarrow> Inr k
            | None \<Rightarrow> GeneratePrivateKey w (KeyType (options c))) of
        Inl err \<Rightarrow> Inr (s, None, Some err)
      | Inr privateKey \<Rightarrow>
          (case domains of
             [] \<Rightarrow> Inl (IndexOutOfRange AtGetForOrder)
           | domain0 # _ \<Rightarrow>
               (case CreateCSR w privateKey (csrOptions_of c domain0 order request) of
                  Inl err \<Rightarrow> Inr (s, None, Some err)
                | Inr csr \<Rightarrow>
                    getForCSR w c domains order (req_Bundle request) csr
                      (PEMEncode_key w privateKey) (req_PreferredChain request) s)))"

subsection \<open>Obtain and ObtainForCSR\<close>

text \<open>The loop \<^verbatim>\<open>for _, auth := range authz { failures.Add(...) }\<close>.\<close>

definition add_failures :: "world \<Rightarrow> Authorization list \<Rightarrow> error option \<Rightarrow> obtainError" where
  "add_failures w authz err =
     (case err of
        None \<Rightarrow> newObtainError
      | Some e \<Rightarrow>
          foldl (\<lambda>failures auth. obtainError_Add failures (GetTargetedDomain w auth) e)
            newObtainError authz)"

text \<open>The \<^verbatim>\<open>api.OrderOptions\<close> that Obtain and ObtainForCSR build from the request.\<close>

definition orderOptions_of :: "ObtainRequest \<Rightarrow> OrderOptions" where
  "orderOptions_of request =
     \<lparr>oo_NotBefore = req_NotBefore request, oo_NotAfter = req_NotAfter request,
      oo_Profile = req_Profile request, oo_ReplacesCertID = req_ReplacesCertID request\<rparr>"

definition orderOptions_of_csr :: "ObtainForCSRRequest \<Rightarrow> OrderOptions" where
  "orderOptions_of_csr request =
     \<lparr>oo_NotBefore = creq_NotBefore request, oo_NotAfter = creq_NotAfter request,
      oo_Profile = creq_Profile request, oo_ReplacesCertID = creq_ReplacesCertID request\<rparr>"

definition Obtain ::
  "world \<Rightarrow> Certifier \<Rightarrow> ObtainRequest \<Rightarrow> net \<Rightarrow> panic + (net \<times> Resource option \<times> error option)"
where
  "Obtain w c request s =
     (if length (req_Domains request) = 0 then Inr (s, None, Some ErrNoDomains)
      else
        (let domains = sanitizeDomain w (req_Domains request);
             orderOpts = orderOptions_of request;
             s1 = emit (EvNewOrder domains orderOpts) s in
         case Orders_NewWithOptions w domains orderOpts of
           Inl err \<Rightarrow> Inr (s1, None, Some err)
         | Inr order \<Rightarrow>
             (let s2 = emit EvGetAuthorizations s1 in
              case getAuthorizations w order of
                Inl err \<Rightarrow>
                  Inr (deactivateAuthorizations order
                         (req_AlwaysDeactivateAuthorizations request) s2, None, Some err)
              | Inr authz \<Rightarrow>
                  (let s3 = emit EvSolve s2 in
                   case resolver_Solve w authz of
                     Some err \<Rightarrow>
                       Inr (deactivateAuthorizations order
                              (req_AlwaysDeactivateAuthorizations request) s3, None, Some err)
                   | None \<Rightarrow>
                       (case getForOrder w c domains order request s3 of
                          Inl p \<Rightarrow> Inl p
                        | Inr (s4, cert, err) \<Rightarrow>
                            (let failures = add_failures w authz err;
                                 s5 = (if req_AlwaysDeactivateAuthorizations request
                                       then deactivateAuthorizations order True s4 else s4)
                             in Inr (s5, cert, obtainError_Join failures)))))))"

definition ObtainForCSR ::
  "world \<Rightarrow> Certifier \<Rightarrow> ObtainForCSRRequest \<Rightarrow> net \<Rightarrow>
   panic + (net \<times> Resource option \<times> error option)"
where
  "ObtainForCSR w c request s =
     (case creq_CSR request of
        None \<Rightarrow> Inr (s, None, Some ErrCSRMissing)
      | Some csr \<Rightarrow>
        (let domains = ExtractDomainsCSR w csr;
             orderOpts = orderOptions_of_csr request;
             s1 = emit (EvNewOrder domains orderOpts) s in
         case Orders_NewWithOptions w domains orderOpts of
           Inl err \<Rightarrow> Inr (s1, None, Some err)
         | Inr order \<Rightarrow>
             (let s2 = emit EvGetAuthorizations s1 in
              case getAuthorizations w order of
                Inl err \<Rightarrow>
                  Inr (deactivateAuthorizations order
                         (creq_AlwaysDeactivateAuthorizations request) s2, None, Some err)
              | Inr authz \<Rightarrow>
                  (let s3 = emit EvSolve s2 in
                   case resolver_Solve w authz of
                     Some err \<Rightarrow>
                       Inr (deactivateAuthorizations order
                              (creq_AlwaysDeactivateAuthorizations request) s3, None, Some err)
                   | None \<Rightarrow>
                       (let privateKey = (case creq_PrivateKey request of
                                            Some k \<Rightarrow> PEMEncode_key w k
                                          | None \<Rightarrow> None) in
                        case getForCSR w c domains order (creq_Bundle request) (csr_Raw csr)
                               privateKey (creq_PreferredChain request) s3 of
                          Inl p \<Rightarrow> Inl p
                        | Inr (s4, cert, err) \<Rightarrow>
                            (let failures = add_failures w authz err;
                                 s5 = (if creq_AlwaysDeactivateAuthorizations request
                                       then deactivateAuthorizations order True s4 else s4);
                                 cert' = (case cert of
                                            None \<Rightarrow> None
                                          | Some r \<Rightarrow> Some (r\<lparr>CSR := PEMEncode_csr w csr\<rparr>))
                             in Inr (s5, cert', obtainError_Join failures)))))))"

subsection \<open>RenewWithOptions and Get\<close>

text \<open>The requests RenewWithOptions builds; \<^verbatim>\<open>options\<close> may be nil. Fields that are
  not assigned keep their zero value.\<close>

definition renew_csr_request :: "CertificateRequest \<Rightarrow> RenewOptions option \<Rightarrow> ObtainForCSRRequest" where
  "renew_csr_request csr opts =
     (let request = \<lparr>creq_CSR = Some csr, creq_PrivateKey = None, creq_NotBefore = 0,
                      creq_NotAfter = 0, creq_Bundle = False, creq_PreferredChain = [],
                      creq_Profile = [], creq_AlwaysDeactivateAuthorizations = False,
                      creq_ReplacesCertID = []\<rparr> in
      case opts of
        None \<Rightarrow> request
      | Some opt \<Rightarrow>
          request\<lparr>creq_NotBefore := ro_NotBefore opt,
                  creq_NotAfter := ro_NotAfter opt,
                  creq_Bundle := ro_Bundle opt,
                  creq_PreferredChain := ro_PreferredChain opt,
                  creq_Profile := ro_Profile opt,
                  creq_AlwaysDeactivateAuthorizations := ro_AlwaysDeactivateAuthorizations opt\<rparr>)"

definition renew_request ::
  "string list \<Rightarrow> PrivateKey option \<Rightarrow> RenewOptions option \<Rightarrow> ObtainRequest"
where
  "renew_request domains privateKey opts =
     (let request = \<lparr>req_Domains = domains, req_PrivateKey = privateKey,
                      req_MustStaple = False, req_EmailAddresses = [], req_NotBefore = 0,
                      req_NotAfter = 0, req_Bundle = False, req_PreferredChain = [],
                      req_Profile = [], req_AlwaysDeactivateAuthorizations = False,
                      req_ReplacesCertID = []\<rparr> in
      case opts of
        None \<Rightarrow> request
      | Some opt \<Rightarrow>
          request\<lparr>req_MustStaple := ro_MustStaple opt,
                  req_NotBefore := ro_NotBefore opt,
                  req_NotAfter := ro_NotAfter opt,
                  req_Bundle := ro_Bundle opt,
                  req_PreferredChain := ro_PreferredChain opt,
                  req_EmailAddresses := ro_EmailAddresses opt,
                  req_Profile := ro_Profile opt,
                  req_AlwaysDeactivateAuthorizations := ro_AlwaysDeactivateAuthorizations opt\<rparr>)"

definition RenewWithOptions ::
  "world \<Rightarrow> Certifier \<Rightarrow> Resource \<Rightarrow> RenewOptions option \<Rightarrow> net \<Rightarrow>
   panic + (net \<times> Resource option \<times> error option)"
where
  "RenewWithOptions w c certRes opts s =
     (case ParsePEMBundle w (Certificate certRes) of
        Inl err \<Rightarrow> Inr (s, None, Some err)
      | Inr certificates \<Rightarrow>
          (case certificates of
             [] \<Rightarrow> Inl (IndexOutOfRange AtRenew)
           | x509Cert # _ \<Rightarrow>
               if IsCA x509Cert then Inr (s, None, Some (ErrStartsWithCA (Domain certRes)))
               else if len_bytes (CSR certRes) > 0 then
                 (case PemDecodeTox509CSR w (CSR certRes) of
                    Inl errP \<Rightarrow> Inr (s, None, Some errP)
                  | Inr csr \<Rightarrow> ObtainForCSR w c (renew_csr_request csr opts) s)
               else
                 (case (if PrivateKey certRes \<noteq> None
                        then (case ParsePEMPrivateKey w (PrivateKey certRes) of
                                Inl err \<Rightarrow> Inl err
                              | Inr k \<Rightarrow> Inr (Some k))
                        else Inr None) of
                    Inl err \<Rightarrow> Inr (s, None, Some err)
                  | Inr privateKey \<Rightarrow>
                      Obtain w c (renew_request (ExtractDomains w x509Cert) privateKey opts) s)))"

definition Get ::
  "world \<Rightarrow> string \<Rightarrow> bool \<Rightarrow> net \<Rightarrow> panic + (net \<times> Resource option \<times> error option)"
where
  "Get w url bundle s =
     (let s1 = emit (EvCertGet url bundle) s in
      case Certificates_Get w url bundle of
        Inl err \<Rightarrow> Inr (s1, None, Some err)
      | Inr (cert, issuer) \<Rightarrow>
          (case ParsePEMBundle w cert of
             Inl err \<Rightarrow> Inr (s1, None, Some err)
           | Inr x509Certs \<Rightarrow>
               (case x509Certs of
                  [] \<Rightarrow> Inl (IndexOutOfRange AtGet)
                | x509Cert # _ \<Rightarrow>
                    (case GetCertificateMainDomain w x509Cert of
                       Inl err \<Rightarrow> Inr (s1, None, Some err)
                     | Inr domain \<Rightarrow>
                         Inr (s1, Some \<lparr>Domain = domain, CertURL = url, CertStableURL = url,
                                         PrivateKey = None, Certificate = cert,
                                         IssuerCertificate = issuer, CSR = None\<rparr>, None)))))"

subsection \<open>Reading the trace\<close>

text \<open>The arguments of the calls of the wait primitive in a trace.\<close>

definition wait_calls :: "event list \<Rightarrow> (string \<times> Duration \<times> Duration) list" where
  "wait_calls es =
     concat (map (\<lambda>e. case e of EvWait msg t i \<Rightarrow> [(msg, t, i)] | _ \<Rightarrow> []) es)"

text \<open>
  Two predicates on a candidate of the chain selection, in the words of the
  specification: its issuer chain parses (to at least one certificate), and the topmost
  certificate of its issuer chain has the preferred name as Issuer common name.
\<close>

definition issuer_parses :: "world \<Rightarrow> RawCertificate \<Rightarrow> bool" where
  "issuer_parses w cert =
     (case ParsePEMBundle w (Issuer cert) of Inl err \<Rightarrow> False | Inr certs \<Rightarrow> certs \<noteq> [])"

definition top_issuer_is :: "world \<Rightarrow> string \<Rightarrow> RawCertificate \<Rightarrow> bool" where
  "top_issuer_is w preferredChain cert =
     (case ParsePEMBundle w (Issuer cert) of
        Inl err \<Rightarrow> False
      | Inr certs \<Rightarrow> certs \<noteq> [] \<and> Issuer_CommonName (last certs) = preferredChain)"

text \<open>What checkResponse stores in the Resource for the candidate at \<open>link\<close>.\<close>

definition store_chain :: "string \<Rightarrow> RawCertificate \<Rightarrow> Resource \<Rightarrow> Resource" where
  "store_chain link cert certRes =
     certRes\<lparr>IssuerCertificate := Issuer cert, Certificate := Cert cert,
             CertURL := link, CertStableURL := link\<rparr>"

text \<open>The Resource that getForCSR creates after the finalize request, for
  \<^verbatim>\<open>domains[0] = domain0\<close>.\<close>

definition fresh_resource :: "string \<Rightarrow> ExtendedOrder \<Rightarrow> bytes \<Rightarrow> Resource" where
  "fresh_resource domain0 respOrder privateKeyPem =
     \<lparr>Domain = domain0, CertURL = o_Certificate respOrder, CertStableURL = [],
      PrivateKey = privateKeyPem, Certificate = None, IssuerCertificate = None, CSR = None\<rparr>"

text \<open>The Resource after the chain selection, when every issuer chain parses.\<close>

definition select_chain ::
  "world \<Rightarrow> string \<Rightarrow> (string \<times> RawCertificate) list \<Rightarrow> string \<Rightarrow> RawCertificate \<Rightarrow>
   Resource \<Rightarrow> Resource"
where
  "select_chain w preferredChain certs url dflt certRes =
     (if preferredChain = [] then store_chain url dflt certRes
      else
        (case find (\<lambda>(link, cert). top_issuer_is w preferredChain cert) certs of
           None \<Rightarrow> store_chain url dflt certRes
         | Some (link, cert) \<Rightarrow> store_chain link cert certRes))"

text \<open>
  Two relations between the Resource before and after a call of checkResponse, used to
  state what the callers return: \<open>r'\<close> is \<open>r0\<close> with one of the chains that the CA
  offers stored in it; and \<open>r'\<close> is \<open>r0\<close> with the default chain stored in it, while
  the issuer bytes of one of the offered chains failed to parse with error \<open>e\<close>.
\<close>

definition chain_stored :: "world \<Rightarrow> bool \<Rightarrow> Resource \<Rightarrow> Resource \<Rightarrow> bool" where
  "chain_stored w bdl r0 r' =
     (\<exists>url certs link cert.
        Certificates_GetAll w url bdl = Inr certs \<and> (link, cert) \<in> set certs
        \<and> r' = store_chain link cert r0)"

definition default_stored_parse_failed ::
  "world \<Rightarrow> bool \<Rightarrow> Resource \<Rightarrow> error \<Rightarrow> Resource \<Rightarrow> bool"
where
  "default_stored_parse_failed w bdl r0 e r' =
     (\<exists>url certs dflt link cert.
        Certificates_GetAll w url bdl = Inr certs \<and> map_of certs url = Some dflt
        \<and> (link, cert) \<in> set certs \<and> ParsePEMBundle w (Issuer cert) = Inl e
        \<and> r' = store_chain url dflt r0)"

text \<open>
  For the poll loop: the \<open>i\<close>-th poll of the order finds it neither valid nor
  invalid; and the trace and the poll counter after \<open>k\<close> further polls.
\<close>

definition still_waiting :: "world \<Rightarrow> ExtendedOrder \<Rightarrow> nat \<Rightarrow> bool" where
  "still_waiting w order i =
     (case Orders_Get w i (o_Location order) of
        Inl err \<Rightarrow> False
      | Inr ord \<Rightarrow> o_Status ord \<noteq> StatusValid \<and> o_Status ord \<noteq> StatusInvalid)"

definition polled :: "nat \<Rightarrow> ExtendedOrder \<Rightarrow> net \<Rightarrow> net" where
  "polled k order s =
     s\<lparr>events := events s @ replicate k (EvOrderGet (o_Location order)),
       polls := polls s + k\<rparr>"

subsection \<open>A concrete CA, for running the functions\<close>

text \<open>
  A world in which everything succeeds: the CA echoes the requested names as
  identifiers, answers the finalize request with a processing order, the first two
  polls with processing orders and the third with a valid one, and offers two chains,
  issued under \<open>Root A\<close> (the default, at \<open>cert/1\<close>) and \<open>Root B\<close>. The name
  \<open>bad domain\<close> has no ASCII form.
\<close>

definition demo_order :: "string \<Rightarrow> string list \<Rightarrow> ExtendedOrder" where
  "demo_order status domains =
     \<lparr>o_Status = status,
      o_Identifiers = map (\<lambda>d. \<lparr>id_Type = ''dns'', id_Value = d\<rparr>) domains,
      o_Authorizations = map (\<lambda>d. ''authz/'' @ d) domains,
      o_Finalize = ''finalize/1'',
      o_Certificate = (if status = ''valid'' then ''cert/1'' else []),
      o_Location = ''order/1'',
      o_Err = (if status = ''invalid'' then Some (ErrExternal ''rejectedIdentifier'') else None)\<rparr>"

definition demo_world :: world where
  "demo_world =
     \<lparr>idna_ToASCII = (\<lambda>d. if d = ''bad domain'' then Inl (ErrExternal ''idna'') else Inr d),
      Orders_NewWithOptions = (\<lambda>domains opts. Inr (demo_order ''pending'' domains)),
      getAuthorizations =
        (\<lambda>order. Inr (map (\<lambda>i. \<lparr>az_Identifier = i, az_Wildcard = False\<rparr>) (o_Identifiers order))),
      resolver_Solve = (\<lambda>authz. None),
      GetTargetedDomain = (\<lambda>auth. id_Value (az_Identifier auth)),
      GeneratePrivateKey = (\<lambda>kt. Inr ''fresh key''),
      CreateCSR = (\<lambda>key opts. Inr (Some ''csr'')),
      PEMEncode_key = (\<lambda>key. Some key),
      PEMEncode_csr = (\<lambda>csr. Some ''csr pem''),
      Orders_UpdateForCSR = (\<lambda>url csr. Inr (demo_order ''processing'' [''example.com''])),
      Orders_Get =
        (\<lambda>n url. Inr (demo_order (if n < 2 then ''processing'' else ''valid'') [''example.com''])),
      Certificates_GetAll =
        (\<lambda>url bundle. Inr [(''cert/1'', \<lparr>Cert = Some ''leaf 1'', Issuer = Some ''chain A''\<rparr>),
                            (''cert/2'', \<lparr>Cert = Some ''leaf 2'', Issuer = Some ''chain B''\<rparr>)]),
      Certificates_Get = (\<lambda>url bundle. Inr (Some ''leaf 1'', Some ''chain A'')),
      ParsePEMBundle =
        (\<lambda>b. if b = Some ''chain A'' then Inr [\<lparr>IsCA = True, Issuer_CommonName = ''Root A''\<rparr>]
             else if b = Some ''chain B'' then Inr [\<lparr>IsCA = True, Issuer_CommonName = ''Root B''\<rparr>]
             else if b = Some ''leaf 1'' \<or> b = Some ''leaf 2''
               then Inr [\<lparr>IsCA = False, Issuer_CommonName = ''Intermediate''\<rparr>]
             else Inl (ErrExternal ''no certificates were found'')),
      GetCertificateMainDomain = (\<lambda>cert. Inr ''example.com''),
      ExtractDomains = (\<lambda>cert. [''example.com'', ''www.example.com'']),
      ExtractDomainsCSR = (\<lambda>csr. [''example.com'']),
      PemDecodeTox509CSR = (\<lambda>b. Inr \<lparr>csr_Raw = Some ''csr''\<rparr>),
      ParsePEMPrivateKey = (\<lambda>b. Inr ''stored key''),
      wait_samples = (\<lambda>timeout interval. 60)\<rparr>"

definition demo_certifier :: Certifier where
  "demo_certifier =
     NewCertifier \<lparr>KeyType = ''EC256'', Timeout = 0, OverallRequestLimit = 0,
                   DisableCommonName = False\<rparr>"

definition demo_request :: "string list \<Rightarrow> ObtainRequest" where
  "demo_request domains =
     \<lparr>req_Domains = domains, req_PrivateKey = None, req_MustStaple = False,
      req_EmailAddresses = [], req_NotBefore = 0, req_NotAfter = 0, req_Bundle = False,
      req_PreferredChain = [], req_Profile = [],
      req_AlwaysDeactivateAuthorizations = False, req_ReplacesCertID = []\<rparr>"

text \<open>A name of 72 characters.\<close>

definition demo_long_domain :: string where
  "demo_long_domain = replicate 60 (CHR ''a'') @ ''.example.com''"

text \<open>Variants of the world: the solver fails; the finalize request fails; no issuer
  chain parses; the second poll finds the order invalid; the order stays pending and
  the time limit is reached after three polls; the
  order is valid right after the finalize request, but fetching the certificate fails.\<close>

definition demo_world_solve_fails :: world where
  "demo_world_solve_fails =
     demo_world\<lparr>resolver_Solve := (\<lambda>authz. Some (ErrExternal ''challenge failed''))\<rparr>"

definition demo_world_finalize_fails :: world where
  "demo_world_finalize_fails =
     demo_world\<lparr>Orders_UpdateForCSR := (\<lambda>url csr. Inl (ErrExternal ''finalize failed''))\<rparr>"

definition demo_world_no_issuer :: world where
  "demo_world_no_issuer =
     demo_world\<lparr>ParsePEMBundle := (\<lambda>b. Inl (ErrExternal ''no certificates were found''))\<rparr>"

definition demo_world_invalid :: world where
  "demo_world_invalid =
     demo_world\<lparr>Orders_Get :=
       (\<lambda>n url. Inr (demo_order (if n < 1 then ''pending'' else ''invalid'') [''example.com'']))\<rparr>"

definition demo_world_pending :: world where
  "demo_world_pending =
     demo_world\<lparr>Orders_Get := (\<lambda>n url. Inr (demo_order ''pending'' [''example.com''])),
                wait_samples := (\<lambda>timeout interval. 3)\<rparr>"

definition demo_world_valid_fetch_fails :: world where
  "demo_world_valid_fetch_fails =
     demo_world\<lparr>Orders_UpdateForCSR := (\<lambda>url csr. Inr (demo_order ''valid'' [''example.com''])),
                Certificates_GetAll := (\<lambda>url bundle. Inl (ErrExternal ''fetch failed''))\<rparr>"

definition demo_csr_request :: ObtainForCSRRequest where
  "demo_csr_request =
     \<lparr>creq_CSR = Some \<lparr>csr_Raw = Some ''csr''\<rparr>, creq_PrivateKey = None, creq_NotBefore = 0,
      creq_NotAfter = 0, creq_Bundle = False, creq_PreferredChain = [], creq_Profile = [],
      creq_AlwaysDeactivateAuthorizations = False, creq_ReplacesCertID = []\<rparr>"

text \<open>A stored Resource, as an earlier Obtain left it.\<close>

definition demo_resource :: Resource where
  "demo_resource =
     \<lparr>Domain = ''example.com'', CertURL = ''cert/1'', CertStableURL = ''cert/1'',
      PrivateKey = Some ''key pem'', Certificate = Some ''leaf 1'',
      IssuerCertificate = Some ''chain A'', CSR = None\<rparr>"

definition demo_renew_options :: RenewOptions where
  "demo_renew_options =
     \<lparr>ro_NotBefore = 0, ro_NotAfter = 0, ro_Bundle = True, ro_PreferredChain = ''Root B'',
      ro_Profile = [], ro_AlwaysDeactivateAuthorizations = False, ro_MustStaple = True,
      ro_EmailAddresses = [''admin@example.com'']\<rparr>"

text \<open>The Resource as getForCSR creates it, before any certificate is stored.\<close>

definition demo_partial_resource :: Resource where
  "demo_partial_resource =
     \<lparr>Domain = ''example.com'', CertURL = [], CertStableURL = [],
      PrivateKey = Some ''key'', Certificate = None, IssuerCertificate = None, CSR = None\<rparr>"

text \<open>
  Further variants. A CA without authorizations: it lists none for its orders, announces
  a certificate URL in its answer to the finalize request while the order is still
  processing, and fails every poll. A CA that rejects every finalize request and quotes
  the certificate request in its error, with certificate requests written as text, so
  that the names getForOrder asks for can be read off the result. And a Certifier with
  DisableCommonName set.
\<close>

definition demo_world_no_authorizations :: world where
  "demo_world_no_authorizations =
     demo_world\<lparr>getAuthorizations := (\<lambda>order. Inr []),
                Orders_UpdateForCSR :=
                  (\<lambda>url csr. Inr ((demo_order ''processing'' [''example.com''])
                                     \<lparr>o_Certificate := ''cert/9''\<rparr>)),
                Orders_Get := (\<lambda>n url. Inl (ErrExternal ''poll failed''))\<rparr>"

definition demo_world_csr_echo :: world where
  "demo_world_csr_echo =
     demo_world\<lparr>CreateCSR :=
                  (\<lambda>key opts. Inr (Some (''CN='' @ co_Domain opts
                                          @ concat (map (\<lambda>d. '' DNS:'' @ d) (co_SAN opts))))),
                Orders_UpdateForCSR :=
                  (\<lambda>url csr. Inl (ErrExternal (case csr of None \<Rightarrow> [] | Some b \<Rightarrow> b)))\<rparr>"

definition demo_certifier_no_cn :: Certifier where
  "demo_certifier_no_cn =
     NewCertifier \<lparr>KeyType = ''EC256'', Timeout = 0, OverallRequestLimit = 0,
                   DisableCommonName = True\<rparr>"

section \<open>Properties\<close>

subsection \<open>sanitizeDomain\<close>

lemma sanitize_loop_eq:
  "sanitize_loop w acc ds =
     acc @ map (\<lambda>d. projr (idna_ToASCII w d)) (filter (\<lambda>d. \<not> isl (idna_ToASCII w d)) ds)"
  by (induction ds arbitrary: acc) (auto split: sum.splits)

lemma sanitizeDomain_eq:
  "sanitizeDomain w ds =
     map (\<lambda>d. projr (idna_ToASCII w d)) (filter (\<lambda>d. \<not> isl (idna_ToASCII w d)) ds)"
  by (simp add: sanitizeDomain_def sanitize_loop_eq)

text \<open>
  Claim C7. For every list of domain strings, sanitizeDomain returns the ASCII
  encodings of exactly those domains whose conversion succeeds, in the order of the
  input. The output is never longer than the input, and a domain at any position
  contributes its encoding, or nothing when its conversion fails, between the results
  for the domains before it and after it.
\<close>

theorem sanitizeDomain_order_preserving:
  "sanitizeDomain w ds =
     map (\<lambda>d. projr (idna_ToASCII w d)) (filter (\<lambda>d. \<not> isl (idna_ToASCII w d)) ds)
   \<and> length (sanitizeDomain w ds) \<le> length ds
   \<and> sanitizeDomain w (xs @ d # ys) =
       sanitizeDomain w xs
       @ (case idna_ToASCII w d of Inl err \<Rightarrow> [] | Inr a \<Rightarrow> [a])
       @ sanitizeDomain w ys"
proof -
  have len: "length (sanitizeDomain w ds) \<le> length ds"
    unfolding sanitizeDomain_eq by simp
  have app: "sanitizeDomain w (xs @ d # ys) =
       sanitizeDomain w xs
       @ (case idna_ToASCII w d of Inl err \<Rightarrow> [] | Inr a \<Rightarrow> [a])
       @ sanitizeDomain w ys"
    unfolding sanitizeDomain_eq by (cases "idna_ToASCII w d") simp_all
  from len app show ?thesis
    using sanitizeDomain_eq [of w ds] by blast
qed

subsection \<open>The trace of the poll loop\<close>

lemma wait_calls_append [simp]: "wait_calls (xs @ ys) = wait_calls xs @ wait_calls ys"
  by (simp add: wait_calls_def)

lemma wait_calls_simps [simp]:
  "wait_calls [] = []"
  "wait_calls (EvWait msg t i # es) = (msg, t, i) # wait_calls es"
  "wait_calls (EvOrderGet u # es) = wait_calls es"
  "wait_calls (EvGetAll u b # es) = wait_calls es"
  "wait_calls (EvFinalize u # es) = wait_calls es"
  by (simp_all add: wait_calls_def)

lemma checkResponse_frame:
  assumes "checkResponse w order r bdl pc s = Inr (s', r', ok, e)"
  shows "wait_calls (events s') = wait_calls (events s) \<and> polls s' = polls s"
  using assms
  by (auto simp: checkResponse_def emit_def Let_def
           split: prod.splits if_splits sum.splits option.splits)

lemma poll_step_frame:
  assumes "poll_step w order bdl pc (s, r) = Inr ((s', r'), d, e)"
  shows "wait_calls (events s') = wait_calls (events s)"
  using assms
  by (auto simp: poll_step_def emit_def Let_def dest!: checkResponse_frame
           split: prod.splits if_splits sum.splits option.splits)

text \<open>What every step of the callback preserves holds when the wait primitive returns.\<close>

lemma wait_loop_invariant:
  assumes "wait_loop n msg f st = Inr (st', e)"
    and "P st"
    and "\<And>a a' d x. P a \<Longrightarrow> f a = Inr (a', d, x) \<Longrightarrow> P a'"
  shows "P st'"
  using assms(1,2)
proof (induction n arbitrary: st)
  case 0
  then show ?case by simp
next
  case (Suc n)
  show ?case
  proof (cases "f st")
    case (Inl p)
    with Suc.prems show ?thesis by simp
  next
    case (Inr res)
    obtain a d x where res: "res = (a, d, x)" by (cases res)
    have Pa: "P a" using assms(3) [OF Suc.prems(2)] Inr res by simp
    show ?thesis
    proof (cases x)
      case (Some err)
      with Suc.prems Inr res Pa show ?thesis by simp
    next
      case None
      show ?thesis
      proof (cases d)
        case True
        with Suc.prems Inr res None Pa show ?thesis by simp
      next
        case False
        with Suc.prems Inr res None have "wait_loop n msg f a = Inr (st', e)" by simp
        from Suc.IH [OF this Pa] show ?thesis .
      qed
    qed
  qed
qed

lemma poll_certificate_waits:
  assumes "poll_certificate w c order bdl pc r s = Inr (s', res, err)"
  shows "wait_calls (events s') =
           wait_calls (events s) @ [(''certificate'', pollTimeout c, pollInterval c)]"
proof -
  let ?s0 = "emit (EvWait ''certificate'' (pollTimeout c) (pollInterval c)) s"
  let ?P = "\<lambda>st. wait_calls (events (fst st)) = wait_calls (events ?s0)"
  from assms obtain r' where
    loop: "wait_loop (wait_samples w (pollTimeout c) (pollInterval c)) ''certificate''
             (poll_step w order bdl pc) (?s0, r) = Inr ((s', r'), err)"
    by (auto simp: poll_certificate_def wait_For_def split: sum.splits prod.splits)
  have "?P (s', r')"
  proof (rule wait_loop_invariant [where P = "?P", OF loop])
    show "?P (?s0, r)" by simp
  next
    fix a a' d x
    assume "?P a" and "poll_step w order bdl pc a = Inr (a', d, x)"
    then show "?P a'"
      using poll_step_frame [of w order bdl pc "fst a" "snd a" "fst a'" "snd a'" d x]
      by simp
  qed
  then show ?thesis by (simp add: emit_def)
qed

lemma getForCSR_waits:
  assumes "getForCSR w c domains order bdl csr key pc s = Inr (s', res, err)"
  shows "wait_calls (events s') = wait_calls (events s)
       \<or> wait_calls (events s') =
           wait_calls (events s) @ [(''certificate'', pollTimeout c, pollInterval c)]"
  using assms
  by (auto simp: getForCSR_def emit_def Let_def
           dest!: checkResponse_frame poll_certificate_waits
           split: prod.splits if_splits sum.splits option.splits list.splits)

subsection \<open>The cadence of the poll loop\<close>

lemma sint_30_seconds: "sint (30 * Second :: Duration) = 30000000000"
  by (simp add: Second_def)

lemma pollTimeout_positive: "0 < sint (pollTimeout c)"
  by (simp add: pollTimeout_def sint_30_seconds)

lemma sint_duration_div_60:
  assumes "0 < sint (t :: Duration)"
  shows "sint (duration_div t 60) = sint t div 60"
proof -
  have lt: "sint t < 2 ^ 63"
    using sint_lt [of t] by simp
  have eq: "sint t sdiv 60 = sint t div 60"
    using assms by (simp add: signed_divide_int_def sgn_if)
  have lo: "0 \<le> sint t div 60"
    using assms by simp
  have hi: "sint t div 60 < 2 ^ 63"
    using lt assms by (smt (verit) div_by_1 zdiv_mono2)
  have "sint (word_of_int (sint t div 60) :: Duration) = sint t div 60"
    using lo hi by (simp add: sint_sbintrunc' signed_take_bit_int_eq_self)
  then show ?thesis
    by (simp add: duration_div_def eq)
qed

text \<open>
  Claim C6. The timeout of the poll loop is \<open>Timeout\<close> of the options when that is
  positive and 30 seconds otherwise; the interval is the timeout divided by 60 (the
  integer division of Go, on a positive value); and the only call of the wait primitive
  that getForCSR can add to the trace carries exactly this timeout and this interval.
\<close>

theorem poll_timeout_and_interval:
  "pollTimeout c =
     (if 0 < sint (Timeout (options c)) then Timeout (options c) else 30 * Second)
   \<and> sint (30 * Second :: Duration) = 30 * 1000000000
   \<and> sint (pollInterval c) = sint (pollTimeout c) div 60
   \<and> (getForCSR w c domains order bdl csr key pc s = Inr (s', res, err) \<longrightarrow>
        wait_calls (events s') = wait_calls (events s)
        \<or> wait_calls (events s') =
            wait_calls (events s) @ [(''certificate'', pollTimeout c, pollInterval c)])"
proof -
  have a: "pollTimeout c =
     (if 0 < sint (Timeout (options c)) then Timeout (options c) else 30 * Second)"
    by (simp add: pollTimeout_def)
  have b: "sint (pollInterval c) = sint (pollTimeout c) div 60"
    unfolding pollInterval_def by (rule sint_duration_div_60 [OF pollTimeout_positive])
  show ?thesis
    using a b sint_30_seconds getForCSR_waits [of w c domains order bdl csr key pc s s' res err]
    by simp
qed

lemma demo_getForCSR:
  "getForCSR demo_world demo_certifier [''example.com'']
     (demo_order ''pending'' [''example.com'']) False (Some ''csr'') (Some ''key'') [] net0 =
   Inr (\<lparr>events = [EvFinalize ''finalize/1'', EvWait ''certificate'' 30000000000 500000000,
                   EvOrderGet ''order/1'', EvOrderGet ''order/1'', EvOrderGet ''order/1'',
                   EvGetAll ''cert/1'' False],
          polls = 3\<rparr>,
        Some \<lparr>Domain = ''example.com'', CertURL = ''cert/1'', CertStableURL = ''cert/1'',
               PrivateKey = Some ''key'', Certificate = Some ''leaf 1'',
               IssuerCertificate = Some ''chain A'', CSR = None\<rparr>,
        None)"
  by code_simp

theorem poll_timeout_and_interval_witness:
  "getForCSR demo_world demo_certifier [''example.com'']
     (demo_order ''pending'' [''example.com'']) False (Some ''csr'') (Some ''key'') [] net0 =
   Inr (\<lparr>events = [EvFinalize ''finalize/1'', EvWait ''certificate'' 30000000000 500000000,
                   EvOrderGet ''order/1'', EvOrderGet ''order/1'', EvOrderGet ''order/1'',
                   EvGetAll ''cert/1'' False],
          polls = 3\<rparr>,
        Some \<lparr>Domain = ''example.com'', CertURL = ''cert/1'', CertStableURL = ''cert/1'',
               PrivateKey = Some ''key'', Certificate = Some ''leaf 1'',
               IssuerCertificate = Some ''chain A'', CSR = None\<rparr>,
        None)
   \<and> [(''certificate'', 30000000000, 500000000)] =
       [(''certificate'', pollTimeout demo_certifier, pollInterval demo_certifier)]
   \<and> pollTimeout demo_certifier = 30 * Second
   \<and> sint (pollInterval demo_certifier) = sint (pollTimeout demo_certifier) div 60"
proof -
  let ?S = "\<lparr>events = [EvFinalize ''finalize/1'', EvWait ''certificate'' 30000000000 500000000,
                   EvOrderGet ''order/1'', EvOrderGet ''order/1'', EvOrderGet ''order/1'',
                   EvGetAll ''cert/1'' False],
          polls = 3\<rparr>"
  let ?R = "\<lparr>Domain = ''example.com'', CertURL = ''cert/1'', CertStableURL = ''cert/1'',
               PrivateKey = Some ''key'', Certificate = Some ''leaf 1'',
               IssuerCertificate = Some ''chain A'', CSR = None\<rparr>"
  have z: "\<not> 0 < sint (Timeout (options demo_certifier))"
    by code_simp
  note run = demo_getForCSR
  note inst = poll_timeout_and_interval [where c = demo_certifier and w = demo_world
      and domains = "[''example.com'']" and order = "demo_order ''pending'' [''example.com'']"
      and bdl = False and csr = "Some ''csr''" and key = "Some ''key''" and pc = "[]"
      and s = net0 and s' = "?S" and res = "Some ?R" and err = None]
  from inst run have
    "wait_calls (events ?S) = wait_calls (events net0)
     \<or> wait_calls (events ?S) = wait_calls (events net0)
          @ [(''certificate'', pollTimeout demo_certifier, pollInterval demo_certifier)]"
    by blast
  then have calls:
    "[(''certificate'', 30000000000, 500000000)] =
       [(''certificate'', pollTimeout demo_certifier, pollInterval demo_certifier)]"
    by (simp add: net0_def)
  from inst z have "pollTimeout demo_certifier = 30 * Second"
    and "sint (pollInterval demo_certifier) = sint (pollTimeout demo_certifier) div 60"
    by simp_all
  with run calls show ?thesis
    by blast
qed

subsection \<open>The names of the certificate request\<close>

lemma san_loop_eq:
  "san_loop cn san ids = san @ filter (\<lambda>v. v \<noteq> cn) (map id_Value ids)"
  by (induction ids arbitrary: san) simp_all

lemma getForOrder_unfold:
  "getForOrder w c domains order request s =
     (case (case req_PrivateKey request of
              Some k \<Rightarrow> Inr k
            | None \<Rightarrow> GeneratePrivateKey w (KeyType (options c))) of
        Inl err \<Rightarrow> Inr (s, None, Some err)
      | Inr privateKey \<Rightarrow>
          (case domains of
             [] \<Rightarrow> Inl (IndexOutOfRange AtGetForOrder)
           | domain0 # ds \<Rightarrow>
               (case CreateCSR w privateKey (csrOptions_of c domain0 order request) of
                  Inl err \<Rightarrow> Inr (s, None, Some err)
                | Inr csr \<Rightarrow>
                    getForCSR w c domains order (req_Bundle request) csr
                      (PEMEncode_key w privateKey) (req_PreferredChain request) s)))"
  by (simp add: getForOrder_def split: sum.splits list.splits)

lemma count_list_filter_neq:
  "v \<noteq> x \<Longrightarrow> count_list (filter (\<lambda>u. u \<noteq> x) xs) v = count_list xs v"
  by (induction xs) auto

text \<open>
  Claim C4, as amended. getForOrder asks for a certificate request with these names. The
  CommonName is the first sanitized domain when that domain has at most 64 characters
  and DisableCommonName is false, and it is empty otherwise; so for a first domain that
  is not empty it equals the first domain if and only if that condition holds. The SAN
  list is the CommonName, when it is not empty, followed by the identifiers of the order
  other than the CommonName, in their order. Hence a CommonName that is not empty occurs
  in it exactly once, every other name occurs in it as often as among the identifiers of
  the order, and the empty name is not in it when the CommonName is empty. A first
  domain longer than 64 characters is never the CommonName, and it is in the SAN list
  as often as the order lists it.
\<close>

theorem csr_commonName_and_san:
  fixes w c dmn rest order request s
  defines "cn \<equiv> (if length dmn \<le> 64 \<and> \<not> DisableCommonName (options c) then dmn else [])"
    and "ids \<equiv> map id_Value (o_Identifiers order)"
  defines "san \<equiv> (if cn \<noteq> [] then [cn] else []) @ filter (\<lambda>v. v \<noteq> cn) ids"
  shows
  "getForOrder w c (dmn # rest) order request s =
     (case (case req_PrivateKey request of
              Some k \<Rightarrow> Inr k
            | None \<Rightarrow> GeneratePrivateKey w (KeyType (options c))) of
        Inl err \<Rightarrow> Inr (s, None, Some err)
      | Inr privateKey \<Rightarrow>
          (case CreateCSR w privateKey
                  \<lparr>co_Domain = cn, co_SAN = san, co_MustStaple = req_MustStaple request,
                   co_EmailAddresses = req_EmailAddresses request\<rparr> of
             Inl err \<Rightarrow> Inr (s, None, Some err)
           | Inr csr \<Rightarrow>
               getForCSR w c (dmn # rest) order (req_Bundle request) csr
                 (PEMEncode_key w privateKey) (req_PreferredChain request) s))
   \<and> (dmn \<noteq> [] \<longrightarrow> (cn = dmn \<longleftrightarrow> length dmn \<le> 64 \<and> \<not> DisableCommonName (options c)))
   \<and> (cn \<noteq> dmn \<longrightarrow> cn = [])
   \<and> (cn \<noteq> [] \<longrightarrow> count_list san cn = 1)
   \<and> (\<forall>v. v \<noteq> cn \<longrightarrow> count_list san v = count_list ids v)
   \<and> (cn = [] \<longrightarrow> [] \<notin> set san)
   \<and> (64 < length dmn \<longrightarrow> cn = [] \<and> count_list san dmn = count_list ids dmn)"
proof -
  have opts: "csrOptions_of c dmn order request =
      \<lparr>co_Domain = cn, co_SAN = san, co_MustStaple = req_MustStaple request,
       co_EmailAddresses = req_EmailAddresses request\<rparr>"
    by (simp add: csrOptions_of_def Let_def san_loop_eq cn_def san_def ids_def)
  have A: "getForOrder w c (dmn # rest) order request s =
     (case (case req_PrivateKey request of
              Some k \<Rightarrow> Inr k
            | None \<Rightarrow> GeneratePrivateKey w (KeyType (options c))) of
        Inl err \<Rightarrow> Inr (s, None, Some err)
      | Inr privateKey \<Rightarrow>
          (case CreateCSR w privateKey
                  \<lparr>co_Domain = cn, co_SAN = san, co_MustStaple = req_MustStaple request,
                   co_EmailAddresses = req_EmailAddresses request\<rparr> of
             Inl err \<Rightarrow> Inr (s, None, Some err)
           | Inr csr \<Rightarrow>
               getForCSR w c (dmn # rest) order (req_Bundle request) csr
                 (PEMEncode_key w privateKey) (req_PreferredChain request) s))"
    by (simp add: getForOrder_unfold opts split: sum.splits)
  have B: "dmn \<noteq> [] \<longrightarrow> (cn = dmn \<longleftrightarrow> length dmn \<le> 64 \<and> \<not> DisableCommonName (options c))"
    by (auto simp: cn_def)
  have C: "cn \<noteq> dmn \<longrightarrow> cn = []"
    by (simp add: cn_def)
  have "count_list (filter (\<lambda>v. v \<noteq> cn) ids) cn = 0"
    by (simp add: count_list_0_iff)
  then have D: "cn \<noteq> [] \<longrightarrow> count_list san cn = 1"
    by (simp add: san_def)
  have E: "\<forall>v. v \<noteq> cn \<longrightarrow> count_list san v = count_list ids v"
    by (simp add: san_def count_list_filter_neq)
  have F: "cn = [] \<longrightarrow> [] \<notin> set san"
    by (simp add: san_def)
  have G: "64 < length dmn \<longrightarrow> cn = [] \<and> count_list san dmn = count_list ids dmn"
  proof
    assume h: "64 < length dmn"
    then have cn: "cn = []" by (simp add: cn_def)
    from h have "dmn \<noteq> cn" unfolding cn by auto
    with E cn show "cn = [] \<and> count_list san dmn = count_list ids dmn" by simp
  qed
  show ?thesis
    by (rule conjI [OF A conjI [OF B conjI [OF C conjI [OF D conjI [OF E conjI [OF F G]]]]]])
qed

lemma demo_long_domain_facts:
  "demo_long_domain \<noteq> []" "64 < length demo_long_domain"
  "demo_long_domain \<noteq> ''example.com''"
  by (simp_all add: demo_long_domain_def)

lemma demo_csr_echo_facts:
  "GeneratePrivateKey demo_world_csr_echo kt = Inr ''fresh key''"
  "PEMEncode_key demo_world_csr_echo k = Some k"
  "CreateCSR demo_world_csr_echo key opts =
     Inr (Some (''CN='' @ co_Domain opts @ concat (map (\<lambda>d. '' DNS:'' @ d) (co_SAN opts))))"
  "Orders_UpdateForCSR demo_world_csr_echo url (Some b) = Inl (ErrExternal b)"
  by (simp_all add: demo_world_csr_echo_def demo_world_def)

lemma demo_order_ids:
  "map id_Value (o_Identifiers (demo_order st rest)) = rest"
  "o_Finalize (demo_order st rest) = ''finalize/1''"
  by (simp_all add: demo_order_def comp_def)

lemma demo_certifier_cn:
  "\<not> DisableCommonName (options demo_certifier)"
  "DisableCommonName (options demo_certifier_no_cn)"
  by (simp_all add: demo_certifier_def demo_certifier_no_cn_def NewCertifier_def)

theorem csr_commonName_and_san_witness:
  "getForOrder demo_world_csr_echo demo_certifier [''example.com'', ''www.example.com'']
     (demo_order ''pending'' [''www.example.com'', ''example.com''])
     (demo_request [''example.com'', ''www.example.com'']) net0 =
   Inr (emit (EvFinalize ''finalize/1'') net0, None,
        Some (ErrExternal ''CN=example.com DNS:example.com DNS:www.example.com''))
   \<and> getForOrder demo_world_csr_echo demo_certifier [demo_long_domain, ''example.com'']
     (demo_order ''pending'' [demo_long_domain, ''example.com''])
     (demo_request [demo_long_domain, ''example.com'']) net0 =
   Inr (emit (EvFinalize ''finalize/1'') net0, None,
        Some (ErrExternal (''CN= DNS:'' @ demo_long_domain @ '' DNS:example.com'')))
   \<and> count_list [''example.com'', ''www.example.com''] ''example.com'' = 1
   \<and> count_list [''example.com'', ''www.example.com''] ''www.example.com'' = 1
   \<and> count_list [demo_long_domain, ''example.com''] demo_long_domain = 1
   \<and> [] \<notin> set [demo_long_domain, ''example.com'']"
proof -
  note inst = csr_commonName_and_san [where w = demo_world_csr_echo and c = demo_certifier
      and s = net0]
  note short = inst [where dmn = "''example.com''" and rest = "[''www.example.com'']"
      and order = "demo_order ''pending'' [''www.example.com'', ''example.com'']"
      and request = "demo_request [''example.com'', ''www.example.com'']"]
  note long = inst [where dmn = demo_long_domain and rest = "[''example.com'']"
      and order = "demo_order ''pending'' [demo_long_domain, ''example.com'']"
      and request = "demo_request [demo_long_domain, ''example.com'']"]
  have a: "getForOrder demo_world_csr_echo demo_certifier [''example.com'', ''www.example.com'']
     (demo_order ''pending'' [''www.example.com'', ''example.com''])
     (demo_request [''example.com'', ''www.example.com'']) net0 =
   Inr (emit (EvFinalize ''finalize/1'') net0, None,
        Some (ErrExternal ''CN=example.com DNS:example.com DNS:www.example.com''))"
    using short [THEN conjunct1]
    by (simp add: demo_csr_echo_facts demo_order_ids demo_certifier_cn demo_request_def
          getForCSR_def Let_def)
  have b: "getForOrder demo_world_csr_echo demo_certifier [demo_long_domain, ''example.com'']
     (demo_order ''pending'' [demo_long_domain, ''example.com''])
     (demo_request [demo_long_domain, ''example.com'']) net0 =
   Inr (emit (EvFinalize ''finalize/1'') net0, None,
        Some (ErrExternal (''CN= DNS:'' @ demo_long_domain @ '' DNS:example.com'')))"
    using long [THEN conjunct1] demo_long_domain_facts
    by (simp add: demo_csr_echo_facts demo_order_ids demo_certifier_cn demo_request_def
          getForCSR_def Let_def)
  have c: "count_list [''example.com'', ''www.example.com''] ''example.com'' = 1"
    using short [THEN conjunct2, THEN conjunct2, THEN conjunct2, THEN conjunct1]
    by (simp add: demo_order_ids demo_certifier_cn)
  have d: "count_list [''example.com'', ''www.example.com''] ''www.example.com'' = 1"
    using short [THEN conjunct2, THEN conjunct2, THEN conjunct2, THEN conjunct2, THEN conjunct1,
                 THEN spec, of "''www.example.com''"]
    by (simp add: demo_order_ids demo_certifier_cn)
  have e: "count_list [demo_long_domain, ''example.com''] demo_long_domain = 1"
    using long [THEN conjunct2, THEN conjunct2, THEN conjunct2, THEN conjunct2, THEN conjunct2,
                THEN conjunct2] demo_long_domain_facts
    by (simp add: demo_order_ids demo_certifier_cn)
  have f: "[] \<notin> set [demo_long_domain, ''example.com'']"
    using long [THEN conjunct2, THEN conjunct2, THEN conjunct2, THEN conjunct2, THEN conjunct2,
                THEN conjunct1] demo_long_domain_facts
    by (simp add: demo_order_ids demo_certifier_cn)
  from a b c d e f show ?thesis
    by blast
qed

text \<open>
  The claim as stated fails in three ways, shown on a CA that quotes the certificate
  request. The identifiers of the order are not deduplicated: a name that the order
  lists twice is in the SAN list twice. A first domain longer than 64 characters that
  the order does not list is not in the SAN list. And with DisableCommonName set and an
  empty first domain, the CommonName equals the first domain, and the empty identifier
  of the order is left out of the SAN list.
\<close>

theorem csr_commonName_and_san_counterexample:
  "getForOrder demo_world_csr_echo demo_certifier [''example.com'', ''www.example.com'']
     (demo_order ''pending'' [''example.com'', ''www.example.com'', ''www.example.com''])
     (demo_request [''example.com'', ''www.example.com'']) net0 =
   Inr (\<lparr>events = [EvFinalize ''finalize/1''], polls = 0\<rparr>, None,
        Some (ErrExternal
          ''CN=example.com DNS:example.com DNS:www.example.com DNS:www.example.com''))
   \<and> 64 < length demo_long_domain
   \<and> getForOrder demo_world_csr_echo demo_certifier [demo_long_domain]
     (demo_order ''pending'' [''example.com''])
     (demo_request [demo_long_domain]) net0 =
   Inr (\<lparr>events = [EvFinalize ''finalize/1''], polls = 0\<rparr>, None,
        Some (ErrExternal ''CN= DNS:example.com''))
   \<and> DisableCommonName (options demo_certifier_no_cn)
   \<and> getForOrder demo_world_csr_echo demo_certifier_no_cn [[], ''example.com'']
     (demo_order ''pending'' [[], ''example.com''])
     (demo_request [[], ''example.com'']) net0 =
   Inr (\<lparr>events = [EvFinalize ''finalize/1''], polls = 0\<rparr>, None,
        Some (ErrExternal ''CN= DNS:example.com''))"
  by code_simp

subsection \<open>A failing solver\<close>

lemma events_deactivate:
  "deactivateAuthorizations order force s =
     s\<lparr>events := events s @ (if force then map EvDeactivate (o_Authorizations order) else [])\<rparr>"
  by (simp add: deactivateAuthorizations_def)

text \<open>
  Claim C1. Whenever Obtain or ObtainForCSR reaches the solver (the request is not
  empty, the order was created and its authorizations were fetched) and Solve returns
  an error, the call returns a nil Resource together with that very error. Up to then it
  has created the order, fetched the authorizations and called the solver; after that
  it deactivates the authorizations of the order if AlwaysDeactivateAuthorizations is
  set and does nothing if it is not; no finalize request and no certificate request is
  ever sent.
\<close>

theorem solve_error_all_or_nothing:
  "(req_Domains request \<noteq> []
    \<and> Orders_NewWithOptions w (sanitizeDomain w (req_Domains request))
         (orderOptions_of request) = Inr order
    \<and> getAuthorizations w order = Inr authz
    \<and> resolver_Solve w authz = Some err
    \<longrightarrow> Obtain w c request s =
          Inr (s\<lparr>events := events s
                   @ [EvNewOrder (sanitizeDomain w (req_Domains request))
                        (orderOptions_of request),
                      EvGetAuthorizations, EvSolve]
                   @ (if req_AlwaysDeactivateAuthorizations request
                      then map EvDeactivate (o_Authorizations order) else [])\<rparr>,
               None, Some err))
   \<and> (creq_CSR crequest = Some csr
    \<and> Orders_NewWithOptions w (ExtractDomainsCSR w csr)
         (orderOptions_of_csr crequest) = Inr order
    \<and> getAuthorizations w order = Inr authz
    \<and> resolver_Solve w authz = Some err
    \<longrightarrow> ObtainForCSR w c crequest s =
          Inr (s\<lparr>events := events s
                   @ [EvNewOrder (ExtractDomainsCSR w csr) (orderOptions_of_csr crequest),
                      EvGetAuthorizations, EvSolve]
                   @ (if creq_AlwaysDeactivateAuthorizations crequest
                      then map EvDeactivate (o_Authorizations order) else [])\<rparr>,
               None, Some err))"
proof (intro conjI impI)
  assume "req_Domains request \<noteq> []
    \<and> Orders_NewWithOptions w (sanitizeDomain w (req_Domains request))
         (orderOptions_of request) = Inr order
    \<and> getAuthorizations w order = Inr authz
    \<and> resolver_Solve w authz = Some err"
  then show "Obtain w c request s =
          Inr (s\<lparr>events := events s
                   @ [EvNewOrder (sanitizeDomain w (req_Domains request))
                        (orderOptions_of request),
                      EvGetAuthorizations, EvSolve]
                   @ (if req_AlwaysDeactivateAuthorizations request
                      then map EvDeactivate (o_Authorizations order) else [])\<rparr>,
               None, Some err)"
    by (simp add: Obtain_def Let_def emit_def events_deactivate)
next
  assume "creq_CSR crequest = Some csr
    \<and> Orders_NewWithOptions w (ExtractDomainsCSR w csr)
         (orderOptions_of_csr crequest) = Inr order
    \<and> getAuthorizations w order = Inr authz
    \<and> resolver_Solve w authz = Some err"
  then show "ObtainForCSR w c crequest s =
          Inr (s\<lparr>events := events s
                   @ [EvNewOrder (ExtractDomainsCSR w csr) (orderOptions_of_csr crequest),
                      EvGetAuthorizations, EvSolve]
                   @ (if creq_AlwaysDeactivateAuthorizations crequest
                      then map EvDeactivate (o_Authorizations order) else [])\<rparr>,
               None, Some err)"
    by (simp add: ObtainForCSR_def Let_def emit_def events_deactivate)
qed

lemma demo_solve_fails_facts:
  "req_Domains ((demo_request [''example.com'', ''www.example.com''])
      \<lparr>req_AlwaysDeactivateAuthorizations := True\<rparr>) \<noteq> []"
  "Orders_NewWithOptions demo_world_solve_fails ds oo = Inr (demo_order ''pending'' ds)"
  "getAuthorizations demo_world_solve_fails (demo_order ''pending'' ds) =
     Inr (map (\<lambda>d. \<lparr>az_Identifier = \<lparr>id_Type = ''dns'', id_Value = d\<rparr>, az_Wildcard = False\<rparr>) ds)"
  "resolver_Solve demo_world_solve_fails authz = Some (ErrExternal ''challenge failed'')"
  "sanitizeDomain demo_world_solve_fails [''example.com'', ''www.example.com''] =
     [''example.com'', ''www.example.com'']"
  "ExtractDomainsCSR demo_world_solve_fails csr = [''example.com'']"
  "creq_CSR demo_csr_request = Some \<lparr>csr_Raw = Some ''csr''\<rparr>"
  by (simp_all add: demo_world_solve_fails_def demo_world_def demo_request_def demo_order_def
        demo_csr_request_def sanitizeDomain_def comp_def)

theorem solve_error_all_or_nothing_witness:
  "Obtain demo_world_solve_fails demo_certifier
     ((demo_request [''example.com'', ''www.example.com''])
        \<lparr>req_AlwaysDeactivateAuthorizations := True\<rparr>) net0 =
     Inr (\<lparr>events = [EvNewOrder [''example.com'', ''www.example.com'']
                       \<lparr>oo_NotBefore = 0, oo_NotAfter = 0, oo_Profile = [],
                        oo_ReplacesCertID = []\<rparr>,
                     EvGetAuthorizations, EvSolve,
                     EvDeactivate ''authz/example.com'', EvDeactivate ''authz/www.example.com''],
            polls = 0\<rparr>,
          None, Some (ErrExternal ''challenge failed''))
   \<and> ObtainForCSR demo_world_solve_fails demo_certifier demo_csr_request net0 =
     Inr (\<lparr>events = [EvNewOrder [''example.com'']
                       \<lparr>oo_NotBefore = 0, oo_NotAfter = 0, oo_Profile = [],
                        oo_ReplacesCertID = []\<rparr>,
                     EvGetAuthorizations, EvSolve],
            polls = 0\<rparr>,
          None, Some (ErrExternal ''challenge failed''))"
proof -
  let ?auth = "\<lambda>d. \<lparr>az_Identifier = \<lparr>id_Type = ''dns'', id_Value = d\<rparr>, az_Wildcard = False\<rparr>"
  note inst = solve_error_all_or_nothing
    [where w = demo_world_solve_fails and c = demo_certifier and s = net0
       and request = "(demo_request [''example.com'', ''www.example.com''])
                        \<lparr>req_AlwaysDeactivateAuthorizations := True\<rparr>"
       and crequest = demo_csr_request
       and csr = "\<lparr>csr_Raw = Some ''csr''\<rparr>"
       and err = "ErrExternal ''challenge failed''"]
  have a0: "Obtain demo_world_solve_fails demo_certifier
     ((demo_request [''example.com'', ''www.example.com''])
        \<lparr>req_AlwaysDeactivateAuthorizations := True\<rparr>) net0 =
     Inr (net0\<lparr>events := events net0
            @ [EvNewOrder (sanitizeDomain demo_world_solve_fails
                 (req_Domains ((demo_request [''example.com'', ''www.example.com''])
                    \<lparr>req_AlwaysDeactivateAuthorizations := True\<rparr>)))
                 (orderOptions_of ((demo_request [''example.com'', ''www.example.com''])
                    \<lparr>req_AlwaysDeactivateAuthorizations := True\<rparr>)),
               EvGetAuthorizations, EvSolve]
            @ (if req_AlwaysDeactivateAuthorizations
                    ((demo_request [''example.com'', ''www.example.com''])
                       \<lparr>req_AlwaysDeactivateAuthorizations := True\<rparr>)
               then map EvDeactivate (o_Authorizations
                      (demo_order ''pending'' [''example.com'', ''www.example.com'']))
               else [])\<rparr>,
          None, Some (ErrExternal ''challenge failed''))"
    by (rule inst [where order = "demo_order ''pending'' [''example.com'', ''www.example.com'']"
                     and authz = "map ?auth [''example.com'', ''www.example.com'']",
                   THEN conjunct1, THEN mp])
       (simp add: demo_solve_fails_facts demo_request_def)
  have b0: "ObtainForCSR demo_world_solve_fails demo_certifier demo_csr_request net0 =
     Inr (net0\<lparr>events := events net0
            @ [EvNewOrder (ExtractDomainsCSR demo_world_solve_fails \<lparr>csr_Raw = Some ''csr''\<rparr>)
                 (orderOptions_of_csr demo_csr_request),
               EvGetAuthorizations, EvSolve]
            @ (if creq_AlwaysDeactivateAuthorizations demo_csr_request
               then map EvDeactivate (o_Authorizations (demo_order ''pending'' [''example.com'']))
               else [])\<rparr>,
          None, Some (ErrExternal ''challenge failed''))"
    by (rule inst [where order = "demo_order ''pending'' [''example.com'']"
                     and authz = "map ?auth [''example.com'']",
                   THEN conjunct2, THEN mp])
       (simp add: demo_solve_fails_facts)
  from a0 b0 show ?thesis
    by (simp add: net0_def demo_order_def orderOptions_of_def orderOptions_of_csr_def
          demo_request_def demo_csr_request_def demo_solve_fails_facts)
qed

subsection \<open>Renewal\<close>

text \<open>
  Claim C8. When the first certificate of the stored bundle is a CA certificate,
  RenewWithOptions returns an error and adds nothing to the trace. Otherwise, with a
  non-empty CSR field that decodes, it is ObtainForCSR on the request built from the
  decoded CSR, and that request does not depend on MustStaple and EmailAddresses of the
  options; with an empty CSR field it is Obtain on the domains extracted from the
  stored certificate, with no private key when the Resource has none and with the
  parsed stored key when it has one.
\<close>

theorem renew_dispatch:
  "(ParsePEMBundle w (Certificate certRes) = Inr (x509Cert # rest) \<and> IsCA x509Cert
      \<longrightarrow> RenewWithOptions w c certRes opts s =
            Inr (s, None, Some (ErrStartsWithCA (Domain certRes))))
   \<and> (ParsePEMBundle w (Certificate certRes) = Inr (x509Cert # rest) \<and> \<not> IsCA x509Cert
       \<and> 0 < len_bytes (CSR certRes) \<and> PemDecodeTox509CSR w (CSR certRes) = Inr csr
      \<longrightarrow> RenewWithOptions w c certRes opts s =
            ObtainForCSR w c (renew_csr_request csr opts) s
          \<and> creq_CSR (renew_csr_request csr opts) = Some csr
          \<and> renew_csr_request csr
               (map_option (\<lambda>opt. opt\<lparr>ro_MustStaple := m, ro_EmailAddresses := es\<rparr>) opts) =
             renew_csr_request csr opts)
   \<and> (ParsePEMBundle w (Certificate certRes) = Inr (x509Cert # rest) \<and> \<not> IsCA x509Cert
       \<and> len_bytes (CSR certRes) = 0 \<and> PrivateKey certRes = None
      \<longrightarrow> RenewWithOptions w c certRes opts s =
            Obtain w c (renew_request (ExtractDomains w x509Cert) None opts) s)
   \<and> (ParsePEMBundle w (Certificate certRes) = Inr (x509Cert # rest) \<and> \<not> IsCA x509Cert
       \<and> len_bytes (CSR certRes) = 0 \<and> PrivateKey certRes = Some pem
       \<and> ParsePEMPrivateKey w (Some pem) = Inr key
      \<longrightarrow> RenewWithOptions w c certRes opts s =
            Obtain w c (renew_request (ExtractDomains w x509Cert) (Some key) opts) s)
   \<and> req_Domains (renew_request ds k opts) = ds
   \<and> req_PrivateKey (renew_request ds k opts) = k"
proof -
  have ca: "ParsePEMBundle w (Certificate certRes) = Inr (x509Cert # rest) \<and> IsCA x509Cert
      \<longrightarrow> RenewWithOptions w c certRes opts s =
            Inr (s, None, Some (ErrStartsWithCA (Domain certRes)))"
    by (simp add: RenewWithOptions_def)
  have csr: "ParsePEMBundle w (Certificate certRes) = Inr (x509Cert # rest) \<and> \<not> IsCA x509Cert
       \<and> 0 < len_bytes (CSR certRes) \<and> PemDecodeTox509CSR w (CSR certRes) = Inr csr
      \<longrightarrow> RenewWithOptions w c certRes opts s =
            ObtainForCSR w c (renew_csr_request csr opts) s
          \<and> creq_CSR (renew_csr_request csr opts) = Some csr
          \<and> renew_csr_request csr
               (map_option (\<lambda>opt. opt\<lparr>ro_MustStaple := m, ro_EmailAddresses := es\<rparr>) opts) =
             renew_csr_request csr opts"
    by (cases opts) (simp_all add: RenewWithOptions_def renew_csr_request_def)
  have nokey: "ParsePEMBundle w (Certificate certRes) = Inr (x509Cert # rest)
       \<and> \<not> IsCA x509Cert \<and> len_bytes (CSR certRes) = 0 \<and> PrivateKey certRes = None
      \<longrightarrow> RenewWithOptions w c certRes opts s =
            Obtain w c (renew_request (ExtractDomains w x509Cert) None opts) s"
    by (simp add: RenewWithOptions_def)
  have key: "ParsePEMBundle w (Certificate certRes) = Inr (x509Cert # rest)
       \<and> \<not> IsCA x509Cert \<and> len_bytes (CSR certRes) = 0 \<and> PrivateKey certRes = Some pem
       \<and> ParsePEMPrivateKey w (Some pem) = Inr key
      \<longrightarrow> RenewWithOptions w c certRes opts s =
            Obtain w c (renew_request (ExtractDomains w x509Cert) (Some key) opts) s"
    by (simp add: RenewWithOptions_def)
  have req: "req_Domains (renew_request ds k opts) = ds"
    "req_PrivateKey (renew_request ds k opts) = k"
    by (cases opts; simp add: renew_request_def)+
  from ca csr nokey key req show ?thesis
    by blast
qed

lemma demo_renew_facts:
  "ParsePEMBundle demo_world (Some ''chain A'') =
     Inr [\<lparr>IsCA = True, Issuer_CommonName = ''Root A''\<rparr>]"
  "ParsePEMBundle demo_world (Some ''leaf 1'') =
     Inr [\<lparr>IsCA = False, Issuer_CommonName = ''Intermediate''\<rparr>]"
  "PemDecodeTox509CSR demo_world b = Inr \<lparr>csr_Raw = Some ''csr''\<rparr>"
  "ParsePEMPrivateKey demo_world b = Inr ''stored key''"
  "ExtractDomains demo_world x = [''example.com'', ''www.example.com'']"
  by (simp_all add: demo_world_def)

theorem renew_dispatch_witness:
  "RenewWithOptions demo_world demo_certifier (demo_resource\<lparr>Certificate := Some ''chain A''\<rparr>)
      (Some demo_renew_options) net0 =
     Inr (net0, None, Some (ErrStartsWithCA ''example.com''))
   \<and> RenewWithOptions demo_world demo_certifier (demo_resource\<lparr>CSR := Some ''csr pem''\<rparr>)
      (Some demo_renew_options) net0 =
     ObtainForCSR demo_world demo_certifier
       (renew_csr_request \<lparr>csr_Raw = Some ''csr''\<rparr> (Some demo_renew_options)) net0
   \<and> RenewWithOptions demo_world demo_certifier (demo_resource\<lparr>PrivateKey := None\<rparr>)
      (Some demo_renew_options) net0 =
     Obtain demo_world demo_certifier
       (renew_request [''example.com'', ''www.example.com''] None (Some demo_renew_options)) net0
   \<and> RenewWithOptions demo_world demo_certifier demo_resource (Some demo_renew_options) net0 =
     Obtain demo_world demo_certifier
       (renew_request [''example.com'', ''www.example.com''] (Some ''stored key'')
          (Some demo_renew_options)) net0"
proof -
  note inst = renew_dispatch [where w = demo_world and c = demo_certifier and s = net0
      and opts = "Some demo_renew_options" and rest = "[]"]
  have a: "RenewWithOptions demo_world demo_certifier
      (demo_resource\<lparr>Certificate := Some ''chain A''\<rparr>) (Some demo_renew_options) net0 =
     Inr (net0, None, Some (ErrStartsWithCA (Domain (demo_resource\<lparr>Certificate := Some ''chain A''\<rparr>))))"
    by (rule inst [where x509Cert = "\<lparr>IsCA = True, Issuer_CommonName = ''Root A''\<rparr>",
                   THEN conjunct1, THEN mp])
       (simp add: demo_renew_facts demo_resource_def)
  have b: "RenewWithOptions demo_world demo_certifier (demo_resource\<lparr>CSR := Some ''csr pem''\<rparr>)
      (Some demo_renew_options) net0 =
     ObtainForCSR demo_world demo_certifier
       (renew_csr_request \<lparr>csr_Raw = Some ''csr''\<rparr> (Some demo_renew_options)) net0"
    by (rule inst [where x509Cert = "\<lparr>IsCA = False, Issuer_CommonName = ''Intermediate''\<rparr>",
                   THEN conjunct2, THEN conjunct1, THEN mp, THEN conjunct1])
       (simp add: demo_renew_facts demo_resource_def len_bytes_def)
  have c: "RenewWithOptions demo_world demo_certifier (demo_resource\<lparr>PrivateKey := None\<rparr>)
      (Some demo_renew_options) net0 =
     Obtain demo_world demo_certifier
       (renew_request (ExtractDomains demo_world
           \<lparr>IsCA = False, Issuer_CommonName = ''Intermediate''\<rparr>) None
          (Some demo_renew_options)) net0"
    by (rule inst [where x509Cert = "\<lparr>IsCA = False, Issuer_CommonName = ''Intermediate''\<rparr>",
                   THEN conjunct2, THEN conjunct2, THEN conjunct1, THEN mp])
       (simp add: demo_renew_facts demo_resource_def len_bytes_def)
  have d: "RenewWithOptions demo_world demo_certifier demo_resource (Some demo_renew_options) net0 =
     Obtain demo_world demo_certifier
       (renew_request (ExtractDomains demo_world
           \<lparr>IsCA = False, Issuer_CommonName = ''Intermediate''\<rparr>) (Some ''stored key'')
          (Some demo_renew_options)) net0"
    by (rule inst [where x509Cert = "\<lparr>IsCA = False, Issuer_CommonName = ''Intermediate''\<rparr>"
                     and pem = "''key pem''",
                   THEN conjunct2, THEN conjunct2, THEN conjunct2, THEN conjunct1, THEN mp])
       (simp add: demo_renew_facts demo_resource_def len_bytes_def)
  from a b c d show ?thesis
    by (simp add: demo_renew_facts demo_resource_def)
qed

subsection \<open>Chain selection\<close>

lemma chain_loop_Cons:
  "chain_loop w pc ((link, cert) # rest) r =
     (case hasPreferredChain w (Issuer cert) pc of
        Inl p \<Rightarrow> Inl p
      | Inr (ok, err) \<Rightarrow>
          (case err of
             Some e \<Rightarrow> Inr (r, False, Some e)
           | None \<Rightarrow>
               if ok then Inr (store_chain link cert r, True, None)
               else chain_loop w pc rest r))"
  by (simp add: store_chain_def split: sum.splits option.splits prod.splits)

lemma hasPreferredChain_parsed:
  assumes "issuer_parses w cert"
  shows "hasPreferredChain w (Issuer cert) pc = Inr (top_issuer_is w pc cert, None)"
proof (cases "ParsePEMBundle w (Issuer cert)")
  case (Inl e)
  with assms show ?thesis by (simp add: issuer_parses_def)
next
  case (Inr certs)
  with assms have ne: "certs \<noteq> []" by (simp add: issuer_parses_def)
  then have "certs ! (length certs - 1) = last certs" by (simp add: last_conv_nth)
  with Inr ne show ?thesis
    by (simp add: hasPreferredChain_def top_issuer_is_def Let_def)
qed


lemma chain_loop_find:
  assumes "\<forall>(link, cert) \<in> set certs. issuer_parses w cert"
  shows "chain_loop w pc certs r =
           Inr (case find (\<lambda>(link, cert). top_issuer_is w pc cert) certs of
                  None \<Rightarrow> (r, True, None)
                | Some (link, cert) \<Rightarrow> (store_chain link cert r, True, None))"
  using assms
proof (induction certs)
  case Nil
  then show ?case by simp
next
  case (Cons a certs)
  obtain link cert where a: "a = (link, cert)" by (cases a)
  from Cons.prems a have p: "issuer_parses w cert" by simp
  from Cons.prems have rest: "\<forall>(link, cert) \<in> set certs. issuer_parses w cert" by simp
  show ?case
    using Cons.IH [OF rest]
    by (simp add: a hasPreferredChain_parsed [OF p] chain_loop_Cons del: chain_loop.simps)
qed

lemma find_unique:
  assumes "x \<in> set xs" "P x" "\<forall>y \<in> set xs. P y \<longrightarrow> y = x"
  shows "find P xs = Some x"
  using assms
proof (induction xs)
  case Nil
  then show ?case by simp
next
  case (Cons a xs)
  show ?case
  proof (cases "P a")
    case True
    with Cons.prems(3) have "a = x" by simp
    with True show ?thesis by simp
  next
    case False
    with Cons.prems(1,2) have "x \<in> set xs" by auto
    moreover from Cons.prems(3) have "\<forall>y \<in> set xs. P y \<longrightarrow> y = x" by simp
    ultimately have "find P xs = Some x" using Cons.IH Cons.prems(2) by blast
    with False show ?thesis by simp
  qed
qed

lemma find_none:
  assumes "\<forall>y \<in> set xs. \<not> P y"
  shows "find P xs = None"
  using assms by (induction xs) auto

lemma hasPreferredChain_error:
  assumes "hasPreferredChain w issuer pc = Inr (ok, Some err)"
  shows "ParsePEMBundle w issuer = Inl err \<and> \<not> ok"
proof (cases "ParsePEMBundle w issuer")
  case (Inl e)
  with assms show ?thesis by (simp add: hasPreferredChain_def)
next
  case (Inr certs)
  with assms show ?thesis
    by (simp add: hasPreferredChain_def Let_def split: if_splits)
qed


lemma chain_loop_cases:
  assumes "chain_loop w pc certs r = Inr (r', ok, e)"
  shows "(ok \<and> e = None
          \<and> (r' = r \<or> (\<exists>link cert. (link, cert) \<in> set certs \<and> r' = store_chain link cert r)))
       \<or> (\<not> ok \<and> r' = r
          \<and> (\<exists>link cert e0. (link, cert) \<in> set certs
                \<and> ParsePEMBundle w (Issuer cert) = Inl e0 \<and> e = Some e0))"
  using assms
proof (induction certs)
  case Nil
  then show ?case by simp
next
  case (Cons a certs)
  obtain link cert where a: "a = (link, cert)" by (cases a)
  have mem: "(link, cert) \<in> set (a # certs)" by (simp add: a)
  show ?case
  proof (cases "hasPreferredChain w (Issuer cert) pc")
    case (Inl p)
    with Cons.prems show ?thesis by (simp add: a chain_loop_Cons del: chain_loop.simps)
  next
    case (Inr res)
    obtain ok0 e0 where res: "res = (ok0, e0)" by (cases res)
    show ?thesis
    proof (cases e0)
      case (Some err)
      from Inr res Some have pe: "ParsePEMBundle w (Issuer cert) = Inl err"
        using hasPreferredChain_error [of w "Issuer cert" pc ok0 err] by simp
      from Cons.prems Inr res Some have "r' = r" "\<not> ok" "e = Some err"
        by (simp_all add: a chain_loop_Cons del: chain_loop.simps)
      with pe mem show ?thesis by blast
    next
      case None
      show ?thesis
      proof (cases ok0)
        case True
        with Cons.prems Inr res None have "r' = store_chain link cert r" "ok" "e = None"
          by (simp_all add: a chain_loop_Cons del: chain_loop.simps)
        with mem show ?thesis by blast
      next
        case False
        with Cons.prems Inr res None have "chain_loop w pc certs r = Inr (r', ok, e)"
          by (simp add: a chain_loop_Cons del: chain_loop.simps)
        from Cons.IH [OF this] have
          "(ok \<and> e = None
            \<and> (r' = r \<or> (\<exists>link cert. (link, cert) \<in> set certs \<and> r' = store_chain link cert r)))
           \<or> (\<not> ok \<and> r' = r
            \<and> (\<exists>link cert e0. (link, cert) \<in> set certs
                \<and> ParsePEMBundle w (Issuer cert) = Inl e0 \<and> e = Some e0))" .
        moreover have "set certs \<subseteq> set (a # certs)" by auto
        ultimately show ?thesis by blast
      qed
    qed
  qed
qed

lemma store_chain_twice [simp]:
  "store_chain link cert (store_chain link' cert' r) = store_chain link cert r"
  by (simp add: store_chain_def)

lemma checkResponse_not_valid:
  assumes "o_Status order \<noteq> StatusValid"
  shows "checkResponse w order r bdl pc s =
           Inr (s, r, False,
                if o_Status order = StatusInvalid then Some (ErrInvalidOrder (o_Err order)) else None)"
  using assms by (simp add: checkResponse_def checkOrderStatus_def)

lemma checkResponse_valid:
  assumes "o_Status order = StatusValid"
  shows "checkResponse w order r bdl pc s =
     (case Certificates_GetAll w (o_Certificate order) bdl of
        Inl e \<Rightarrow> Inr (emit (EvGetAll (o_Certificate order) bdl) s, r, False, Some e)
      | Inr certs \<Rightarrow>
          (case map_of certs (o_Certificate order) of
             None \<Rightarrow> Inl NilDereference
           | Some dflt \<Rightarrow>
               if pc = [] then
                 Inr (emit (EvGetAll (o_Certificate order) bdl) s,
                      store_chain (o_Certificate order) dflt r, True, None)
               else
                 (case chain_loop w pc certs (store_chain (o_Certificate order) dflt r) of
                    Inl p \<Rightarrow> Inl p
                  | Inr (r', ok, e) \<Rightarrow>
                      Inr (emit (EvGetAll (o_Certificate order) bdl) s, r', ok, e))))"
  using assms
  by (simp add: checkResponse_def checkOrderStatus_def Let_def store_chain_def
           split: sum.splits option.splits)


lemma checkResponse_cases:
  assumes "checkResponse w order r bdl pc s = Inr (s', r', ok, e)"
  shows "(o_Status order \<noteq> StatusValid \<and> s' = s \<and> r' = r \<and> \<not> ok
          \<and> e = (if o_Status order = StatusInvalid
                 then Some (ErrInvalidOrder (o_Err order)) else None))
       \<or> (o_Status order = StatusValid
          \<and> s' = emit (EvGetAll (o_Certificate order) bdl) s
          \<and> ((\<exists>e0. Certificates_GetAll w (o_Certificate order) bdl = Inl e0
                   \<and> r' = r \<and> \<not> ok \<and> e = Some e0)
             \<or> (\<exists>certs link cert. Certificates_GetAll w (o_Certificate order) bdl = Inr certs
                   \<and> (link, cert) \<in> set certs \<and> ok \<and> e = None
                   \<and> r' = store_chain link cert r)
             \<or> (\<exists>certs dflt link cert e0.
                   Certificates_GetAll w (o_Certificate order) bdl = Inr certs
                   \<and> map_of certs (o_Certificate order) = Some dflt
                   \<and> (link, cert) \<in> set certs
                   \<and> ParsePEMBundle w (Issuer cert) = Inl e0
                   \<and> \<not> ok \<and> e = Some e0
                   \<and> r' = store_chain (o_Certificate order) dflt r)))"
proof (cases "o_Status order = StatusValid")
  case False
  with assms show ?thesis by (simp add: checkResponse_not_valid)
next
  case True
  note v = checkResponse_valid [OF True, of w r bdl pc s]
  let ?s1 = "emit (EvGetAll (o_Certificate order) bdl) s"
  show ?thesis
  proof (cases "Certificates_GetAll w (o_Certificate order) bdl")
    case (Inl e0)
    with assms v have "s' = ?s1" "r' = r" "\<not> ok" "e = Some e0" by simp_all
    with True Inl show ?thesis by blast
  next
    case (Inr certs)
    show ?thesis
    proof (cases "map_of certs (o_Certificate order)")
      case None
      with assms v Inr show ?thesis by simp
    next
      case (Some dflt)
      then have mem: "(o_Certificate order, dflt) \<in> set certs" by (rule map_of_SomeD)
      show ?thesis
      proof (cases "pc = []")
        case pc: True
        with assms v Inr Some have "s' = ?s1" "ok" "e = None"
          "r' = store_chain (o_Certificate order) dflt r" by simp_all
        with True Inr mem show ?thesis by blast
      next
        case pc: False
        show ?thesis
        proof (cases "chain_loop w pc certs (store_chain (o_Certificate order) dflt r)")
          case (Inl p)
          with assms v Inr Some pc show ?thesis by simp
        next
          case cl: (Inr res)
          obtain r0 ok0 e0 where res: "res = (r0, ok0, e0)" by (cases res)
          from assms v Inr Some pc cl res have eqs: "s' = ?s1" "r0 = r'" "ok0 = ok" "e0 = e"
            by simp_all
          from cl res eqs have
            cl': "chain_loop w pc certs (store_chain (o_Certificate order) dflt r) = Inr (r', ok, e)"
            by simp
          from chain_loop_cases [OF cl'] show ?thesis
          proof (elim disjE conjE exE)
            assume "ok" "e = None" "r' = store_chain (o_Certificate order) dflt r"
            with True Inr mem eqs(1) show ?thesis by blast
          next
            fix link cert
            assume "ok" "e = None" "(link, cert) \<in> set certs"
              "r' = store_chain link cert (store_chain (o_Certificate order) dflt r)"
            then have "r' = store_chain link cert r" by simp
            with True Inr eqs(1) \<open>ok\<close> \<open>e = None\<close> \<open>(link, cert) \<in> set certs\<close>
            show ?thesis by blast
          next
            fix link cert e1
            assume "\<not> ok" "r' = store_chain (o_Certificate order) dflt r"
              "(link, cert) \<in> set certs" "ParsePEMBundle w (Issuer cert) = Inl e1" "e = Some e1"
            with True Inr Some eqs(1) show ?thesis by blast
          qed
        qed
      qed
    qed
  qed
qed


text \<open>
  Claim C3, as amended. For a valid order whose certificates were fetched, with the
  default entry (keyed by the certificate URL of the order) among them: with an empty
  preferred chain checkResponse stores the default entry and succeeds. With a preferred
  chain, and provided the issuer chain of every candidate parses: if exactly one
  candidate has that name as Issuer common name of the topmost certificate of its
  issuer chain, the certificate, issuer bytes and URL of that candidate are stored; if
  no candidate has, the default entry is kept; and checkResponse succeeds in both cases.
\<close>

theorem chain_selection:
  assumes "o_Status order = StatusValid"
    and "Certificates_GetAll w (o_Certificate order) bdl = Inr certs"
    and "map_of certs (o_Certificate order) = Some dflt"
  shows
  "(pc = [] \<longrightarrow>
      checkResponse w order r bdl pc s =
        Inr (emit (EvGetAll (o_Certificate order) bdl) s,
             store_chain (o_Certificate order) dflt r, True, None))
   \<and> (pc \<noteq> [] \<and> (\<forall>(l, c) \<in> set certs. issuer_parses w c)
       \<and> (link, cert) \<in> set certs \<and> top_issuer_is w pc cert
       \<and> (\<forall>(l, c) \<in> set certs. top_issuer_is w pc c \<longrightarrow> (l, c) = (link, cert)) \<longrightarrow>
      checkResponse w order r bdl pc s =
        Inr (emit (EvGetAll (o_Certificate order) bdl) s, store_chain link cert r, True, None))
   \<and> (pc \<noteq> [] \<and> (\<forall>(l, c) \<in> set certs. issuer_parses w c)
       \<and> (\<forall>(l, c) \<in> set certs. \<not> top_issuer_is w pc c) \<longrightarrow>
      checkResponse w order r bdl pc s =
        Inr (emit (EvGetAll (o_Certificate order) bdl) s,
             store_chain (o_Certificate order) dflt r, True, None))"
proof (intro conjI impI)
  assume "pc = []"
  then show "checkResponse w order r bdl pc s =
        Inr (emit (EvGetAll (o_Certificate order) bdl) s,
             store_chain (o_Certificate order) dflt r, True, None)"
    by (simp add: checkResponse_valid [OF assms(1)] assms(2,3))
next
  assume h: "pc \<noteq> [] \<and> (\<forall>(l, c) \<in> set certs. issuer_parses w c)
       \<and> (link, cert) \<in> set certs \<and> top_issuer_is w pc cert
       \<and> (\<forall>(l, c) \<in> set certs. top_issuer_is w pc c \<longrightarrow> (l, c) = (link, cert))"
  let ?P = "\<lambda>(l, c). top_issuer_is w pc c"
  from h have m: "(link, cert) \<in> set certs" and t: "?P (link, cert)"
    by simp_all
  from h have u: "\<forall>y \<in> set certs. ?P y \<longrightarrow> y = (link, cert)"
    by fastforce
  from m t u have f: "find ?P certs = Some (link, cert)"
    by (rule find_unique)
  from h have p: "\<forall>(l, c) \<in> set certs. issuer_parses w c"
    by blast
  from h show "checkResponse w order r bdl pc s =
        Inr (emit (EvGetAll (o_Certificate order) bdl) s, store_chain link cert r, True, None)"
    by (simp add: checkResponse_valid [OF assms(1)] assms(2,3) chain_loop_find [OF p] f)
next
  assume h: "pc \<noteq> [] \<and> (\<forall>(l, c) \<in> set certs. issuer_parses w c)
       \<and> (\<forall>(l, c) \<in> set certs. \<not> top_issuer_is w pc c)"
  let ?P = "\<lambda>(l, c). top_issuer_is w pc c"
  from h have "\<forall>y \<in> set certs. \<not> ?P y"
    by fastforce
  then have f: "find ?P certs = None"
    by (rule find_none)
  from h have p: "\<forall>(l, c) \<in> set certs. issuer_parses w c"
    by blast
  from h show "checkResponse w order r bdl pc s =
        Inr (emit (EvGetAll (o_Certificate order) bdl) s,
             store_chain (o_Certificate order) dflt r, True, None)"
    by (simp add: checkResponse_valid [OF assms(1)] assms(2,3) chain_loop_find [OF p] f)
qed

lemma demo_chain_facts:
  "o_Status (demo_order ''valid'' ds) = StatusValid"
  "o_Certificate (demo_order ''valid'' ds) = ''cert/1''"
  "Certificates_GetAll demo_world u b =
     Inr [(''cert/1'', \<lparr>Cert = Some ''leaf 1'', Issuer = Some ''chain A''\<rparr>),
          (''cert/2'', \<lparr>Cert = Some ''leaf 2'', Issuer = Some ''chain B''\<rparr>)]"
  "issuer_parses demo_world \<lparr>Cert = Some ''leaf 1'', Issuer = Some ''chain A''\<rparr>"
  "issuer_parses demo_world \<lparr>Cert = Some ''leaf 2'', Issuer = Some ''chain B''\<rparr>"
  "top_issuer_is demo_world pc \<lparr>Cert = Some ''leaf 1'', Issuer = Some ''chain A''\<rparr>
     = (pc = ''Root A'')"
  "top_issuer_is demo_world pc \<lparr>Cert = Some ''leaf 2'', Issuer = Some ''chain B''\<rparr>
     = (pc = ''Root B'')"
  by (auto simp: demo_order_def StatusValid_def demo_world_def issuer_parses_def
        top_issuer_is_def)

theorem chain_selection_witness:
  "checkResponse demo_world (demo_order ''valid'' [''example.com'']) demo_partial_resource
      False [] net0 =
     Inr (emit (EvGetAll ''cert/1'' False) net0,
          store_chain ''cert/1'' \<lparr>Cert = Some ''leaf 1'', Issuer = Some ''chain A''\<rparr>
            demo_partial_resource, True, None)
   \<and> checkResponse demo_world (demo_order ''valid'' [''example.com'']) demo_partial_resource
      False ''Root B'' net0 =
     Inr (emit (EvGetAll ''cert/1'' False) net0,
          store_chain ''cert/2'' \<lparr>Cert = Some ''leaf 2'', Issuer = Some ''chain B''\<rparr>
            demo_partial_resource, True, None)
   \<and> checkResponse demo_world (demo_order ''valid'' [''example.com'']) demo_partial_resource
      False ''Root X'' net0 =
     Inr (emit (EvGetAll ''cert/1'' False) net0,
          store_chain ''cert/1'' \<lparr>Cert = Some ''leaf 1'', Issuer = Some ''chain A''\<rparr>
            demo_partial_resource, True, None)"
proof -
  let ?c1 = "\<lparr>Cert = Some ''leaf 1'', Issuer = Some ''chain A''\<rparr>"
  let ?c2 = "\<lparr>Cert = Some ''leaf 2'', Issuer = Some ''chain B''\<rparr>"
  let ?order = "demo_order ''valid'' [''example.com'']"
  have h1: "o_Status ?order = StatusValid"
    by (rule demo_chain_facts)
  have h2: "Certificates_GetAll demo_world (o_Certificate ?order) False =
      Inr [(''cert/1'', ?c1), (''cert/2'', ?c2)]"
    by (rule demo_chain_facts)
  have h3: "map_of [(''cert/1'', ?c1), (''cert/2'', ?c2)] (o_Certificate ?order) = Some ?c1"
    by (simp add: demo_chain_facts)
  note inst = chain_selection [OF h1 h2 h3, where r = demo_partial_resource and s = net0]
  have a: "checkResponse demo_world ?order demo_partial_resource False [] net0 =
     Inr (emit (EvGetAll (o_Certificate ?order) False) net0,
          store_chain (o_Certificate ?order) ?c1 demo_partial_resource, True, None)"
    by (rule inst [where pc = "[]", THEN conjunct1, THEN mp]) simp
  have b: "checkResponse demo_world ?order demo_partial_resource False ''Root B'' net0 =
     Inr (emit (EvGetAll (o_Certificate ?order) False) net0,
          store_chain ''cert/2'' ?c2 demo_partial_resource, True, None)"
    by (rule inst [where pc = "''Root B''" and link = "''cert/2''" and cert = "?c2",
                   THEN conjunct2, THEN conjunct1, THEN mp])
       (simp add: demo_chain_facts)
  have c: "checkResponse demo_world ?order demo_partial_resource False ''Root X'' net0 =
     Inr (emit (EvGetAll (o_Certificate ?order) False) net0,
          store_chain (o_Certificate ?order) ?c1 demo_partial_resource, True, None)"
    by (rule inst [where pc = "''Root X''", THEN conjunct2, THEN conjunct2, THEN mp])
       (simp add: demo_chain_facts)
  from a b c show ?thesis
    by (simp add: demo_chain_facts)
qed

text \<open>
  The claim as stated fails when an issuer chain does not parse: here the CA offers two
  candidates, neither has \<open>Root B\<close> as its topmost issuer (their issuer bytes do not
  parse at all), and checkResponse returns the parse error instead of succeeding with
  the default entry.
\<close>

theorem chain_selection_counterexample:
  "o_Status (demo_order ''valid'' [''example.com'']) = StatusValid
   \<and> Certificates_GetAll demo_world_no_issuer
        (o_Certificate (demo_order ''valid'' [''example.com''])) False =
       Inr [(''cert/1'', \<lparr>Cert = Some ''leaf 1'', Issuer = Some ''chain A''\<rparr>),
            (''cert/2'', \<lparr>Cert = Some ''leaf 2'', Issuer = Some ''chain B''\<rparr>)]
   \<and> \<not> top_issuer_is demo_world_no_issuer ''Root B''
          \<lparr>Cert = Some ''leaf 1'', Issuer = Some ''chain A''\<rparr>
   \<and> \<not> top_issuer_is demo_world_no_issuer ''Root B''
          \<lparr>Cert = Some ''leaf 2'', Issuer = Some ''chain B''\<rparr>
   \<and> checkResponse demo_world_no_issuer (demo_order ''valid'' [''example.com''])
        demo_partial_resource False ''Root B'' net0 =
       Inr (\<lparr>events = [EvGetAll ''cert/1'' False], polls = 0\<rparr>,
            demo_partial_resource\<lparr>IssuerCertificate := Some ''chain A'',
              Certificate := Some ''leaf 1'', CertURL := ''cert/1'', CertStableURL := ''cert/1''\<rparr>,
            False, Some (ErrExternal ''no certificates were found''))"
  by code_simp

subsection \<open>What the poll loop and getForCSR return\<close>

lemma wait_loop_last:
  assumes "wait_loop n msg f st = Inr (st', e)"
    and "P st"
    and "\<And>a a'. P a \<Longrightarrow> f a = Inr (a', False, None) \<Longrightarrow> P a'"
  shows "(e = Some (ErrTimeLimit msg) \<and> P st')
       \<or> (\<exists>a d. P a \<and> f a = Inr (st', d, e) \<and> (e \<noteq> None \<or> d))"
  using assms(1,2)
proof (induction n arbitrary: st)
  case 0
  then show ?case by simp
next
  case (Suc n)
  show ?case
  proof (cases "f st")
    case (Inl p)
    with Suc.prems show ?thesis by simp
  next
    case (Inr res)
    obtain a d x where res: "res = (a, d, x)" by (cases res)
    show ?thesis
    proof (cases x)
      case (Some err)
      with Suc.prems(1) Inr res have "st' = a" "e = Some err" by simp_all
      with Inr res Some Suc.prems(2) show ?thesis by blast
    next
      case None
      show ?thesis
      proof (cases d)
        case True
        with Suc.prems(1) Inr res None have "st' = a" "e = None" by simp_all
        with Inr res None True Suc.prems(2) show ?thesis by blast
      next
        case False
        with Inr res None have "f st = Inr (a, False, None)" by simp
        from assms(3) [OF Suc.prems(2) this] have Pa: "P a" .
        from Suc.prems(1) Inr res None False have "wait_loop n msg f a = Inr (st', e)" by simp
        from Suc.IH [OF this Pa] show ?thesis .
      qed
    qed
  qed
qed

lemma wait_loop_panic:
  assumes "wait_loop n msg f st = Inl p"
    and "P st"
    and "\<And>a a'. P a \<Longrightarrow> f a = Inr (a', False, None) \<Longrightarrow> P a'"
  shows "\<exists>a. P a \<and> f a = Inl p"
  using assms(1,2)
proof (induction n arbitrary: st)
  case 0
  then show ?case by simp
next
  case (Suc n)
  show ?case
  proof (cases "f st")
    case (Inl q)
    with Suc.prems show ?thesis by auto
  next
    case (Inr res)
    obtain a d x where res: "res = (a, d, x)" by (cases res)
    show ?thesis
    proof (cases x)
      case (Some err)
      with Suc.prems(1) Inr res show ?thesis by simp
    next
      case None
      show ?thesis
      proof (cases d)
        case True
        with Suc.prems(1) Inr res None show ?thesis by simp
      next
        case False
        with Inr res None have "f st = Inr (a, False, None)" by simp
        from assms(3) [OF Suc.prems(2) this] have Pa: "P a" .
        from Suc.prems(1) Inr res None False have "wait_loop n msg f a = Inl p" by simp
        from Suc.IH [OF this Pa] show ?thesis .
      qed
    qed
  qed
qed

lemma poll_step_cases:
  assumes "poll_step w order bdl pc (s, r) = Inr ((s', r'), d, x)"
  shows "(\<exists>e0. Orders_Get w (polls s) (o_Location order) = Inl e0
            \<and> r' = r \<and> \<not> d \<and> x = Some e0)
       \<or> (\<exists>ord s1 ok. Orders_Get w (polls s) (o_Location order) = Inr ord
            \<and> checkResponse w ord r bdl pc s1 = Inr (s', r', ok, x)
            \<and> d = (ok \<and> x = None))"
proof (cases "Orders_Get w (polls s) (o_Location order)")
  case (Inl e0)
  with assms show ?thesis by (simp add: poll_step_def Let_def)
next
  case (Inr ord)
  let ?s1 = "(emit (EvOrderGet (o_Location order)) s)\<lparr>polls := Suc (polls s)\<rparr>"
  show ?thesis
  proof (cases "checkResponse w ord r bdl pc ?s1")
    case (Inl p)
    with assms Inr show ?thesis by (simp add: poll_step_def Let_def)
  next
    case cr: (Inr res)
    obtain s2 r2 ok e where res: "res = (s2, r2, ok, e)" by (cases res)
    show ?thesis
    proof (cases e)
      case None
      with assms Inr cr res have "s' = s2" "r' = r2" "d = ok" "x = None"
        by (simp_all add: poll_step_def Let_def)
      with Inr cr res None show ?thesis by blast
    next
      case (Some err)
      with assms Inr cr res have "s' = s2" "r' = r2" "\<not> d" "x = Some err"
        by (simp_all add: poll_step_def Let_def)
      with Inr cr res Some show ?thesis by blast
    qed
  qed
qed

lemma poll_step_continue:
  assumes "poll_step w order bdl pc (s, r) = Inr ((s', r'), False, None)"
  shows "r' = r"
proof -
  from poll_step_cases [OF assms] obtain ord s1 ok where
    cr: "checkResponse w ord r bdl pc s1 = Inr (s', r', ok, None)" and "False = (ok \<and> None = (None :: error option))"
    by blast
  then have "\<not> ok" by simp
  with checkResponse_cases [OF cr] show ?thesis by blast
qed


lemma checkResponse_outcome:
  assumes "checkResponse w order r bdl pc s = Inr (s', r', ok, e)"
  shows "(r' = r \<and> \<not> ok \<and> o_Status order \<noteq> StatusValid)
       \<or> (r' = r \<and> \<not> ok \<and> e \<noteq> None)
       \<or> (ok \<and> e = None \<and> chain_stored w bdl r r' \<and> o_Status order = StatusValid)
       \<or> (\<not> ok \<and> (\<exists>e0. e = Some e0 \<and> default_stored_parse_failed w bdl r e0 r'))"
proof -
  from checkResponse_cases [OF assms] consider
    (notvalid) "r' = r" "\<not> ok" "o_Status order \<noteq> StatusValid"
    | (fetcherr) e0 where "r' = r" "\<not> ok" "e = Some e0"
    | (stored) certs link cert where "o_Status order = StatusValid"
        "Certificates_GetAll w (o_Certificate order) bdl = Inr certs"
        "(link, cert) \<in> set certs" "ok" "e = None" "r' = store_chain link cert r"
    | (parseerr) certs dflt link cert e0 where
        "Certificates_GetAll w (o_Certificate order) bdl = Inr certs"
        "map_of certs (o_Certificate order) = Some dflt" "(link, cert) \<in> set certs"
        "ParsePEMBundle w (Issuer cert) = Inl e0" "\<not> ok" "e = Some e0"
        "r' = store_chain (o_Certificate order) dflt r"
    by blast
  then show ?thesis
  proof cases
    case notvalid
    then show ?thesis by simp
  next
    case fetcherr
    then show ?thesis by simp
  next
    case stored
    from stored(2,3,6) have "chain_stored w bdl r r'"
      unfolding chain_stored_def by blast
    with stored(1,4,5) show ?thesis by simp
  next
    case parseerr
    from parseerr(1,2,3,4,7) have "default_stored_parse_failed w bdl r e0 r'"
      unfolding default_stored_parse_failed_def by blast
    with parseerr(5,6) show ?thesis by simp
  qed
qed

lemma poll_step_outcome:
  assumes "poll_step w order bdl pc (s, r) = Inr ((s', r'), d, x)"
  shows "(r' = r \<and> \<not> d)
       \<or> (d \<and> x = None \<and> chain_stored w bdl r r')
       \<or> (\<not> d \<and> (\<exists>e0. x = Some e0 \<and> default_stored_parse_failed w bdl r e0 r'))"
proof -
  from poll_step_cases [OF assms] consider
    (geterr) "r' = r" "\<not> d"
    | (check) ord s1 ok where "checkResponse w ord r bdl pc s1 = Inr (s', r', ok, x)"
        "d = (ok \<and> x = None)"
    by blast
  then show ?thesis
  proof cases
    case geterr
    then show ?thesis by simp
  next
    case check
    from checkResponse_outcome [OF check(1)] check(2) show ?thesis
      by blast
  qed
qed

lemma poll_certificate_result:
  assumes "poll_certificate w c order bdl pc r0 s = Inr (s', res, err)"
  shows "\<exists>r'. res = Some r' \<and>
     ((err = None \<and> chain_stored w bdl r0 r')
      \<or> (err \<noteq> None \<and> r' = r0)
      \<or> (\<exists>e0. err = Some e0 \<and> default_stored_parse_failed w bdl r0 e0 r'))"
proof -
  let ?f = "poll_step w order bdl pc"
  let ?s0 = "emit (EvWait ''certificate'' (pollTimeout c) (pollInterval c)) s"
  let ?P = "\<lambda>st :: net \<times> Resource. snd st = r0"
  from assms obtain r' where
    loop: "wait_loop (wait_samples w (pollTimeout c) (pollInterval c)) ''certificate'' ?f (?s0, r0)
             = Inr ((s', r'), err)"
    and res: "res = Some r'"
    by (auto simp: poll_certificate_def wait_For_def split: sum.splits prod.splits)
  have step: "\<And>a a'. ?P a \<Longrightarrow> ?f a = Inr (a', False, None) \<Longrightarrow> ?P a'"
  proof -
    fix a a' :: "net \<times> Resource"
    assume "snd a = r0" and "?f a = Inr (a', False, None)"
    then have "?f (fst a, r0) = Inr ((fst a', snd a'), False, None)"
      by (cases a) simp
    from poll_step_continue [OF this] show "snd a' = r0" .
  qed
  have init: "?P (?s0, r0)" by simp
  from wait_loop_last [where P = ?P, OF loop init step]
  have "(err = Some (ErrTimeLimit ''certificate'') \<and> r' = r0)
        \<or> (\<exists>a d. snd a = r0 \<and> ?f a = Inr ((s', r'), d, err) \<and> (err \<noteq> None \<or> d))"
    by simp
  then consider
    (timeout) "err = Some (ErrTimeLimit ''certificate'')" "r' = r0"
    | (last) a d where "snd a = r0" "?f a = Inr ((s', r'), d, err)" "err \<noteq> None \<or> d"
    by blast
  then show ?thesis
  proof cases
    case timeout
    with res show ?thesis by simp
  next
    case last
    from last(1,2) have "?f (fst a, r0) = Inr ((s', r'), d, err)"
      by (cases a) simp
    from poll_step_outcome [OF this] last(3) have
      "(err = None \<and> chain_stored w bdl r0 r')
       \<or> (err \<noteq> None \<and> r' = r0)
       \<or> (\<exists>e0. err = Some e0 \<and> default_stored_parse_failed w bdl r0 e0 r')"
      by blast
    with res show ?thesis by simp
  qed
qed


lemma getForCSR_unfold:
  "getForCSR w c domains order bdl csr key pc s =
     (case Orders_UpdateForCSR w (o_Finalize order) csr of
        Inl err \<Rightarrow> Inr (emit (EvFinalize (o_Finalize order)) s, None, Some err)
      | Inr respOrder \<Rightarrow>
          (case domains of
             [] \<Rightarrow> Inl (IndexOutOfRange AtGetForCSR)
           | domain0 # ds \<Rightarrow>
               if o_Status respOrder = StatusValid then
                 (case checkResponse w respOrder (fresh_resource domain0 respOrder key) bdl pc
                         (emit (EvFinalize (o_Finalize order)) s) of
                    Inl p \<Rightarrow> Inl p
                  | Inr (s2, certRes2, ok, errR) \<Rightarrow>
                      (case errR of
                         Some e \<Rightarrow> Inr (s2, None, Some e)
                       | None \<Rightarrow>
                           if ok then Inr (s2, Some certRes2, None)
                           else poll_certificate w c order bdl pc certRes2 s2))
               else poll_certificate w c order bdl pc (fresh_resource domain0 respOrder key)
                      (emit (EvFinalize (o_Finalize order)) s)))"
  by (simp add: getForCSR_def Let_def fresh_resource_def split: sum.splits list.splits)


lemma getForCSR_Some:
  assumes "getForCSR w c domains order bdl csr key pc s = Inr (s', Some r, err)"
  shows "\<exists>respOrder d0 ds.
           Orders_UpdateForCSR w (o_Finalize order) csr = Inr respOrder \<and> domains = d0 # ds
           \<and> ((err = None \<and> chain_stored w bdl (fresh_resource d0 respOrder key) r)
              \<or> (err \<noteq> None \<and> o_Status respOrder \<noteq> StatusValid
                  \<and> (r = fresh_resource d0 respOrder key
                     \<or> (\<exists>e0. err = Some e0
                           \<and> default_stored_parse_failed w bdl
                                (fresh_resource d0 respOrder key) e0 r))))"
proof (cases "Orders_UpdateForCSR w (o_Finalize order) csr")
  case (Inl e0)
  with assms show ?thesis by (simp add: getForCSR_unfold)
next
  case (Inr respOrder)
  show ?thesis
  proof (cases domains)
    case Nil
    with assms Inr show ?thesis by (simp add: getForCSR_unfold)
  next
    case (Cons d0 ds)
    let ?r0 = "fresh_resource d0 respOrder key"
    let ?s1 = "emit (EvFinalize (o_Finalize order)) s"
    have "(err = None \<and> chain_stored w bdl ?r0 r)
          \<or> (err \<noteq> None \<and> o_Status respOrder \<noteq> StatusValid
              \<and> (r = ?r0 \<or> (\<exists>e0. err = Some e0 \<and> default_stored_parse_failed w bdl ?r0 e0 r)))"
    proof (cases "o_Status respOrder = StatusValid")
      case False
      with assms Inr Cons have "poll_certificate w c order bdl pc ?r0 ?s1 = Inr (s', Some r, err)"
        by (simp add: getForCSR_unfold)
      from poll_certificate_result [OF this] False show ?thesis
        by auto
    next
      case True
      show ?thesis
      proof (cases "checkResponse w respOrder ?r0 bdl pc ?s1")
        case (Inl p)
        with assms Inr Cons True show ?thesis by (simp add: getForCSR_unfold)
      next
        case cr: (Inr quad)
        obtain s2 r2 ok errR where quad: "quad = (s2, r2, ok, errR)" by (cases quad)
        from cr quad have cr': "checkResponse w respOrder ?r0 bdl pc ?s1 = Inr (s2, r2, ok, errR)"
          by simp
        show ?thesis
        proof (cases errR)
          case (Some e)
          with assms Inr Cons True cr' show ?thesis
            by (simp add: getForCSR_unfold)
        next
          case None
          from checkResponse_outcome [OF cr'] True None have ok: "ok" and st: "chain_stored w bdl ?r0 r2"
            by auto
          from assms Inr Cons True cr' None ok have "r = r2" "err = None"
            by (simp_all add: getForCSR_unfold)
          with st show ?thesis by simp
        qed
      qed
    qed
    with Inr Cons show ?thesis by blast
  qed
qed

lemma getForCSR_None:
  assumes "getForCSR w c domains order bdl csr key pc s = Inr (s', None, err)"
  shows "err \<noteq> None
       \<and> ((\<exists>e0. Orders_UpdateForCSR w (o_Finalize order) csr = Inl e0 \<and> err = Some e0)
          \<or> (\<exists>respOrder. Orders_UpdateForCSR w (o_Finalize order) csr = Inr respOrder
                \<and> o_Status respOrder = StatusValid))"
proof (cases "Orders_UpdateForCSR w (o_Finalize order) csr")
  case (Inl e0)
  with assms show ?thesis by (auto simp: getForCSR_unfold)
next
  case (Inr respOrder)
  show ?thesis
  proof (cases domains)
    case Nil
    with assms Inr show ?thesis by (simp add: getForCSR_unfold)
  next
    case (Cons d0 ds)
    let ?r0 = "fresh_resource d0 respOrder key"
    let ?s1 = "emit (EvFinalize (o_Finalize order)) s"
    show ?thesis
    proof (cases "o_Status respOrder = StatusValid")
      case False
      with assms Inr Cons have "poll_certificate w c order bdl pc ?r0 ?s1 = Inr (s', None, err)"
        by (simp add: getForCSR_unfold)
      from poll_certificate_result [OF this] show ?thesis
        by simp
    next
      case True
      show ?thesis
      proof (cases "checkResponse w respOrder ?r0 bdl pc ?s1")
        case (Inl p)
        with assms Inr Cons True show ?thesis by (simp add: getForCSR_unfold)
      next
        case cr: (Inr quad)
        obtain s2 r2 ok errR where quad: "quad = (s2, r2, ok, errR)" by (cases quad)
        from cr quad have cr': "checkResponse w respOrder ?r0 bdl pc ?s1 = Inr (s2, r2, ok, errR)"
          by simp
        show ?thesis
        proof (cases errR)
          case (Some e)
          with assms Inr Cons True cr' have "err = Some e"
            by (simp add: getForCSR_unfold)
          with Inr True show ?thesis by simp
        next
          case None
          from checkResponse_outcome [OF cr'] True None have ok: "ok"
            by auto
          from assms Inr Cons True cr' None ok show ?thesis
            by (simp add: getForCSR_unfold)
        qed
      qed
    qed
  qed
qed

subsection \<open>Successful issuance\<close>

lemma foldl_Add:
  "foldl (\<lambda>failures auth. obtainError_Add failures (g auth) e) acc authz =
     acc @ map (\<lambda>auth. (g auth, e)) authz"
  by (induction authz arbitrary: acc) (simp_all add: obtainError_Add_def)

lemma add_failures_eq:
  "add_failures w authz err =
     (case err of None \<Rightarrow> [] | Some e \<Rightarrow> map (\<lambda>auth. (GetTargetedDomain w auth, e)) authz)"
  by (simp add: add_failures_def foldl_Add newObtainError_def split: option.splits)

lemma Join_add_failures:
  "obtainError_Join (add_failures w authz err) =
     (case err of
        None \<Rightarrow> None
      | Some e \<Rightarrow> if authz = [] then None
                 else Some (ErrObtain (map (\<lambda>auth. (GetTargetedDomain w auth, e)) authz)))"
  by (simp add: add_failures_eq obtainError_Join_def split: option.splits)

lemma getForOrder_Some:
  assumes "getForOrder w c domains order request s = Inr (s', Some r, err)"
  shows "\<exists>csr key. getForCSR w c domains order (req_Bundle request) csr key
                     (req_PreferredChain request) s = Inr (s', Some r, err)"
  using assms
  by (simp add: getForOrder_def split: sum.splits list.splits option.splits) blast+

lemma Obtain_unfold:
  "Obtain w c request s =
     (if req_Domains request = [] then Inr (s, None, Some ErrNoDomains)
      else
        (case Orders_NewWithOptions w (sanitizeDomain w (req_Domains request))
                (orderOptions_of request) of
           Inl err \<Rightarrow>
             Inr (emit (EvNewOrder (sanitizeDomain w (req_Domains request))
                          (orderOptions_of request)) s, None, Some err)
         | Inr order \<Rightarrow>
             (case getAuthorizations w order of
                Inl err \<Rightarrow>
                  Inr (deactivateAuthorizations order
                         (req_AlwaysDeactivateAuthorizations request)
                         (emit EvGetAuthorizations
                            (emit (EvNewOrder (sanitizeDomain w (req_Domains request))
                                     (orderOptions_of request)) s)), None, Some err)
              | Inr authz \<Rightarrow>
                  (case resolver_Solve w authz of
                     Some err \<Rightarrow>
                       Inr (deactivateAuthorizations order
                              (req_AlwaysDeactivateAuthorizations request)
                              (emit EvSolve (emit EvGetAuthorizations
                                 (emit (EvNewOrder (sanitizeDomain w (req_Domains request))
                                          (orderOptions_of request)) s))), None, Some err)
                   | None \<Rightarrow>
                       (case getForOrder w c (sanitizeDomain w (req_Domains request)) order request
                               (emit EvSolve (emit EvGetAuthorizations
                                  (emit (EvNewOrder (sanitizeDomain w (req_Domains request))
                                           (orderOptions_of request)) s))) of
                          Inl p \<Rightarrow> Inl p
                        | Inr (s4, cert, err) \<Rightarrow>
                            Inr (if req_AlwaysDeactivateAuthorizations request
                                 then deactivateAuthorizations order True s4 else s4,
                                 cert, obtainError_Join (add_failures w authz err)))))))"
  by (simp add: Obtain_def Let_def split: sum.splits option.splits)

lemma ObtainForCSR_unfold:
  "ObtainForCSR w c request s =
     (case creq_CSR request of
        None \<Rightarrow> Inr (s, None, Some ErrCSRMissing)
      | Some csr \<Rightarrow>
        (case Orders_NewWithOptions w (ExtractDomainsCSR w csr) (orderOptions_of_csr request) of
           Inl err \<Rightarrow>
             Inr (emit (EvNewOrder (ExtractDomainsCSR w csr) (orderOptions_of_csr request)) s,
                  None, Some err)
         | Inr order \<Rightarrow>
             (case getAuthorizations w order of
                Inl err \<Rightarrow>
                  Inr (deactivateAuthorizations order
                         (creq_AlwaysDeactivateAuthorizations request)
                         (emit EvGetAuthorizations
                            (emit (EvNewOrder (ExtractDomainsCSR w csr)
                                     (orderOptions_of_csr request)) s)), None, Some err)
              | Inr authz \<Rightarrow>
                  (case resolver_Solve w authz of
                     Some err \<Rightarrow>
                       Inr (deactivateAuthorizations order
                              (creq_AlwaysDeactivateAuthorizations request)
                              (emit EvSolve (emit EvGetAuthorizations
                                 (emit (EvNewOrder (ExtractDomainsCSR w csr)
                                          (orderOptions_of_csr request)) s))), None, Some err)
                   | None \<Rightarrow>
                       (case getForCSR w c (ExtractDomainsCSR w csr) order (creq_Bundle request)
                               (csr_Raw csr)
                               (case creq_PrivateKey request of
                                  Some k \<Rightarrow> PEMEncode_key w k | None \<Rightarrow> None)
                               (creq_PreferredChain request)
                               (emit EvSolve (emit EvGetAuthorizations
                                  (emit (EvNewOrder (ExtractDomainsCSR w csr)
                                           (orderOptions_of_csr request)) s))) of
                          Inl p \<Rightarrow> Inl p
                        | Inr (s4, cert, err) \<Rightarrow>
                            Inr (if creq_AlwaysDeactivateAuthorizations request
                                 then deactivateAuthorizations order True s4 else s4,
                                 map_option (\<lambda>r. r\<lparr>CSR := PEMEncode_csr w csr\<rparr>) cert,
                                 obtainError_Join (add_failures w authz err)))))))"
  by (simp add: ObtainForCSR_def Let_def map_option_case split: sum.splits option.splits)


lemma Obtain_Some:
  assumes "Obtain w c request s = Inr (s', Some r, err)"
  shows "\<exists>order authz s3 s4 e.
           Orders_NewWithOptions w (sanitizeDomain w (req_Domains request))
             (orderOptions_of request) = Inr order
           \<and> getAuthorizations w order = Inr authz
           \<and> getForOrder w c (sanitizeDomain w (req_Domains request)) order request s3 =
               Inr (s4, Some r, e)
           \<and> err = obtainError_Join (add_failures w authz e)"
proof -
  let ?ds = "sanitizeDomain w (req_Domains request)"
  from assms have ne: "req_Domains request \<noteq> []"
    by (auto simp: Obtain_unfold)
  from assms ne obtain order where
    o: "Orders_NewWithOptions w ?ds (orderOptions_of request) = Inr order"
    by (cases "Orders_NewWithOptions w ?ds (orderOptions_of request)")
       (auto simp: Obtain_unfold)
  from assms ne o obtain authz where a: "getAuthorizations w order = Inr authz"
    by (cases "getAuthorizations w order") (auto simp: Obtain_unfold)
  from assms ne o a have sv: "resolver_Solve w authz = None"
    by (cases "resolver_Solve w authz") (auto simp: Obtain_unfold)
  let ?s3 = "emit EvSolve (emit EvGetAuthorizations (emit (EvNewOrder ?ds (orderOptions_of request)) s))"
  from assms ne o a sv obtain s4 cert e where
    g: "getForOrder w c ?ds order request ?s3 = Inr (s4, cert, e)"
    by (cases "getForOrder w c ?ds order request ?s3") (auto simp: Obtain_unfold)
  from assms ne o a sv g have "cert = Some r" "err = obtainError_Join (add_failures w authz e)"
    by (simp_all add: Obtain_unfold)
  with o a g show ?thesis by blast
qed

lemma ObtainForCSR_Some:
  assumes "ObtainForCSR w c request s = Inr (s', Some r, err)"
  shows "\<exists>csr order authz key s3 s4 r0 e.
           creq_CSR request = Some csr
           \<and> Orders_NewWithOptions w (ExtractDomainsCSR w csr)
                (orderOptions_of_csr request) = Inr order
           \<and> getAuthorizations w order = Inr authz
           \<and> getForCSR w c (ExtractDomainsCSR w csr) order (creq_Bundle request) (csr_Raw csr)
                key (creq_PreferredChain request) s3 = Inr (s4, Some r0, e)
           \<and> r = r0\<lparr>CSR := PEMEncode_csr w csr\<rparr>
           \<and> err = obtainError_Join (add_failures w authz e)"
proof -
  from assms obtain csr where cs: "creq_CSR request = Some csr"
    by (cases "creq_CSR request") (auto simp: ObtainForCSR_unfold)
  let ?ds = "ExtractDomainsCSR w csr"
  from assms cs obtain order where
    o: "Orders_NewWithOptions w ?ds (orderOptions_of_csr request) = Inr order"
    by (cases "Orders_NewWithOptions w ?ds (orderOptions_of_csr request)")
       (auto simp: ObtainForCSR_unfold)
  from assms cs o obtain authz where a: "getAuthorizations w order = Inr authz"
    by (cases "getAuthorizations w order") (auto simp: ObtainForCSR_unfold)
  from assms cs o a have sv: "resolver_Solve w authz = None"
    by (cases "resolver_Solve w authz") (auto simp: ObtainForCSR_unfold)
  let ?s3 = "emit EvSolve (emit EvGetAuthorizations
               (emit (EvNewOrder ?ds (orderOptions_of_csr request)) s))"
  let ?key = "case creq_PrivateKey request of Some k \<Rightarrow> PEMEncode_key w k | None \<Rightarrow> None"
  from assms cs o a sv obtain s4 cert e where
    g: "getForCSR w c ?ds order (creq_Bundle request) (csr_Raw csr) ?key
          (creq_PreferredChain request) ?s3 = Inr (s4, cert, e)"
    by (cases "getForCSR w c ?ds order (creq_Bundle request) (csr_Raw csr) ?key
          (creq_PreferredChain request) ?s3") (auto simp: ObtainForCSR_unfold)
  from assms cs o a sv g obtain r0 where
    "cert = Some r0" "r = r0\<lparr>CSR := PEMEncode_csr w csr\<rparr>"
    "err = obtainError_Join (add_failures w authz e)"
    by (cases cert) (auto simp: ObtainForCSR_unfold)
  with cs o a g show ?thesis by blast
qed

lemma chain_stored_urls:
  assumes "chain_stored w bdl r0 r"
  shows "CertStableURL r = CertURL r
       \<and> (\<exists>url certs cert. Certificates_GetAll w url bdl = Inr certs
             \<and> (CertURL r, cert) \<in> set certs
             \<and> Certificate r = Cert cert \<and> IssuerCertificate r = Issuer cert)"
proof -
  from assms obtain url certs link cert where
    g: "Certificates_GetAll w url bdl = Inr certs" and m: "(link, cert) \<in> set certs"
    and r: "r = store_chain link cert r0"
    unfolding chain_stored_def by blast
  from r have "CertStableURL r = link" "CertURL r = link" "Certificate r = Cert cert"
    "IssuerCertificate r = Issuer cert"
    by (simp_all add: store_chain_def)
  with g m show ?thesis by auto
qed


lemma getForCSR_success_urls:
  assumes "getForCSR w c domains order bdl csr key pc s = Inr (s', Some r, None)"
  shows "CertStableURL r = CertURL r
       \<and> (\<exists>url certs cert. Certificates_GetAll w url bdl = Inr certs
             \<and> (CertURL r, cert) \<in> set certs
             \<and> Certificate r = Cert cert \<and> IssuerCertificate r = Issuer cert)"
proof -
  from getForCSR_Some [OF assms] obtain r0 where "chain_stored w bdl r0 r"
    by auto
  then show ?thesis by (rule chain_stored_urls)
qed

text \<open>
  Claim C10, as amended. For an order that has at least one authorization, a Resource
  that Obtain or ObtainForCSR returns with a nil error has CertStableURL equal to
  CertURL, and that URL is the link of a chain the CA offered whose certificate and
  issuer bytes are the ones in the Resource. A Resource that Get returns with a nil error
  has both equal to the requested URL, and holds what the CA returned for it.
\<close>


theorem success_urls:
  "(Obtain w c request s = Inr (s', Some r, None)
      \<and> (\<forall>order. Orders_NewWithOptions w (sanitizeDomain w (req_Domains request))
                     (orderOptions_of request) = Inr order
                   \<longrightarrow> getAuthorizations w order \<noteq> Inr [])
    \<longrightarrow> CertStableURL r = CertURL r
        \<and> (\<exists>url certs cert. Certificates_GetAll w url (req_Bundle request) = Inr certs
              \<and> (CertURL r, cert) \<in> set certs
              \<and> Certificate r = Cert cert \<and> IssuerCertificate r = Issuer cert))
   \<and> (ObtainForCSR w c crequest s = Inr (s', Some r, None)
      \<and> (\<forall>csr order. creq_CSR crequest = Some csr
                   \<and> Orders_NewWithOptions w (ExtractDomainsCSR w csr)
                       (orderOptions_of_csr crequest) = Inr order
                   \<longrightarrow> getAuthorizations w order \<noteq> Inr [])
    \<longrightarrow> CertStableURL r = CertURL r
        \<and> (\<exists>url certs cert. Certificates_GetAll w url (creq_Bundle crequest) = Inr certs
              \<and> (CertURL r, cert) \<in> set certs
              \<and> Certificate r = Cert cert \<and> IssuerCertificate r = Issuer cert))
   \<and> (Get w url bdl s = Inr (s', Some r, None)
    \<longrightarrow> CertStableURL r = CertURL r \<and> CertURL r = url
        \<and> Certificates_Get w url bdl = Inr (Certificate r, IssuerCertificate r))"
proof -
  have A: "Obtain w c request s = Inr (s', Some r, None)
      \<and> (\<forall>order. Orders_NewWithOptions w (sanitizeDomain w (req_Domains request))
                     (orderOptions_of request) = Inr order
                   \<longrightarrow> getAuthorizations w order \<noteq> Inr [])
    \<longrightarrow> CertStableURL r = CertURL r
        \<and> (\<exists>url certs cert. Certificates_GetAll w url (req_Bundle request) = Inr certs
              \<and> (CertURL r, cert) \<in> set certs
              \<and> Certificate r = Cert cert \<and> IssuerCertificate r = Issuer cert)"
  proof
  assume h: "Obtain w c request s = Inr (s', Some r, None)
      \<and> (\<forall>order. Orders_NewWithOptions w (sanitizeDomain w (req_Domains request))
                     (orderOptions_of request) = Inr order
                   \<longrightarrow> getAuthorizations w order \<noteq> Inr [])"
  then have run: "Obtain w c request s = Inr (s', Some r, None)" by simp
  from Obtain_Some [OF run] obtain order authz s3 s4 e where
    o: "Orders_NewWithOptions w (sanitizeDomain w (req_Domains request))
          (orderOptions_of request) = Inr order"
    and a: "getAuthorizations w order = Inr authz"
    and g: "getForOrder w c (sanitizeDomain w (req_Domains request)) order request s3 =
              Inr (s4, Some r, e)"
    and j: "None = obtainError_Join (add_failures w authz e)"
    by blast
  from h o a have "authz \<noteq> []" by auto
  with j have "e = None"
    by (cases e) (simp_all add: Join_add_failures)
  with g obtain csr key where
    "getForCSR w c (sanitizeDomain w (req_Domains request)) order (req_Bundle request) csr key
       (req_PreferredChain request) s3 = Inr (s4, Some r, None)"
    using getForOrder_Some by blast
  then show "CertStableURL r = CertURL r
        \<and> (\<exists>url certs cert. Certificates_GetAll w url (req_Bundle request) = Inr certs
              \<and> (CertURL r, cert) \<in> set certs
              \<and> Certificate r = Cert cert \<and> IssuerCertificate r = Issuer cert)"
    by (rule getForCSR_success_urls)
  qed
  have B: "ObtainForCSR w c crequest s = Inr (s', Some r, None)
      \<and> (\<forall>csr order. creq_CSR crequest = Some csr
                   \<and> Orders_NewWithOptions w (ExtractDomainsCSR w csr)
                       (orderOptions_of_csr crequest) = Inr order
                   \<longrightarrow> getAuthorizations w order \<noteq> Inr [])
    \<longrightarrow> CertStableURL r = CertURL r
        \<and> (\<exists>url certs cert. Certificates_GetAll w url (creq_Bundle crequest) = Inr certs
              \<and> (CertURL r, cert) \<in> set certs
              \<and> Certificate r = Cert cert \<and> IssuerCertificate r = Issuer cert)"
  proof
  assume h: "ObtainForCSR w c crequest s = Inr (s', Some r, None)
      \<and> (\<forall>csr order. creq_CSR crequest = Some csr
                   \<and> Orders_NewWithOptions w (ExtractDomainsCSR w csr)
                       (orderOptions_of_csr crequest) = Inr order
                   \<longrightarrow> getAuthorizations w order \<noteq> Inr [])"
  then have run: "ObtainForCSR w c crequest s = Inr (s', Some r, None)" by simp
  from ObtainForCSR_Some [OF run] obtain csr order authz key s3 s4 r0 e where
    cs: "creq_CSR crequest = Some csr"
    and o: "Orders_NewWithOptions w (ExtractDomainsCSR w csr)
              (orderOptions_of_csr crequest) = Inr order"
    and a: "getAuthorizations w order = Inr authz"
    and g: "getForCSR w c (ExtractDomainsCSR w csr) order (creq_Bundle crequest) (csr_Raw csr)
              key (creq_PreferredChain crequest) s3 = Inr (s4, Some r0, e)"
    and r: "r = r0\<lparr>CSR := PEMEncode_csr w csr\<rparr>"
    and j: "None = obtainError_Join (add_failures w authz e)"
    by blast
  from h cs o a have "authz \<noteq> []" by auto
  with j have "e = None"
    by (cases e) (simp_all add: Join_add_failures)
  with g have "getForCSR w c (ExtractDomainsCSR w csr) order (creq_Bundle crequest) (csr_Raw csr)
              key (creq_PreferredChain crequest) s3 = Inr (s4, Some r0, None)"
    by simp
  from getForCSR_success_urls [OF this] r
  show "CertStableURL r = CertURL r
        \<and> (\<exists>url certs cert. Certificates_GetAll w url (creq_Bundle crequest) = Inr certs
              \<and> (CertURL r, cert) \<in> set certs
              \<and> Certificate r = Cert cert \<and> IssuerCertificate r = Issuer cert)"
    by simp
  qed
  have C: "Get w url bdl s = Inr (s', Some r, None)
    \<longrightarrow> CertStableURL r = CertURL r \<and> CertURL r = url
        \<and> Certificates_Get w url bdl = Inr (Certificate r, IssuerCertificate r)"
    by (auto simp: Get_def Let_def split: sum.splits prod.splits list.splits)
  show ?thesis
    by (rule conjI [OF A conjI [OF B C]])
qed



lemma demo_Obtain_preferred:
  "Obtain demo_world demo_certifier
     ((demo_request [''example.com'', ''www.example.com''])\<lparr>req_PreferredChain := ''Root B''\<rparr>)
     net0 =
   Inr (\<lparr>events = [EvNewOrder [''example.com'', ''www.example.com'']
                     \<lparr>oo_NotBefore = 0, oo_NotAfter = 0, oo_Profile = [],
                      oo_ReplacesCertID = []\<rparr>,
                   EvGetAuthorizations, EvSolve, EvFinalize ''finalize/1'',
                   EvWait ''certificate'' 30000000000 500000000,
                   EvOrderGet ''order/1'', EvOrderGet ''order/1'', EvOrderGet ''order/1'',
                   EvGetAll ''cert/1'' False],
          polls = 3\<rparr>,
        Some \<lparr>Domain = ''example.com'', CertURL = ''cert/2'', CertStableURL = ''cert/2'',
               PrivateKey = Some ''fresh key'', Certificate = Some ''leaf 2'',
               IssuerCertificate = Some ''chain B'', CSR = None\<rparr>,
        None)"
  by code_simp

lemma demo_ObtainForCSR:
  "ObtainForCSR demo_world demo_certifier demo_csr_request net0 =
   Inr (\<lparr>events = [EvNewOrder [''example.com'']
                     \<lparr>oo_NotBefore = 0, oo_NotAfter = 0, oo_Profile = [],
                      oo_ReplacesCertID = []\<rparr>,
                   EvGetAuthorizations, EvSolve, EvFinalize ''finalize/1'',
                   EvWait ''certificate'' 30000000000 500000000,
                   EvOrderGet ''order/1'', EvOrderGet ''order/1'', EvOrderGet ''order/1'',
                   EvGetAll ''cert/1'' False],
          polls = 3\<rparr>,
        Some \<lparr>Domain = ''example.com'', CertURL = ''cert/1'', CertStableURL = ''cert/1'',
               PrivateKey = None, Certificate = Some ''leaf 1'',
               IssuerCertificate = Some ''chain A'', CSR = Some ''csr pem''\<rparr>,
        None)"
  by code_simp

lemma demo_Get:
  "Get demo_world ''cert/1'' False net0 =
   Inr (\<lparr>events = [EvCertGet ''cert/1'' False], polls = 0\<rparr>,
        Some \<lparr>Domain = ''example.com'', CertURL = ''cert/1'', CertStableURL = ''cert/1'',
               PrivateKey = None, Certificate = Some ''leaf 1'',
               IssuerCertificate = Some ''chain A'', CSR = None\<rparr>,
        None)"
  by code_simp

lemma demo_world_authorizations:
  "Orders_NewWithOptions demo_world (d # ds) oo = Inr order \<longrightarrow>
     getAuthorizations demo_world order \<noteq> Inr []"
  by (auto simp: demo_world_def demo_order_def)

theorem success_urls_witness:
  "Obtain demo_world demo_certifier
     ((demo_request [''example.com'', ''www.example.com''])\<lparr>req_PreferredChain := ''Root B''\<rparr>)
     net0 =
   Inr (\<lparr>events = [EvNewOrder [''example.com'', ''www.example.com'']
                     \<lparr>oo_NotBefore = 0, oo_NotAfter = 0, oo_Profile = [],
                      oo_ReplacesCertID = []\<rparr>,
                   EvGetAuthorizations, EvSolve, EvFinalize ''finalize/1'',
                   EvWait ''certificate'' 30000000000 500000000,
                   EvOrderGet ''order/1'', EvOrderGet ''order/1'', EvOrderGet ''order/1'',
                   EvGetAll ''cert/1'' False],
          polls = 3\<rparr>,
        Some \<lparr>Domain = ''example.com'', CertURL = ''cert/2'', CertStableURL = ''cert/2'',
               PrivateKey = Some ''fresh key'', Certificate = Some ''leaf 2'',
               IssuerCertificate = Some ''chain B'', CSR = None\<rparr>,
        None)
   \<and> (\<exists>url certs cert. Certificates_GetAll demo_world url False = Inr certs
         \<and> (''cert/2'', cert) \<in> set certs
         \<and> Some ''leaf 2'' = Cert cert \<and> Some ''chain B'' = Issuer cert)
   \<and> (\<exists>url certs cert. Certificates_GetAll demo_world url False = Inr certs
         \<and> (''cert/1'', cert) \<in> set certs
         \<and> Some ''leaf 1'' = Cert cert \<and> Some ''chain A'' = Issuer cert)
   \<and> Certificates_Get demo_world ''cert/1'' False = Inr (Some ''leaf 1'', Some ''chain A'')"
proof -
  let ?req = "(demo_request [''example.com'', ''www.example.com''])
                \<lparr>req_PreferredChain := ''Root B''\<rparr>"
  have san: "sanitizeDomain demo_world (req_Domains ?req) = [''example.com'', ''www.example.com'']"
    by code_simp
  have pre1: "\<forall>order. Orders_NewWithOptions demo_world (sanitizeDomain demo_world (req_Domains ?req))
                     (orderOptions_of ?req) = Inr order
                   \<longrightarrow> getAuthorizations demo_world order \<noteq> Inr []"
    unfolding san using demo_world_authorizations by blast
  have ext: "ExtractDomainsCSR demo_world csr = [''example.com'']" for csr
    by (simp add: demo_world_def)
  have pre2: "\<forall>csr order. creq_CSR demo_csr_request = Some csr
                   \<and> Orders_NewWithOptions demo_world (ExtractDomainsCSR demo_world csr)
                       (orderOptions_of_csr demo_csr_request) = Inr order
                   \<longrightarrow> getAuthorizations demo_world order \<noteq> Inr []"
    unfolding ext using demo_world_authorizations by blast
  note inst = success_urls [where w = demo_world and c = demo_certifier and s = net0]
  from inst [where request = ?req, THEN conjunct1, THEN mp,
             OF conjI [OF demo_Obtain_preferred pre1]]
  have a: "\<exists>url certs cert. Certificates_GetAll demo_world url False = Inr certs
         \<and> (''cert/2'', cert) \<in> set certs
         \<and> Some ''leaf 2'' = Cert cert \<and> Some ''chain B'' = Issuer cert"
    by (simp add: demo_request_def)
  from inst [where crequest = demo_csr_request, THEN conjunct2, THEN conjunct1, THEN mp,
             OF conjI [OF demo_ObtainForCSR pre2]]
  have b: "\<exists>url certs cert. Certificates_GetAll demo_world url False = Inr certs
         \<and> (''cert/1'', cert) \<in> set certs
         \<and> Some ''leaf 1'' = Cert cert \<and> Some ''chain A'' = Issuer cert"
    by (simp add: demo_csr_request_def)
  from inst [where url = "''cert/1''" and bdl = False, THEN conjunct2, THEN conjunct2, THEN mp,
             OF demo_Get]
  have c: "Certificates_Get demo_world ''cert/1'' False = Inr (Some ''leaf 1'', Some ''chain A'')"
    by simp
  from demo_Obtain_preferred a b c show ?thesis
    by blast
qed

text \<open>
  The claim as stated fails for an order without authorizations. Obtain adds the error
  of getForOrder to the aggregate once for each authorization, so with none the error
  is lost: Obtain returns the Resource that the poll loop left behind together with a
  nil error. No chain was fetched, Certificate is nil, and CertURL (the URL announced in
  the answer to the finalize request) differs from CertStableURL (empty).
\<close>

theorem success_urls_counterexample:
  "Obtain demo_world_no_authorizations demo_certifier (demo_request [''example.com'']) net0 =
   Inr (\<lparr>events = [EvNewOrder [''example.com'']
                     \<lparr>oo_NotBefore = 0, oo_NotAfter = 0, oo_Profile = [],
                      oo_ReplacesCertID = []\<rparr>,
                   EvGetAuthorizations, EvSolve, EvFinalize ''finalize/1'',
                   EvWait ''certificate'' 30000000000 500000000,
                   EvOrderGet ''order/1''],
          polls = 1\<rparr>,
        Some \<lparr>Domain = ''example.com'', CertURL = ''cert/9'', CertStableURL = [],
               PrivateKey = Some ''fresh key'', Certificate = None,
               IssuerCertificate = None, CSR = None\<rparr>,
        None)"
  by code_simp

subsection \<open>Failures after the validation\<close>

lemma Join_Some:
  assumes "obtainError_Join (add_failures w authz e) = Some err"
  shows "\<exists>e0. e = Some e0 \<and> authz \<noteq> []
           \<and> err = ErrObtain (map (\<lambda>auth. (GetTargetedDomain w auth, e0)) authz)"
proof (cases e)
  case None
  with assms show ?thesis by (simp add: Join_add_failures)
next
  case (Some e0)
  with assms show ?thesis by (cases "authz = []") (simp_all add: Join_add_failures)
qed

lemma Obtain_failure:
  assumes "Obtain w c request s = Inr (s', res, Some err)"
    and "req_Domains request \<noteq> []"
    and "Orders_NewWithOptions w (sanitizeDomain w (req_Domains request))
           (orderOptions_of request) = Inr order"
    and "getAuthorizations w order = Inr authz"
    and "resolver_Solve w authz = None"
  shows "\<exists>e s3 s4.
           getForOrder w c (sanitizeDomain w (req_Domains request)) order request s3 =
             Inr (s4, res, Some e)
           \<and> authz \<noteq> []
           \<and> err = ErrObtain (map (\<lambda>auth. (GetTargetedDomain w auth, e)) authz)"
proof -
  let ?ds = "sanitizeDomain w (req_Domains request)"
  let ?s3 = "emit EvSolve (emit EvGetAuthorizations (emit (EvNewOrder ?ds (orderOptions_of request)) s))"
  from assms obtain s4 cert e where
    g: "getForOrder w c ?ds order request ?s3 = Inr (s4, cert, e)"
    by (cases "getForOrder w c ?ds order request ?s3") (auto simp: Obtain_unfold)
  from assms g have "cert = res" "obtainError_Join (add_failures w authz e) = Some err"
    by (simp_all add: Obtain_unfold)
  with g Join_Some [of w authz e err] show ?thesis by blast
qed

lemma ObtainForCSR_failure_key:
  assumes "ObtainForCSR w c request s = Inr (s', res, Some err)"
    and "creq_CSR request = Some csr"
    and "Orders_NewWithOptions w (ExtractDomainsCSR w csr) (orderOptions_of_csr request) = Inr order"
    and "getAuthorizations w order = Inr authz"
    and "resolver_Solve w authz = None"
  shows "\<exists>e s3 s4 res0.
           getForCSR w c (ExtractDomainsCSR w csr) order (creq_Bundle request) (csr_Raw csr)
             (case creq_PrivateKey request of Some k \<Rightarrow> PEMEncode_key w k | None \<Rightarrow> None)
             (creq_PreferredChain request) s3 = Inr (s4, res0, Some e)
           \<and> res = map_option (\<lambda>r. r\<lparr>CSR := PEMEncode_csr w csr\<rparr>) res0
           \<and> authz \<noteq> []
           \<and> err = ErrObtain (map (\<lambda>auth. (GetTargetedDomain w auth, e)) authz)"
proof -
  let ?ds = "ExtractDomainsCSR w csr"
  let ?s3 = "emit EvSolve (emit EvGetAuthorizations
               (emit (EvNewOrder ?ds (orderOptions_of_csr request)) s))"
  let ?key = "case creq_PrivateKey request of Some k \<Rightarrow> PEMEncode_key w k | None \<Rightarrow> None"
  from assms obtain s4 cert e where
    g: "getForCSR w c ?ds order (creq_Bundle request) (csr_Raw csr) ?key
          (creq_PreferredChain request) ?s3 = Inr (s4, cert, e)"
    by (cases "getForCSR w c ?ds order (creq_Bundle request) (csr_Raw csr) ?key
          (creq_PreferredChain request) ?s3") (auto simp: ObtainForCSR_unfold)
  from assms g have "res = map_option (\<lambda>r. r\<lparr>CSR := PEMEncode_csr w csr\<rparr>) cert"
    "obtainError_Join (add_failures w authz e) = Some err"
    by (simp_all add: ObtainForCSR_unfold)
  with g Join_Some [of w authz e err] show ?thesis by blast
qed

lemma fresh_resource_fields:
  "Domain (fresh_resource d0 respOrder key) = d0"
  "PrivateKey (fresh_resource d0 respOrder key) = key"
  "Certificate (fresh_resource d0 respOrder key) = None"
  "CSR (fresh_resource d0 respOrder key) = None"
  by (simp_all add: fresh_resource_def)

lemma store_chain_fields:
  "Domain (store_chain link cert r) = Domain r"
  "PrivateKey (store_chain link cert r) = PrivateKey r"
  "CSR (store_chain link cert r) = CSR r"
  by (simp_all add: store_chain_def)

lemma default_stored_fields:
  assumes "default_stored_parse_failed w bdl r0 e r"
  shows "Domain r = Domain r0 \<and> PrivateKey r = PrivateKey r0 \<and> CSR r = CSR r0"
  using assms unfolding default_stored_parse_failed_def
  by (auto simp: store_chain_fields)

lemma getForCSR_failure:
  assumes "getForCSR w c (dmn # rest) order bdl csr key pc s = Inr (s', res, Some e)"
  shows "(case Orders_UpdateForCSR w (o_Finalize order) csr of
            Inl e0 \<Rightarrow> e = e0 \<and> res = None
          | Inr respOrder \<Rightarrow>
              if o_Status respOrder = StatusValid then res = None
              else (\<exists>r. res = Some r
                      \<and> (r = fresh_resource dmn respOrder key
                         \<or> default_stored_parse_failed w bdl
                              (fresh_resource dmn respOrder key) e r)))"
proof (cases res)
  case None
  with assms have g: "getForCSR w c (dmn # rest) order bdl csr key pc s = Inr (s', None, Some e)"
    by simp
  from getForCSR_None [OF g] consider
    (fin) "Orders_UpdateForCSR w (o_Finalize order) csr = Inl e"
    | (valid) respOrder where "Orders_UpdateForCSR w (o_Finalize order) csr = Inr respOrder"
        "o_Status respOrder = StatusValid"
    by auto
  then show ?thesis
  proof cases
    case fin
    with None show ?thesis by simp
  next
    case valid
    with None show ?thesis by simp
  qed
next
  case (Some r)
  with assms have g: "getForCSR w c (dmn # rest) order bdl csr key pc s = Inr (s', Some r, Some e)"
    by simp
  from getForCSR_Some [OF g] obtain respOrder where
    u: "Orders_UpdateForCSR w (o_Finalize order) csr = Inr respOrder"
    and nv: "o_Status respOrder \<noteq> StatusValid"
    and r: "r = fresh_resource dmn respOrder key
            \<or> default_stored_parse_failed w bdl (fresh_resource dmn respOrder key) e r"
    by auto
  with Some show ?thesis by simp
qed

lemma partial_fields:
  assumes "r = fresh_resource dmn respOrder key
           \<or> default_stored_parse_failed w bdl (fresh_resource dmn respOrder key) e r"
  shows "Domain r = dmn \<and> PrivateKey r = key \<and> CSR r = None
       \<and> (Certificate r = None
           \<or> default_stored_parse_failed w bdl (fresh_resource dmn respOrder key) e r)"
  using assms
proof
  assume "r = fresh_resource dmn respOrder key"
  then show ?thesis by (simp add: fresh_resource_fields)
next
  assume p: "default_stored_parse_failed w bdl (fresh_resource dmn respOrder key) e r"
  from default_stored_fields [OF p] p show ?thesis
    by (simp add: fresh_resource_fields)
qed


lemma getForCSR_failure_fields:
  assumes "getForCSR w c (dmn # rest) order bdl csr key pc s = Inr (s', res, Some e)"
  shows "(case Orders_UpdateForCSR w (o_Finalize order) csr of
            Inl e0 \<Rightarrow> e = e0 \<and> res = None
          | Inr respOrder \<Rightarrow>
              if o_Status respOrder = StatusValid then res = None
              else (\<exists>r. res = Some r \<and> Domain r = dmn \<and> PrivateKey r = key \<and> CSR r = None
                      \<and> (Certificate r = None
                          \<or> default_stored_parse_failed w bdl
                               (fresh_resource dmn respOrder key) e r)))"
proof (cases "Orders_UpdateForCSR w (o_Finalize order) csr")
  case (Inl e0)
  with getForCSR_failure [OF assms] show ?thesis by simp
next
  case (Inr respOrder)
  show ?thesis
  proof (cases "o_Status respOrder = StatusValid")
    case True
    with Inr getForCSR_failure [OF assms] show ?thesis by simp
  next
    case False
    with Inr getForCSR_failure [OF assms] obtain r where
      "res = Some r"
      "r = fresh_resource dmn respOrder key
       \<or> default_stored_parse_failed w bdl (fresh_resource dmn respOrder key) e r"
      by auto
    with partial_fields [of r dmn respOrder key w bdl e] Inr False show ?thesis
      by simp
  qed
qed

lemma sanitizeDomain_Nil: "sanitizeDomain w [] = []"
  by (simp add: sanitizeDomain_def)

text \<open>
  Claim C2, as amended. When Obtain or ObtainForCSR returns an error after the solver
  succeeded and the certificate request was made, that error is the aggregate of the
  error of the issuance for each authorization of the order. The Resource returned
  alongside is nil when the finalize request fails, and when the order is already valid
  in the answer to the finalize request. Otherwise the error comes from the poll loop,
  and the partially filled Resource is returned: it has the first domain, the private
  key as PEM and (from ObtainForCSR) the CSR, and its Certificate field is not
  populated, unless the error is the failure to parse the issuer bytes of an offered
  chain, when the default chain is already stored in it. Conversely, when the finalize
  request fails for an order with authorizations, the call returns no Resource and the
  aggregate of that error.
\<close>

theorem failure_after_validation:
  "(Obtain w c request s = Inr (s', res, Some err)
      \<and> sanitizeDomain w (req_Domains request) = dmn # rest
      \<and> Orders_NewWithOptions w (dmn # rest) (orderOptions_of request) = Inr order
      \<and> getAuthorizations w order = Inr authz
      \<and> resolver_Solve w authz = None
      \<and> (case req_PrivateKey request of
            Some k \<Rightarrow> Inr k
          | None \<Rightarrow> GeneratePrivateKey w (KeyType (options c))) = Inr key
      \<and> CreateCSR w key (csrOptions_of c dmn order request) = Inr csrb
    \<longrightarrow> (\<exists>e. err = ErrObtain (map (\<lambda>auth. (GetTargetedDomain w auth, e)) authz)
          \<and> (case Orders_UpdateForCSR w (o_Finalize order) csrb of
                Inl e0 \<Rightarrow> e = e0 \<and> res = None
              | Inr respOrder \<Rightarrow>
                  if o_Status respOrder = StatusValid then res = None
                  else (\<exists>r. res = Some r \<and> Domain r = dmn
                          \<and> PrivateKey r = PEMEncode_key w key \<and> CSR r = None
                          \<and> (Certificate r = None
                              \<or> default_stored_parse_failed w (req_Bundle request)
                                   (fresh_resource dmn respOrder (PEMEncode_key w key)) e r)))))
   \<and> (ObtainForCSR w c crequest s = Inr (s', res, Some err)
      \<and> creq_CSR crequest = Some csr
      \<and> ExtractDomainsCSR w csr = dmn # rest
      \<and> Orders_NewWithOptions w (dmn # rest) (orderOptions_of_csr crequest) = Inr order
      \<and> getAuthorizations w order = Inr authz
      \<and> resolver_Solve w authz = None
    \<longrightarrow> (\<exists>e. err = ErrObtain (map (\<lambda>auth. (GetTargetedDomain w auth, e)) authz)
          \<and> (case Orders_UpdateForCSR w (o_Finalize order) (csr_Raw csr) of
                Inl e0 \<Rightarrow> e = e0 \<and> res = None
              | Inr respOrder \<Rightarrow>
                  if o_Status respOrder = StatusValid then res = None
                  else (\<exists>r. res = Some r \<and> Domain r = dmn
                          \<and> PrivateKey r =
                              (case creq_PrivateKey crequest of
                                 Some k \<Rightarrow> PEMEncode_key w k | None \<Rightarrow> None)
                          \<and> CSR r = PEMEncode_csr w csr
                          \<and> (Certificate r = None
                              \<or> (\<exists>r1. default_stored_parse_failed w (creq_Bundle crequest)
                                      (fresh_resource dmn respOrder
                                         (case creq_PrivateKey crequest of
                                            Some k \<Rightarrow> PEMEncode_key w k | None \<Rightarrow> None))
                                      e r1
                                    \<and> r = r1\<lparr>CSR := PEMEncode_csr w csr\<rparr>))))))
   \<and> (sanitizeDomain w (req_Domains request) = dmn # rest
      \<and> Orders_NewWithOptions w (dmn # rest) (orderOptions_of request) = Inr order
      \<and> getAuthorizations w order = Inr authz
      \<and> resolver_Solve w authz = None
      \<and> (case req_PrivateKey request of
            Some k \<Rightarrow> Inr k
          | None \<Rightarrow> GeneratePrivateKey w (KeyType (options c))) = Inr key
      \<and> CreateCSR w key (csrOptions_of c dmn order request) = Inr csrb
      \<and> Orders_UpdateForCSR w (o_Finalize order) csrb = Inl e
      \<and> authz \<noteq> []
    \<longrightarrow> (\<exists>s5. Obtain w c request s =
            Inr (s5, None, Some (ErrObtain (map (\<lambda>auth. (GetTargetedDomain w auth, e)) authz)))))
   \<and> (creq_CSR crequest = Some csr
      \<and> Orders_NewWithOptions w (ExtractDomainsCSR w csr) (orderOptions_of_csr crequest)
           = Inr order
      \<and> getAuthorizations w order = Inr authz
      \<and> resolver_Solve w authz = None
      \<and> Orders_UpdateForCSR w (o_Finalize order) (csr_Raw csr) = Inl e
      \<and> authz \<noteq> []
    \<longrightarrow> (\<exists>s5. ObtainForCSR w c crequest s =
            Inr (s5, None, Some (ErrObtain (map (\<lambda>auth. (GetTargetedDomain w auth, e)) authz)))))"
proof -
  have A: "Obtain w c request s = Inr (s', res, Some err)
      \<and> sanitizeDomain w (req_Domains request) = dmn # rest
      \<and> Orders_NewWithOptions w (dmn # rest) (orderOptions_of request) = Inr order
      \<and> getAuthorizations w order = Inr authz
      \<and> resolver_Solve w authz = None
      \<and> (case req_PrivateKey request of
            Some k \<Rightarrow> Inr k
          | None \<Rightarrow> GeneratePrivateKey w (KeyType (options c))) = Inr key
      \<and> CreateCSR w key (csrOptions_of c dmn order request) = Inr csrb
    \<longrightarrow> (\<exists>e. err = ErrObtain (map (\<lambda>auth. (GetTargetedDomain w auth, e)) authz)
          \<and> (case Orders_UpdateForCSR w (o_Finalize order) csrb of
                Inl e0 \<Rightarrow> e = e0 \<and> res = None
              | Inr respOrder \<Rightarrow>
                  if o_Status respOrder = StatusValid then res = None
                  else (\<exists>r. res = Some r \<and> Domain r = dmn
                          \<and> PrivateKey r = PEMEncode_key w key \<and> CSR r = None
                          \<and> (Certificate r = None
                              \<or> default_stored_parse_failed w (req_Bundle request)
                                   (fresh_resource dmn respOrder (PEMEncode_key w key)) e r))))"
  proof
    assume h: "Obtain w c request s = Inr (s', res, Some err)
      \<and> sanitizeDomain w (req_Domains request) = dmn # rest
      \<and> Orders_NewWithOptions w (dmn # rest) (orderOptions_of request) = Inr order
      \<and> getAuthorizations w order = Inr authz
      \<and> resolver_Solve w authz = None
      \<and> (case req_PrivateKey request of
            Some k \<Rightarrow> Inr k
          | None \<Rightarrow> GeneratePrivateKey w (KeyType (options c))) = Inr key
      \<and> CreateCSR w key (csrOptions_of c dmn order request) = Inr csrb"
    then have run: "Obtain w c request s = Inr (s', res, Some err)"
      and sd: "sanitizeDomain w (req_Domains request) = dmn # rest"
      and az: "getAuthorizations w order = Inr authz"
      and sv: "resolver_Solve w authz = None"
      and ky: "(case req_PrivateKey request of
            Some k \<Rightarrow> Inr k
          | None \<Rightarrow> GeneratePrivateKey w (KeyType (options c))) = Inr key"
      and cs: "CreateCSR w key (csrOptions_of c dmn order request) = Inr csrb"
      by blast+
    from h sd have no: "Orders_NewWithOptions w (sanitizeDomain w (req_Domains request))
           (orderOptions_of request) = Inr order"
      by simp
    from sd have ne: "req_Domains request \<noteq> []"
      by (auto simp: sanitizeDomain_Nil)
    from Obtain_failure [OF run ne no az sv] obtain e0 s3 s4 where
      g: "getForOrder w c (sanitizeDomain w (req_Domains request)) order request s3 =
             Inr (s4, res, Some e0)"
      and er: "err = ErrObtain (map (\<lambda>auth. (GetTargetedDomain w auth, e0)) authz)"
      by blast
    from g sd ky cs have "getForCSR w c (dmn # rest) order (req_Bundle request) csrb
        (PEMEncode_key w key) (req_PreferredChain request) s3 = Inr (s4, res, Some e0)"
      by (simp add: getForOrder_unfold)
    from getForCSR_failure_fields [OF this] er
    show "\<exists>e. err = ErrObtain (map (\<lambda>auth. (GetTargetedDomain w auth, e)) authz)
          \<and> (case Orders_UpdateForCSR w (o_Finalize order) csrb of
                Inl e0 \<Rightarrow> e = e0 \<and> res = None
              | Inr respOrder \<Rightarrow>
                  if o_Status respOrder = StatusValid then res = None
                  else (\<exists>r. res = Some r \<and> Domain r = dmn
                          \<and> PrivateKey r = PEMEncode_key w key \<and> CSR r = None
                          \<and> (Certificate r = None
                              \<or> default_stored_parse_failed w (req_Bundle request)
                                   (fresh_resource dmn respOrder (PEMEncode_key w key)) e r)))"
      by blast
  qed
  let ?keypem = "case creq_PrivateKey crequest of
                   Some k \<Rightarrow> PEMEncode_key w k | None \<Rightarrow> None"
  have B: "ObtainForCSR w c crequest s = Inr (s', res, Some err)
      \<and> creq_CSR crequest = Some csr
      \<and> ExtractDomainsCSR w csr = dmn # rest
      \<and> Orders_NewWithOptions w (dmn # rest) (orderOptions_of_csr crequest) = Inr order
      \<and> getAuthorizations w order = Inr authz
      \<and> resolver_Solve w authz = None
    \<longrightarrow> (\<exists>e. err = ErrObtain (map (\<lambda>auth. (GetTargetedDomain w auth, e)) authz)
          \<and> (case Orders_UpdateForCSR w (o_Finalize order) (csr_Raw csr) of
                Inl e0 \<Rightarrow> e = e0 \<and> res = None
              | Inr respOrder \<Rightarrow>
                  if o_Status respOrder = StatusValid then res = None
                  else (\<exists>r. res = Some r \<and> Domain r = dmn
                          \<and> PrivateKey r = ?keypem
                          \<and> CSR r = PEMEncode_csr w csr
                          \<and> (Certificate r = None
                              \<or> (\<exists>r1. default_stored_parse_failed w (creq_Bundle crequest)
                                      (fresh_resource dmn respOrder ?keypem) e r1
                                    \<and> r = r1\<lparr>CSR := PEMEncode_csr w csr\<rparr>)))))"
  proof
    assume h: "ObtainForCSR w c crequest s = Inr (s', res, Some err)
      \<and> creq_CSR crequest = Some csr
      \<and> ExtractDomainsCSR w csr = dmn # rest
      \<and> Orders_NewWithOptions w (dmn # rest) (orderOptions_of_csr crequest) = Inr order
      \<and> getAuthorizations w order = Inr authz
      \<and> resolver_Solve w authz = None"
    then have run: "ObtainForCSR w c crequest s = Inr (s', res, Some err)"
      and cq: "creq_CSR crequest = Some csr"
      and ed: "ExtractDomainsCSR w csr = dmn # rest"
      and az: "getAuthorizations w order = Inr authz"
      and sv: "resolver_Solve w authz = None"
      by blast+
    from h ed have no: "Orders_NewWithOptions w (ExtractDomainsCSR w csr)
           (orderOptions_of_csr crequest) = Inr order"
      by simp
    from ObtainForCSR_failure_key [OF run cq no az sv] obtain e0 s3 s4 res0 where
      g: "getForCSR w c (ExtractDomainsCSR w csr) order (creq_Bundle crequest) (csr_Raw csr)
             ?keypem (creq_PreferredChain crequest) s3 = Inr (s4, res0, Some e0)"
      and rs: "res = map_option (\<lambda>r. r\<lparr>CSR := PEMEncode_csr w csr\<rparr>) res0"
      and er: "err = ErrObtain (map (\<lambda>auth. (GetTargetedDomain w auth, e0)) authz)"
      by blast
    from g ed have g': "getForCSR w c (dmn # rest) order (creq_Bundle crequest) (csr_Raw csr)
             ?keypem (creq_PreferredChain crequest) s3 = Inr (s4, res0, Some e0)"
      by simp
    note f = getForCSR_failure_fields [OF g']
    have "case Orders_UpdateForCSR w (o_Finalize order) (csr_Raw csr) of
                Inl e1 \<Rightarrow> e0 = e1 \<and> res = None
              | Inr respOrder \<Rightarrow>
                  if o_Status respOrder = StatusValid then res = None
                  else (\<exists>r. res = Some r \<and> Domain r = dmn
                          \<and> PrivateKey r = ?keypem
                          \<and> CSR r = PEMEncode_csr w csr
                          \<and> (Certificate r = None
                              \<or> (\<exists>r1. default_stored_parse_failed w (creq_Bundle crequest)
                                      (fresh_resource dmn respOrder ?keypem) e0 r1
                                    \<and> r = r1\<lparr>CSR := PEMEncode_csr w csr\<rparr>)))"
    proof (cases "Orders_UpdateForCSR w (o_Finalize order) (csr_Raw csr)")
      case (Inl e1)
      with f rs show ?thesis by simp
    next
      case (Inr respOrder)
      show ?thesis
      proof (cases "o_Status respOrder = StatusValid")
        case True
        with f rs Inr show ?thesis by simp
      next
        case False
        with f Inr obtain r1 where r1: "res0 = Some r1" "Domain r1 = dmn"
          "PrivateKey r1 = ?keypem"
          "Certificate r1 = None
           \<or> default_stored_parse_failed w (creq_Bundle crequest)
                (fresh_resource dmn respOrder ?keypem) e0 r1"
          by auto
        let ?r = "r1\<lparr>CSR := PEMEncode_csr w csr\<rparr>"
        from rs r1(1) have res: "res = Some ?r" by simp
        from r1(2,3) have fl: "Domain ?r = dmn" "PrivateKey ?r = ?keypem"
          "CSR ?r = PEMEncode_csr w csr" by simp_all
        from r1(4) have ce: "Certificate ?r = None
            \<or> (\<exists>r2. default_stored_parse_failed w (creq_Bundle crequest)
                      (fresh_resource dmn respOrder ?keypem) e0 r2
                    \<and> ?r = r2\<lparr>CSR := PEMEncode_csr w csr\<rparr>)"
          by auto
        from res fl ce have "\<exists>r. res = Some r \<and> Domain r = dmn
                          \<and> PrivateKey r = ?keypem
                          \<and> CSR r = PEMEncode_csr w csr
                          \<and> (Certificate r = None
                              \<or> (\<exists>r1. default_stored_parse_failed w (creq_Bundle crequest)
                                      (fresh_resource dmn respOrder ?keypem) e0 r1
                                    \<and> r = r1\<lparr>CSR := PEMEncode_csr w csr\<rparr>))"
          by blast
        with Inr False show ?thesis by simp
      qed
    qed
    with er show "\<exists>e. err = ErrObtain (map (\<lambda>auth. (GetTargetedDomain w auth, e)) authz)
          \<and> (case Orders_UpdateForCSR w (o_Finalize order) (csr_Raw csr) of
                Inl e0 \<Rightarrow> e = e0 \<and> res = None
              | Inr respOrder \<Rightarrow>
                  if o_Status respOrder = StatusValid then res = None
                  else (\<exists>r. res = Some r \<and> Domain r = dmn
                          \<and> PrivateKey r = ?keypem
                          \<and> CSR r = PEMEncode_csr w csr
                          \<and> (Certificate r = None
                              \<or> (\<exists>r1. default_stored_parse_failed w (creq_Bundle crequest)
                                      (fresh_resource dmn respOrder ?keypem) e r1
                                    \<and> r = r1\<lparr>CSR := PEMEncode_csr w csr\<rparr>))))"
      by blast
  qed
  have C: "sanitizeDomain w (req_Domains request) = dmn # rest
      \<and> Orders_NewWithOptions w (dmn # rest) (orderOptions_of request) = Inr order
      \<and> getAuthorizations w order = Inr authz
      \<and> resolver_Solve w authz = None
      \<and> (case req_PrivateKey request of
            Some k \<Rightarrow> Inr k
          | None \<Rightarrow> GeneratePrivateKey w (KeyType (options c))) = Inr key
      \<and> CreateCSR w key (csrOptions_of c dmn order request) = Inr csrb
      \<and> Orders_UpdateForCSR w (o_Finalize order) csrb = Inl e
      \<and> authz \<noteq> []
    \<longrightarrow> (\<exists>s5. Obtain w c request s =
            Inr (s5, None, Some (ErrObtain (map (\<lambda>auth. (GetTargetedDomain w auth, e)) authz))))"
  proof
    assume h: "sanitizeDomain w (req_Domains request) = dmn # rest
      \<and> Orders_NewWithOptions w (dmn # rest) (orderOptions_of request) = Inr order
      \<and> getAuthorizations w order = Inr authz
      \<and> resolver_Solve w authz = None
      \<and> (case req_PrivateKey request of
            Some k \<Rightarrow> Inr k
          | None \<Rightarrow> GeneratePrivateKey w (KeyType (options c))) = Inr key
      \<and> CreateCSR w key (csrOptions_of c dmn order request) = Inr csrb
      \<and> Orders_UpdateForCSR w (o_Finalize order) csrb = Inl e
      \<and> authz \<noteq> []"
    then have sd: "sanitizeDomain w (req_Domains request) = dmn # rest" by blast
    then have ne: "req_Domains request \<noteq> []"
      by (auto simp: sanitizeDomain_Nil)
    from h have g: "getForOrder w c (dmn # rest) order request s3 =
        Inr (emit (EvFinalize (o_Finalize order)) s3, None, Some e)" for s3
      by (simp add: getForOrder_unfold getForCSR_unfold)
    from h ne show "\<exists>s5. Obtain w c request s =
            Inr (s5, None, Some (ErrObtain (map (\<lambda>auth. (GetTargetedDomain w auth, e)) authz)))"
      by (simp add: Obtain_unfold g Join_add_failures)
  qed
  have D: "creq_CSR crequest = Some csr
      \<and> Orders_NewWithOptions w (ExtractDomainsCSR w csr) (orderOptions_of_csr crequest)
           = Inr order
      \<and> getAuthorizations w order = Inr authz
      \<and> resolver_Solve w authz = None
      \<and> Orders_UpdateForCSR w (o_Finalize order) (csr_Raw csr) = Inl e
      \<and> authz \<noteq> []
    \<longrightarrow> (\<exists>s5. ObtainForCSR w c crequest s =
            Inr (s5, None, Some (ErrObtain (map (\<lambda>auth. (GetTargetedDomain w auth, e)) authz))))"
  proof
    assume h: "creq_CSR crequest = Some csr
      \<and> Orders_NewWithOptions w (ExtractDomainsCSR w csr) (orderOptions_of_csr crequest)
           = Inr order
      \<and> getAuthorizations w order = Inr authz
      \<and> resolver_Solve w authz = None
      \<and> Orders_UpdateForCSR w (o_Finalize order) (csr_Raw csr) = Inl e
      \<and> authz \<noteq> []"
    then have g: "getForCSR w c ds order bdl (csr_Raw csr) kp pc s3 =
        Inr (emit (EvFinalize (o_Finalize order)) s3, None, Some e)" for ds bdl kp pc s3
      by (simp add: getForCSR_unfold)
    from h show "\<exists>s5. ObtainForCSR w c crequest s =
            Inr (s5, None, Some (ErrObtain (map (\<lambda>auth. (GetTargetedDomain w auth, e)) authz)))"
      by (simp add: ObtainForCSR_unfold g Join_add_failures)
  qed
  show ?thesis
    by (rule conjI [OF A conjI [OF B conjI [OF C D]]])
qed

lemma demo_Obtain_pending:
  "Obtain demo_world_pending demo_certifier (demo_request [''example.com'', ''www.example.com''])
     net0 =
   Inr (\<lparr>events = [EvNewOrder [''example.com'', ''www.example.com'']
                     \<lparr>oo_NotBefore = 0, oo_NotAfter = 0, oo_Profile = [],
                      oo_ReplacesCertID = []\<rparr>,
                   EvGetAuthorizations, EvSolve, EvFinalize ''finalize/1'',
                   EvWait ''certificate'' 30000000000 500000000,
                   EvOrderGet ''order/1'', EvOrderGet ''order/1'', EvOrderGet ''order/1''],
          polls = 3\<rparr>,
        Some \<lparr>Domain = ''example.com'', CertURL = [], CertStableURL = [],
               PrivateKey = Some ''fresh key'', Certificate = None,
               IssuerCertificate = None, CSR = None\<rparr>,
        Some (ErrObtain [(''example.com'', ErrTimeLimit ''certificate''),
                         (''www.example.com'', ErrTimeLimit ''certificate'')]))"
  by code_simp

lemma demo_ObtainForCSR_invalid:
  "ObtainForCSR demo_world_invalid demo_certifier demo_csr_request net0 =
   Inr (\<lparr>events = [EvNewOrder [''example.com'']
                     \<lparr>oo_NotBefore = 0, oo_NotAfter = 0, oo_Profile = [],
                      oo_ReplacesCertID = []\<rparr>,
                   EvGetAuthorizations, EvSolve, EvFinalize ''finalize/1'',
                   EvWait ''certificate'' 30000000000 500000000,
                   EvOrderGet ''order/1'', EvOrderGet ''order/1''],
          polls = 2\<rparr>,
        Some \<lparr>Domain = ''example.com'', CertURL = [], CertStableURL = [],
               PrivateKey = None, Certificate = None, IssuerCertificate = None,
               CSR = Some ''csr pem''\<rparr>,
        Some (ErrObtain [(''example.com'',
                          ErrInvalidOrder (Some (ErrExternal ''rejectedIdentifier'')))]))"
  by code_simp

lemma demo_Obtain_no_issuer:
  "Obtain demo_world_no_issuer demo_certifier
     ((demo_request [''example.com'', ''www.example.com''])\<lparr>req_PreferredChain := ''Root B''\<rparr>)
     net0 =
   Inr (\<lparr>events = [EvNewOrder [''example.com'', ''www.example.com'']
                     \<lparr>oo_NotBefore = 0, oo_NotAfter = 0, oo_Profile = [],
                      oo_ReplacesCertID = []\<rparr>,
                   EvGetAuthorizations, EvSolve, EvFinalize ''finalize/1'',
                   EvWait ''certificate'' 30000000000 500000000,
                   EvOrderGet ''order/1'', EvOrderGet ''order/1'', EvOrderGet ''order/1'',
                   EvGetAll ''cert/1'' False],
          polls = 3\<rparr>,
        Some \<lparr>Domain = ''example.com'', CertURL = ''cert/1'', CertStableURL = ''cert/1'',
               PrivateKey = Some ''fresh key'', Certificate = Some ''leaf 1'',
               IssuerCertificate = Some ''chain A'', CSR = None\<rparr>,
        Some (ErrObtain [(''example.com'', ErrExternal ''no certificates were found''),
                         (''www.example.com'', ErrExternal ''no certificates were found'')]))"
  by code_simp

lemma demo_Obtain_finalize_fails:
  "Obtain demo_world_finalize_fails demo_certifier
     (demo_request [''example.com'', ''www.example.com'']) net0 =
   Inr (\<lparr>events = [EvNewOrder [''example.com'', ''www.example.com'']
                     \<lparr>oo_NotBefore = 0, oo_NotAfter = 0, oo_Profile = [],
                      oo_ReplacesCertID = []\<rparr>,
                   EvGetAuthorizations, EvSolve, EvFinalize ''finalize/1''],
          polls = 0\<rparr>,
        None,
        Some (ErrObtain [(''example.com'', ErrExternal ''finalize failed''),
                         (''www.example.com'', ErrExternal ''finalize failed'')]))"
  by code_simp

lemma demo_Obtain_valid_fetch_fails:
  "Obtain demo_world_valid_fetch_fails demo_certifier
     (demo_request [''example.com'', ''www.example.com'']) net0 =
   Inr (\<lparr>events = [EvNewOrder [''example.com'', ''www.example.com'']
                     \<lparr>oo_NotBefore = 0, oo_NotAfter = 0, oo_Profile = [],
                      oo_ReplacesCertID = []\<rparr>,
                   EvGetAuthorizations, EvSolve, EvFinalize ''finalize/1'',
                   EvGetAll ''cert/1'' False],
          polls = 0\<rparr>,
        None,
        Some (ErrObtain [(''example.com'', ErrExternal ''fetch failed''),
                         (''www.example.com'', ErrExternal ''fetch failed'')]))"
  by code_simp

lemma demo_ObtainForCSR_finalize_fails:
  "ObtainForCSR demo_world_finalize_fails demo_certifier demo_csr_request net0 =
   Inr (\<lparr>events = [EvNewOrder [''example.com'']
                     \<lparr>oo_NotBefore = 0, oo_NotAfter = 0, oo_Profile = [],
                      oo_ReplacesCertID = []\<rparr>,
                   EvGetAuthorizations, EvSolve, EvFinalize ''finalize/1''],
          polls = 0\<rparr>,
        None,
        Some (ErrObtain [(''example.com'', ErrExternal ''finalize failed'')]))"
  by code_simp

lemma demo_issuance_facts:
  "sanitizeDomain demo_world_pending [''example.com'', ''www.example.com''] =
     [''example.com'', ''www.example.com'']"
  "sanitizeDomain demo_world_no_issuer [''example.com'', ''www.example.com''] =
     [''example.com'', ''www.example.com'']"
  "sanitizeDomain demo_world_finalize_fails [''example.com'', ''www.example.com''] =
     [''example.com'', ''www.example.com'']"
  "sanitizeDomain demo_world_valid_fetch_fails [''example.com'', ''www.example.com''] =
     [''example.com'', ''www.example.com'']"
  "Orders_NewWithOptions demo_world_pending ds oo = Inr (demo_order ''pending'' ds)"
  "Orders_NewWithOptions demo_world_no_issuer ds oo = Inr (demo_order ''pending'' ds)"
  "Orders_NewWithOptions demo_world_finalize_fails ds oo = Inr (demo_order ''pending'' ds)"
  "Orders_NewWithOptions demo_world_valid_fetch_fails ds oo = Inr (demo_order ''pending'' ds)"
  "Orders_NewWithOptions demo_world_invalid ds oo = Inr (demo_order ''pending'' ds)"
  "getAuthorizations demo_world_pending (demo_order st ds) =
     Inr (map (\<lambda>d. \<lparr>az_Identifier = \<lparr>id_Type = ''dns'', id_Value = d\<rparr>, az_Wildcard = False\<rparr>) ds)"
  "getAuthorizations demo_world_no_issuer (demo_order st ds) =
     Inr (map (\<lambda>d. \<lparr>az_Identifier = \<lparr>id_Type = ''dns'', id_Value = d\<rparr>, az_Wildcard = False\<rparr>) ds)"
  "getAuthorizations demo_world_finalize_fails (demo_order st ds) =
     Inr (map (\<lambda>d. \<lparr>az_Identifier = \<lparr>id_Type = ''dns'', id_Value = d\<rparr>, az_Wildcard = False\<rparr>) ds)"
  "getAuthorizations demo_world_valid_fetch_fails (demo_order st ds) =
     Inr (map (\<lambda>d. \<lparr>az_Identifier = \<lparr>id_Type = ''dns'', id_Value = d\<rparr>, az_Wildcard = False\<rparr>) ds)"
  "getAuthorizations demo_world_invalid (demo_order st ds) =
     Inr (map (\<lambda>d. \<lparr>az_Identifier = \<lparr>id_Type = ''dns'', id_Value = d\<rparr>, az_Wildcard = False\<rparr>) ds)"
  "resolver_Solve demo_world_pending authz = None"
  "resolver_Solve demo_world_no_issuer authz = None"
  "resolver_Solve demo_world_finalize_fails authz = None"
  "resolver_Solve demo_world_valid_fetch_fails authz = None"
  "resolver_Solve demo_world_invalid authz = None"
  "GeneratePrivateKey demo_world_pending kt = Inr ''fresh key''"
  "GeneratePrivateKey demo_world_no_issuer kt = Inr ''fresh key''"
  "GeneratePrivateKey demo_world_finalize_fails kt = Inr ''fresh key''"
  "GeneratePrivateKey demo_world_valid_fetch_fails kt = Inr ''fresh key''"
  "CreateCSR demo_world_pending k co = Inr (Some ''csr'')"
  "CreateCSR demo_world_no_issuer k co = Inr (Some ''csr'')"
  "CreateCSR demo_world_finalize_fails k co = Inr (Some ''csr'')"
  "CreateCSR demo_world_valid_fetch_fails k co = Inr (Some ''csr'')"
  "Orders_UpdateForCSR demo_world_pending url bs =
     Inr (demo_order ''processing'' [''example.com''])"
  "Orders_UpdateForCSR demo_world_no_issuer url bs =
     Inr (demo_order ''processing'' [''example.com''])"
  "Orders_UpdateForCSR demo_world_invalid url bs =
     Inr (demo_order ''processing'' [''example.com''])"
  "Orders_UpdateForCSR demo_world_finalize_fails url bs = Inl (ErrExternal ''finalize failed'')"
  "Orders_UpdateForCSR demo_world_valid_fetch_fails url bs =
     Inr (demo_order ''valid'' [''example.com''])"
  "ExtractDomainsCSR demo_world_invalid csr = [''example.com'']"
  "ExtractDomainsCSR demo_world_finalize_fails csr = [''example.com'']"
  "o_Status (demo_order ''processing'' ds) \<noteq> StatusValid"
  "o_Status (demo_order ''valid'' ds) = StatusValid"
  "PEMEncode_key demo_world_pending k = Some k"
  "PEMEncode_key demo_world_no_issuer k = Some k"
  "PEMEncode_key demo_world_finalize_fails k = Some k"
  "PEMEncode_key demo_world_valid_fetch_fails k = Some k"
  "GetTargetedDomain demo_world_pending auth = id_Value (az_Identifier auth)"
  "GetTargetedDomain demo_world_no_issuer auth = id_Value (az_Identifier auth)"
  "GetTargetedDomain demo_world_finalize_fails auth = id_Value (az_Identifier auth)"
  "GetTargetedDomain demo_world_valid_fetch_fails auth = id_Value (az_Identifier auth)"
  "GetTargetedDomain demo_world_invalid auth = id_Value (az_Identifier auth)"
  "req_Domains (demo_request ds) = ds"
  "req_PrivateKey (demo_request ds) = None"
  "req_Bundle (demo_request ds) = False"
  "creq_CSR demo_csr_request = Some \<lparr>csr_Raw = Some ''csr''\<rparr>"
  "creq_PrivateKey demo_csr_request = None"
  "creq_Bundle demo_csr_request = False"
  "PEMEncode_csr demo_world_invalid cr = Some ''csr pem''"
  by (simp_all add: demo_request_def demo_csr_request_def demo_world_pending_def demo_world_invalid_def demo_world_finalize_fails_def
        demo_world_no_issuer_def demo_world_valid_fetch_fails_def
        demo_world_def demo_order_def sanitizeDomain_def StatusValid_def)

theorem failure_after_validation_witness:
  "(\<exists>r. Obtain demo_world_pending demo_certifier
           (demo_request [''example.com'', ''www.example.com'']) net0 =
         Inr (\<lparr>events = [EvNewOrder [''example.com'', ''www.example.com'']
                           \<lparr>oo_NotBefore = 0, oo_NotAfter = 0, oo_Profile = [],
                            oo_ReplacesCertID = []\<rparr>,
                         EvGetAuthorizations, EvSolve, EvFinalize ''finalize/1'',
                         EvWait ''certificate'' 30000000000 500000000,
                         EvOrderGet ''order/1'', EvOrderGet ''order/1'',
                         EvOrderGet ''order/1''],
                polls = 3\<rparr>,
              Some r,
              Some (ErrObtain [(''example.com'', ErrTimeLimit ''certificate''),
                               (''www.example.com'', ErrTimeLimit ''certificate'')]))
        \<and> Domain r = ''example.com''
        \<and> PrivateKey r = PEMEncode_key demo_world_pending ''fresh key''
        \<and> CSR r = None \<and> Certificate r = None)
   \<and> (\<exists>r. Obtain demo_world_no_issuer demo_certifier
           ((demo_request [''example.com'', ''www.example.com''])
              \<lparr>req_PreferredChain := ''Root B''\<rparr>) net0 =
         Inr (\<lparr>events = [EvNewOrder [''example.com'', ''www.example.com'']
                           \<lparr>oo_NotBefore = 0, oo_NotAfter = 0, oo_Profile = [],
                            oo_ReplacesCertID = []\<rparr>,
                         EvGetAuthorizations, EvSolve, EvFinalize ''finalize/1'',
                         EvWait ''certificate'' 30000000000 500000000,
                         EvOrderGet ''order/1'', EvOrderGet ''order/1'',
                         EvOrderGet ''order/1'', EvGetAll ''cert/1'' False],
                polls = 3\<rparr>,
              Some r,
              Some (ErrObtain [(''example.com'', ErrExternal ''no certificates were found''),
                               (''www.example.com'',
                                ErrExternal ''no certificates were found'')]))
        \<and> Domain r = ''example.com''
        \<and> PrivateKey r = PEMEncode_key demo_world_no_issuer ''fresh key''
        \<and> CSR r = None
        \<and> default_stored_parse_failed demo_world_no_issuer False
             (fresh_resource ''example.com'' (demo_order ''processing'' [''example.com''])
                (PEMEncode_key demo_world_no_issuer ''fresh key''))
             (ErrExternal ''no certificates were found'') r)
   \<and> Obtain demo_world_finalize_fails demo_certifier
        (demo_request [''example.com'', ''www.example.com'']) net0 =
      Inr (\<lparr>events = [EvNewOrder [''example.com'', ''www.example.com'']
                        \<lparr>oo_NotBefore = 0, oo_NotAfter = 0, oo_Profile = [],
                         oo_ReplacesCertID = []\<rparr>,
                      EvGetAuthorizations, EvSolve, EvFinalize ''finalize/1''],
             polls = 0\<rparr>,
           None,
           Some (ErrObtain [(''example.com'', ErrExternal ''finalize failed''),
                            (''www.example.com'', ErrExternal ''finalize failed'')]))
   \<and> Obtain demo_world_valid_fetch_fails demo_certifier
        (demo_request [''example.com'', ''www.example.com'']) net0 =
      Inr (\<lparr>events = [EvNewOrder [''example.com'', ''www.example.com'']
                        \<lparr>oo_NotBefore = 0, oo_NotAfter = 0, oo_Profile = [],
                         oo_ReplacesCertID = []\<rparr>,
                      EvGetAuthorizations, EvSolve, EvFinalize ''finalize/1'',
                      EvGetAll ''cert/1'' False],
             polls = 0\<rparr>,
           None,
           Some (ErrObtain [(''example.com'', ErrExternal ''fetch failed''),
                            (''www.example.com'', ErrExternal ''fetch failed'')]))
   \<and> (\<exists>r. ObtainForCSR demo_world_invalid demo_certifier demo_csr_request net0 =
         Inr (\<lparr>events = [EvNewOrder [''example.com'']
                           \<lparr>oo_NotBefore = 0, oo_NotAfter = 0, oo_Profile = [],
                            oo_ReplacesCertID = []\<rparr>,
                         EvGetAuthorizations, EvSolve, EvFinalize ''finalize/1'',
                         EvWait ''certificate'' 30000000000 500000000,
                         EvOrderGet ''order/1'', EvOrderGet ''order/1''],
                polls = 2\<rparr>,
              Some r,
              Some (ErrObtain [(''example.com'',
                                ErrInvalidOrder (Some (ErrExternal ''rejectedIdentifier'')))]))
        \<and> Domain r = ''example.com'' \<and> PrivateKey r = None
        \<and> CSR r = PEMEncode_csr demo_world_invalid \<lparr>csr_Raw = Some ''csr''\<rparr>
        \<and> Certificate r = None)
   \<and> (\<exists>s5. ObtainForCSR demo_world_finalize_fails demo_certifier demo_csr_request net0 =
         Inr (s5, None, Some (ErrObtain [(''example.com'', ErrExternal ''finalize failed'')])))"
proof -
  let ?auth = "\<lambda>d. \<lparr>az_Identifier = \<lparr>id_Type = ''dns'', id_Value = d\<rparr>, az_Wildcard = False\<rparr>"
  let ?two = "[''example.com'', ''www.example.com'']"
  let ?req = "demo_request ?two"
  let ?reqB = "(demo_request ?two)\<lparr>req_PreferredChain := ''Root B''\<rparr>"
  let ?csr = "\<lparr>csr_Raw = Some ''csr''\<rparr>"
  note inst = failure_after_validation [where c = demo_certifier and s = net0]
  have a: "\<exists>r. Obtain demo_world_pending demo_certifier ?req net0 =
         Inr (\<lparr>events = [EvNewOrder ?two
                           \<lparr>oo_NotBefore = 0, oo_NotAfter = 0, oo_Profile = [],
                            oo_ReplacesCertID = []\<rparr>,
                         EvGetAuthorizations, EvSolve, EvFinalize ''finalize/1'',
                         EvWait ''certificate'' 30000000000 500000000,
                         EvOrderGet ''order/1'', EvOrderGet ''order/1'',
                         EvOrderGet ''order/1''],
                polls = 3\<rparr>,
              Some r,
              Some (ErrObtain [(''example.com'', ErrTimeLimit ''certificate''),
                               (''www.example.com'', ErrTimeLimit ''certificate'')]))
        \<and> Domain r = ''example.com''
        \<and> PrivateKey r = PEMEncode_key demo_world_pending ''fresh key''
        \<and> CSR r = None \<and> Certificate r = None"
    using inst [where w = demo_world_pending and request = ?req
        and dmn = "''example.com''" and rest = "[''www.example.com'']"
        and order = "demo_order ''pending'' ?two" and authz = "map ?auth ?two"
        and key = "''fresh key''" and csrb = "Some ''csr''",
        THEN conjunct1, THEN mp, OF conjI [OF demo_Obtain_pending]]
    by (simp add: demo_issuance_facts demo_Obtain_pending)
  have b: "\<exists>r. Obtain demo_world_no_issuer demo_certifier ?reqB net0 =
         Inr (\<lparr>events = [EvNewOrder ?two
                           \<lparr>oo_NotBefore = 0, oo_NotAfter = 0, oo_Profile = [],
                            oo_ReplacesCertID = []\<rparr>,
                         EvGetAuthorizations, EvSolve, EvFinalize ''finalize/1'',
                         EvWait ''certificate'' 30000000000 500000000,
                         EvOrderGet ''order/1'', EvOrderGet ''order/1'',
                         EvOrderGet ''order/1'', EvGetAll ''cert/1'' False],
                polls = 3\<rparr>,
              Some r,
              Some (ErrObtain [(''example.com'', ErrExternal ''no certificates were found''),
                               (''www.example.com'',
                                ErrExternal ''no certificates were found'')]))
        \<and> Domain r = ''example.com''
        \<and> PrivateKey r = PEMEncode_key demo_world_no_issuer ''fresh key''
        \<and> CSR r = None
        \<and> default_stored_parse_failed demo_world_no_issuer False
             (fresh_resource ''example.com'' (demo_order ''processing'' [''example.com''])
                (PEMEncode_key demo_world_no_issuer ''fresh key''))
             (ErrExternal ''no certificates were found'') r"
    using inst [where w = demo_world_no_issuer and request = ?reqB
        and dmn = "''example.com''" and rest = "[''www.example.com'']"
        and order = "demo_order ''pending'' ?two" and authz = "map ?auth ?two"
        and key = "''fresh key''" and csrb = "Some ''csr''",
        THEN conjunct1, THEN mp, OF conjI [OF demo_Obtain_no_issuer]]
    by (simp add: demo_issuance_facts demo_Obtain_no_issuer)
  have c: "\<exists>s5. Obtain demo_world_finalize_fails demo_certifier ?req net0 =
         Inr (s5, None,
              Some (ErrObtain (map (\<lambda>auth. (GetTargetedDomain demo_world_finalize_fails auth,
                                            ErrExternal ''finalize failed''))
                                 (map ?auth ?two))))"
    by (rule inst [where w = demo_world_finalize_fails and request = ?req
                     and dmn = "''example.com''" and rest = "[''www.example.com'']"
                     and order = "demo_order ''pending'' ?two" and authz = "map ?auth ?two"
                     and key = "''fresh key''" and csrb = "Some ''csr''"
                     and e = "ErrExternal ''finalize failed''",
                   THEN conjunct2, THEN conjunct2, THEN conjunct1, THEN mp])
       (simp add: demo_issuance_facts)
  have d: "\<exists>e. ErrObtain [(''example.com'', ErrExternal ''fetch failed''),
                        (''www.example.com'', ErrExternal ''fetch failed'')] =
             ErrObtain (map (\<lambda>auth. (GetTargetedDomain demo_world_valid_fetch_fails auth, e))
                          (map ?auth ?two))
           \<and> (None :: Resource option) = None"
    using inst [where w = demo_world_valid_fetch_fails and request = ?req
        and dmn = "''example.com''" and rest = "[''www.example.com'']"
        and order = "demo_order ''pending'' ?two" and authz = "map ?auth ?two"
        and key = "''fresh key''" and csrb = "Some ''csr''",
        THEN conjunct1, THEN mp, OF conjI [OF demo_Obtain_valid_fetch_fails]]
    by (simp add: demo_issuance_facts)
  have e: "\<exists>r. ObtainForCSR demo_world_invalid demo_certifier demo_csr_request net0 =
         Inr (\<lparr>events = [EvNewOrder [''example.com'']
                           \<lparr>oo_NotBefore = 0, oo_NotAfter = 0, oo_Profile = [],
                            oo_ReplacesCertID = []\<rparr>,
                         EvGetAuthorizations, EvSolve, EvFinalize ''finalize/1'',
                         EvWait ''certificate'' 30000000000 500000000,
                         EvOrderGet ''order/1'', EvOrderGet ''order/1''],
                polls = 2\<rparr>,
              Some r,
              Some (ErrObtain [(''example.com'',
                                ErrInvalidOrder (Some (ErrExternal ''rejectedIdentifier'')))]))
        \<and> Domain r = ''example.com'' \<and> PrivateKey r = None
        \<and> CSR r = PEMEncode_csr demo_world_invalid ?csr
        \<and> Certificate r = None"
    using inst [where w = demo_world_invalid and crequest = demo_csr_request
        and csr = ?csr and dmn = "''example.com''" and rest = "[]"
        and order = "demo_order ''pending'' [''example.com'']"
        and authz = "map ?auth [''example.com'']",
        THEN conjunct2, THEN conjunct1, THEN mp, OF conjI [OF demo_ObtainForCSR_invalid]]
    by (simp add: demo_issuance_facts demo_ObtainForCSR_invalid)
  have f: "\<exists>s5. ObtainForCSR demo_world_finalize_fails demo_certifier demo_csr_request net0 =
         Inr (s5, None,
              Some (ErrObtain (map (\<lambda>auth. (GetTargetedDomain demo_world_finalize_fails auth,
                                            ErrExternal ''finalize failed''))
                                 (map ?auth [''example.com'']))))"
    by (rule inst [where w = demo_world_finalize_fails and crequest = demo_csr_request
                     and csr = ?csr and order = "demo_order ''pending'' [''example.com'']"
                     and authz = "map ?auth [''example.com'']"
                     and e = "ErrExternal ''finalize failed''",
                   THEN conjunct2, THEN conjunct2, THEN conjunct2, THEN mp])
       (simp add: demo_issuance_facts)
  from a b c d e f show ?thesis
    by (simp add: demo_issuance_facts demo_Obtain_finalize_fails demo_Obtain_valid_fetch_fails)
qed

text \<open>
  The claim as stated fails twice. When the finalize request fails, Obtain returns no
  Resource at all, not a partially filled one. And when the chain selection fails in
  the poll loop, the Resource returned with the error already has the default
  certificate in its Certificate field.
\<close>

theorem failure_after_validation_counterexample:
  "Obtain demo_world_finalize_fails demo_certifier
     (demo_request [''example.com'', ''www.example.com'']) net0 =
   Inr (\<lparr>events = [EvNewOrder [''example.com'', ''www.example.com'']
                     \<lparr>oo_NotBefore = 0, oo_NotAfter = 0, oo_Profile = [],
                      oo_ReplacesCertID = []\<rparr>,
                   EvGetAuthorizations, EvSolve, EvFinalize ''finalize/1''],
          polls = 0\<rparr>,
        None,
        Some (ErrObtain [(''example.com'', ErrExternal ''finalize failed''),
                         (''www.example.com'', ErrExternal ''finalize failed'')]))
   \<and> Obtain demo_world_no_issuer demo_certifier
       ((demo_request [''example.com'', ''www.example.com''])\<lparr>req_PreferredChain := ''Root B''\<rparr>)
       net0 =
     Inr (\<lparr>events = [EvNewOrder [''example.com'', ''www.example.com'']
                       \<lparr>oo_NotBefore = 0, oo_NotAfter = 0, oo_Profile = [],
                        oo_ReplacesCertID = []\<rparr>,
                     EvGetAuthorizations, EvSolve, EvFinalize ''finalize/1'',
                     EvWait ''certificate'' 30000000000 500000000,
                     EvOrderGet ''order/1'', EvOrderGet ''order/1'', EvOrderGet ''order/1'',
                     EvGetAll ''cert/1'' False],
            polls = 3\<rparr>,
          Some \<lparr>Domain = ''example.com'', CertURL = ''cert/1'', CertStableURL = ''cert/1'',
                 PrivateKey = Some ''fresh key'', Certificate = Some ''leaf 1'',
                 IssuerCertificate = Some ''chain A'', CSR = None\<rparr>,
          Some (ErrObtain [(''example.com'', ErrExternal ''no certificates were found''),
                           (''www.example.com'', ErrExternal ''no certificates were found'')]))"
  by code_simp

subsection \<open>The poll loop\<close>

lemma polled_0 [simp]: "polled 0 order s = s"
  by (simp add: polled_def)

lemma polled_Suc: "polled (Suc k) order s = polled k order (polled (Suc 0) order s)"
  by (simp add: polled_def replicate_app_Cons_same)

lemma polls_polled [simp]: "polls (polled k order s) = polls s + k"
  by (simp add: polled_def)

lemma polls_emit [simp]: "polls (emit e s) = polls s"
  by (simp add: emit_def)

lemma poll_step_invalid:
  assumes "Orders_Get w (polls s) (o_Location order) = Inr ord"
    and "o_Status ord = StatusInvalid"
  shows "poll_step w order bdl pc (s, r) =
           Inr ((polled (Suc 0) order s, r), False, Some (ErrInvalidOrder (o_Err ord)))"
proof -
  from assms(2) have "o_Status ord \<noteq> StatusValid"
    by (simp add: StatusValid_def StatusInvalid_def)
  with assms show ?thesis
    by (simp add: poll_step_def Let_def checkResponse_not_valid polled_def emit_def)
qed

lemma poll_step_waiting:
  assumes "still_waiting w order (polls s)"
  shows "poll_step w order bdl pc (s, r) = Inr ((polled (Suc 0) order s, r), False, None)"
proof (cases "Orders_Get w (polls s) (o_Location order)")
  case (Inl e)
  with assms show ?thesis by (simp add: still_waiting_def)
next
  case (Inr ord)
  with assms have "o_Status ord \<noteq> StatusValid" "o_Status ord \<noteq> StatusInvalid"
    by (simp_all add: still_waiting_def)
  with Inr show ?thesis
    by (simp add: poll_step_def Let_def checkResponse_not_valid polled_def emit_def)
qed

lemma checkResponse_selects:
  assumes "o_Status ord = StatusValid"
    and "Certificates_GetAll w (o_Certificate ord) bdl = Inr certs"
    and "map_of certs (o_Certificate ord) = Some dflt"
    and "pc = [] \<or> (\<forall>(l, c) \<in> set certs. issuer_parses w c)"
  shows "checkResponse w ord r bdl pc s =
           Inr (emit (EvGetAll (o_Certificate ord) bdl) s,
                select_chain w pc certs (o_Certificate ord) dflt r, True, None)"
proof (cases "pc = []")
  case True
  with assms(2,3) show ?thesis
    by (simp add: checkResponse_valid [OF assms(1)] select_chain_def)
next
  case False
  with assms(4) have p: "\<forall>(l, c) \<in> set certs. issuer_parses w c"
    by simp
  show ?thesis
  proof (cases "find (\<lambda>(link, cert). top_issuer_is w pc cert) certs")
    case None
    with False assms(2,3) show ?thesis
      by (simp add: checkResponse_valid [OF assms(1)] chain_loop_find [OF p] select_chain_def)
  next
    case (Some a)
    obtain link cert where "a = (link, cert)" by (cases a)
    with Some False assms(2,3) show ?thesis
      by (simp add: checkResponse_valid [OF assms(1)] chain_loop_find [OF p] select_chain_def)
  qed
qed

lemma poll_step_valid:
  assumes "Orders_Get w (polls s) (o_Location order) = Inr ord"
    and "o_Status ord = StatusValid"
    and "Certificates_GetAll w (o_Certificate ord) bdl = Inr certs"
    and "map_of certs (o_Certificate ord) = Some dflt"
    and "pc = [] \<or> (\<forall>(l, c) \<in> set certs. issuer_parses w c)"
  shows "poll_step w order bdl pc (s, r) =
           Inr ((emit (EvGetAll (o_Certificate ord) bdl) (polled (Suc 0) order s),
                 select_chain w pc certs (o_Certificate ord) dflt r), True, None)"
  using assms(1)
  by (simp add: poll_step_def Let_def checkResponse_selects [OF assms(2,3,4,5)]
        polled_def emit_def)

lemma wait_loop_waiting:
  assumes "\<forall>j<k. still_waiting w order (polls s + j)" and "k \<le> n"
  shows "wait_loop n msg (poll_step w order bdl pc) (s, r) =
           wait_loop (n - k) msg (poll_step w order bdl pc) (polled k order s, r)"
  using assms
proof (induction k arbitrary: s n)
  case 0
  then show ?case by simp
next
  case (Suc k)
  from Suc.prems(2) obtain m where n: "n = Suc m" and km: "k \<le> m"
    by (cases n) simp_all
  from Suc.prems(1) have first: "still_waiting w order (polls s)"
    by (metis add.right_neutral zero_less_Suc)
  have rest: "\<forall>j<k. still_waiting w order (polls (polled (Suc 0) order s) + j)"
  proof (intro allI impI)
    fix j assume "j < k"
    then have "Suc j < Suc k" by simp
    with Suc.prems(1) have "still_waiting w order (polls s + Suc j)" by blast
    then show "still_waiting w order (polls (polled (Suc 0) order s) + j)" by simp
  qed
  have "wait_loop n msg (poll_step w order bdl pc) (s, r) =
          wait_loop m msg (poll_step w order bdl pc) (polled (Suc 0) order s, r)"
    by (simp add: n poll_step_waiting [OF first])
  also have "\<dots> = wait_loop (m - k) msg (poll_step w order bdl pc)
                     (polled k order (polled (Suc 0) order s), r)"
    by (rule Suc.IH [OF rest km])
  finally show ?case
    by (simp add: n polled_Suc [symmetric])
qed


lemma polled_polled: "polled a order (polled b order s) = polled (b + a) order s"
  by (simp add: polled_def replicate_add)

lemma poll_certificate_unfold:
  "poll_certificate w c order bdl pc r s =
     (case wait_loop (wait_samples w (pollTimeout c) (pollInterval c)) ''certificate''
             (poll_step w order bdl pc)
             (emit (EvWait ''certificate'' (pollTimeout c) (pollInterval c)) s, r) of
        Inl p \<Rightarrow> Inl p
      | Inr ((s', certRes'), err) \<Rightarrow> Inr (s', Some certRes', err))"
  by (simp add: poll_certificate_def wait_For_def)

lemma wait_loop_then_invalid:
  assumes "\<forall>j<k. still_waiting w order (polls s + j)" and "k < n"
    and "Orders_Get w (polls s + k) (o_Location order) = Inr ord"
    and "o_Status ord = StatusInvalid"
  shows "wait_loop n msg (poll_step w order bdl pc) (s, r) =
           Inr ((polled (Suc k) order s, r), Some (ErrInvalidOrder (o_Err ord)))"
proof -
  from assms(2) obtain m where m: "n - k = Suc m"
    by (cases "n - k") simp_all
  from assms(2) have "k \<le> n" by simp
  from wait_loop_waiting [OF assms(1) this]
  have "wait_loop n msg (poll_step w order bdl pc) (s, r) =
          wait_loop (Suc m) msg (poll_step w order bdl pc) (polled k order s, r)"
    by (simp add: m)
  also have "\<dots> = Inr ((polled (Suc 0) order (polled k order s), r),
                       Some (ErrInvalidOrder (o_Err ord)))"
    using assms(3,4) by (simp add: poll_step_invalid)
  finally show ?thesis
    by (simp add: polled_polled)
qed

lemma wait_loop_then_valid:
  assumes "\<forall>j<k. still_waiting w order (polls s + j)" and "k < n"
    and "Orders_Get w (polls s + k) (o_Location order) = Inr ord"
    and "o_Status ord = StatusValid"
    and "Certificates_GetAll w (o_Certificate ord) bdl = Inr certs"
    and "map_of certs (o_Certificate ord) = Some dflt"
    and "pc = [] \<or> (\<forall>(l, c) \<in> set certs. issuer_parses w c)"
  shows "wait_loop n msg (poll_step w order bdl pc) (s, r) =
           Inr ((emit (EvGetAll (o_Certificate ord) bdl) (polled (Suc k) order s),
                 select_chain w pc certs (o_Certificate ord) dflt r), None)"
proof -
  from assms(2) obtain m where m: "n - k = Suc m"
    by (cases "n - k") simp_all
  from assms(2) have "k \<le> n" by simp
  from wait_loop_waiting [OF assms(1) this]
  have "wait_loop n msg (poll_step w order bdl pc) (s, r) =
          wait_loop (Suc m) msg (poll_step w order bdl pc) (polled k order s, r)"
    by (simp add: m)
  also have "\<dots> = Inr ((emit (EvGetAll (o_Certificate ord) bdl)
                          (polled (Suc 0) order (polled k order s)),
                        select_chain w pc certs (o_Certificate ord) dflt r), None)"
    using assms(3) by (simp add: poll_step_valid [OF _ assms(4,5,6,7)])
  finally show ?thesis
    by (simp add: polled_polled)
qed

lemma wait_loop_timeout:
  assumes "\<forall>j<n. still_waiting w order (polls s + j)"
  shows "wait_loop n msg (poll_step w order bdl pc) (s, r) =
           Inr ((polled n order s, r), Some (ErrTimeLimit msg))"
  using wait_loop_waiting [OF assms, of n msg bdl pc r] by simp

lemma polled_one:
  "(emit (EvOrderGet (o_Location order)) s)\<lparr>polls := Suc (polls s)\<rparr> = polled (Suc 0) order s"
  by (simp add: polled_def emit_def)

lemma poll_step_fetch_fails:
  assumes "Orders_Get w (polls s) (o_Location order) = Inr ord"
    and "o_Status ord = StatusValid"
    and "Certificates_GetAll w (o_Certificate ord) bdl = Inl e"
  shows "poll_step w order bdl pc (s, r) =
           Inr ((emit (EvGetAll (o_Certificate ord) bdl) (polled (Suc 0) order s), r),
                False, Some e)"
  using assms(1,3)
  by (simp add: poll_step_def Let_def checkResponse_valid [OF assms(2)] polled_one)

lemma poll_step_parse_fails:
  assumes "Orders_Get w (polls s) (o_Location order) = Inr ord"
    and "o_Status ord = StatusValid"
    and "Certificates_GetAll w (o_Certificate ord) bdl = Inr ((link, cert) # others)"
    and "map_of ((link, cert) # others) (o_Certificate ord) = Some dflt"
    and "pc \<noteq> []"
    and "ParsePEMBundle w (Issuer cert) = Inl e"
  shows "poll_step w order bdl pc (s, r) =
           Inr ((emit (EvGetAll (o_Certificate ord) bdl) (polled (Suc 0) order s),
                 store_chain (o_Certificate ord) dflt r), False, Some e)"
proof -
  from assms(6) have "hasPreferredChain w (Issuer cert) pc = Inr (False, Some e)"
    by (simp add: hasPreferredChain_def)
  then have "chain_loop w pc ((link, cert) # others) (store_chain (o_Certificate ord) dflt r) =
      Inr (store_chain (o_Certificate ord) dflt r, False, Some e)"
    by (simp add: chain_loop_Cons del: chain_loop.simps)
  with assms(1,3,4,5) show ?thesis
    by (simp add: poll_step_def Let_def checkResponse_valid [OF assms(2)] polled_one
          del: chain_loop.simps map_of.simps)
qed

lemma poll_step_valid_cases:
  assumes "Orders_Get w (polls s) (o_Location order) = Inr ord"
    and "o_Status ord = StatusValid"
  shows "(\<exists>p. poll_step w order bdl pc (s, r) = Inl p)
       \<or> (\<exists>r'. poll_step w order bdl pc (s, r) =
             Inr ((emit (EvGetAll (o_Certificate ord) bdl) (polled (Suc 0) order s), r'),
                  True, None)
           \<and> chain_stored w bdl r r')
       \<or> (\<exists>r' e. poll_step w order bdl pc (s, r) =
             Inr ((emit (EvGetAll (o_Certificate ord) bdl) (polled (Suc 0) order s), r'),
                  False, Some e)
           \<and> (Certificates_GetAll w (o_Certificate ord) bdl = Inl e \<and> r' = r
              \<or> default_stored_parse_failed w bdl r e r'))"
proof (cases "checkResponse w ord r bdl pc (polled (Suc 0) order s)")
  case (Inl p)
  with assms(1) have "poll_step w order bdl pc (s, r) = Inl p"
    by (simp add: poll_step_def Let_def polled_one)
  then show ?thesis by blast
next
  case cr: (Inr quad)
  obtain s2 r2 ok x where quad: "quad = (s2, r2, ok, x)" by (cases quad)
  from cr quad have cr': "checkResponse w ord r bdl pc (polled (Suc 0) order s) =
      Inr (s2, r2, ok, x)" by simp
  let ?s2 = "emit (EvGetAll (o_Certificate ord) bdl) (polled (Suc 0) order s)"
  from checkResponse_cases [OF cr'] assms(2) have s2: "s2 = ?s2"
    by auto
  from checkResponse_cases [OF cr'] assms(2) consider
    (fetcherr) e0 where "Certificates_GetAll w (o_Certificate ord) bdl = Inl e0"
        "r2 = r" "\<not> ok" "x = Some e0"
    | (stored) certs link cert where
        "Certificates_GetAll w (o_Certificate ord) bdl = Inr certs"
        "(link, cert) \<in> set certs" "ok" "x = None" "r2 = store_chain link cert r"
    | (parseerr) certs dflt link cert e0 where
        "Certificates_GetAll w (o_Certificate ord) bdl = Inr certs"
        "map_of certs (o_Certificate ord) = Some dflt" "(link, cert) \<in> set certs"
        "ParsePEMBundle w (Issuer cert) = Inl e0" "\<not> ok" "x = Some e0"
        "r2 = store_chain (o_Certificate ord) dflt r"
    by blast
  then show ?thesis
  proof cases
    case fetcherr
    with assms(1) cr' s2 have "poll_step w order bdl pc (s, r) = Inr ((?s2, r), False, Some e0)"
      by (simp add: poll_step_def Let_def polled_one)
    with fetcherr(1) show ?thesis by blast
  next
    case stored
    from stored(1,2,5) have cs: "chain_stored w bdl r r2"
      unfolding chain_stored_def by blast
    from assms(1) cr' s2 stored(3,4)
    have "poll_step w order bdl pc (s, r) = Inr ((?s2, r2), True, None)"
      by (simp add: poll_step_def Let_def polled_one)
    with cs show ?thesis by blast
  next
    case parseerr
    from parseerr(1,2,3,4,7) have pf: "default_stored_parse_failed w bdl r e0 r2"
      unfolding default_stored_parse_failed_def by blast
    from assms(1) cr' s2 parseerr(5,6)
    have "poll_step w order bdl pc (s, r) = Inr ((?s2, r2), False, Some e0)"
      by (simp add: poll_step_def Let_def polled_one)
    with pf show ?thesis by blast
  qed
qed

lemma wait_loop_then:
  assumes "\<forall>j<k. still_waiting w order (polls s + j)" and "k < n"
  shows "wait_loop n msg (poll_step w order bdl pc) (s, r) =
           (case poll_step w order bdl pc (polled k order s, r) of
              Inl p \<Rightarrow> Inl p
            | Inr (st', stop, err) \<Rightarrow>
                (case err of
                   Some e \<Rightarrow> Inr (st', Some e)
                 | None \<Rightarrow>
                     if stop then Inr (st', None)
                     else wait_loop (n - Suc k) msg (poll_step w order bdl pc) st'))"
proof -
  from assms(2) obtain m where m: "n - k = Suc m"
    by (cases "n - k") simp_all
  then have m': "n - Suc k = m" by simp
  from assms(2) have "k \<le> n" by simp
  from wait_loop_waiting [OF assms(1) this]
  have "wait_loop n msg (poll_step w order bdl pc) (s, r) =
          wait_loop (Suc m) msg (poll_step w order bdl pc) (polled k order s, r)"
    by (simp add: m)
  then show ?thesis
    by (simp add: m' split: sum.splits prod.splits option.splits)
qed


lemma poll_certificate_then:
  assumes "\<forall>j<k. still_waiting w order (polls s + j)"
    and "k < wait_samples w (pollTimeout c) (pollInterval c)"
    and "poll_step w order bdl pc
           (polled k order (emit (EvWait ''certificate'' (pollTimeout c) (pollInterval c)) s), r)
         = Inr ((s', r'), d, x)"
    and "d \<or> x \<noteq> None"
  shows "poll_certificate w c order bdl pc r s = Inr (s', Some r', x)"
proof -
  let ?s0 = "emit (EvWait ''certificate'' (pollTimeout c) (pollInterval c)) s"
  from assms(1) have w: "\<forall>j<k. still_waiting w order (polls ?s0 + j)"
    by simp
  from assms(3,4) show ?thesis
    by (cases x) (simp_all add: poll_certificate_unfold wait_loop_then [OF w assms(2)])
qed

lemma poll_certificate_then_panic:
  assumes "\<forall>j<k. still_waiting w order (polls s + j)"
    and "k < wait_samples w (pollTimeout c) (pollInterval c)"
    and "poll_step w order bdl pc
           (polled k order (emit (EvWait ''certificate'' (pollTimeout c) (pollInterval c)) s), r)
         = Inl p"
  shows "poll_certificate w c order bdl pc r s = Inl p"
proof -
  let ?s0 = "emit (EvWait ''certificate'' (pollTimeout c) (pollInterval c)) s"
  from assms(1) have w: "\<forall>j<k. still_waiting w order (polls ?s0 + j)"
    by simp
  from assms(3) show ?thesis
    by (simp add: poll_certificate_unfold wait_loop_then [OF w assms(2)])
qed

text \<open>
  Claim C5, as amended. checkOrderStatus classifies the status of an order: valid is
  success, invalid is an error that carries the problem detail of the order, and every
  other status is neither. In the poll loop, after \<open>k\<close> polls that found the order
  neither valid nor invalid, with samples left before the time limit: a poll that finds
  the order valid fetches the certificate chains and ends the loop at that poll, with
  success when the fetch succeeds and the chain selection succeeds (no preferred chain,
  or every issuer chain parses), with the error of the fetch when the fetch fails, and
  with the parse error when the chain selection meets issuer bytes that do not parse;
  a poll that finds the order invalid ends the loop with the invalid-order error. If
  every poll before the time limit finds the order neither valid nor invalid, the loop
  ends with the time-limit error, which is not the invalid-order error.
\<close>

theorem poll_outcomes:
  fixes w c order bdl r s
  defines "n \<equiv> wait_samples w (pollTimeout c) (pollInterval c)"
    and "s0 \<equiv> emit (EvWait ''certificate'' (pollTimeout c) (pollInterval c)) s"
  shows
  "checkOrderStatus ord =
     (if o_Status ord = StatusValid then (True, None)
      else if o_Status ord = StatusInvalid then (False, Some (ErrInvalidOrder (o_Err ord)))
      else (False, None))
   \<and> ((\<forall>j<k. still_waiting w order (polls s + j)) \<and> k < n
       \<and> Orders_Get w (polls s + k) (o_Location order) = Inr ord
       \<and> o_Status ord = StatusValid
      \<longrightarrow> (\<exists>p. poll_certificate w c order bdl pc r s = Inl p)
          \<or> (\<exists>r' err. poll_certificate w c order bdl pc r s =
                Inr (emit (EvGetAll (o_Certificate ord) bdl) (polled (Suc k) order s0),
                     Some r', err)
              \<and> (err = None \<and> chain_stored w bdl r r'
                 \<or> (\<exists>e. err = Some e
                       \<and> (Certificates_GetAll w (o_Certificate ord) bdl = Inl e \<and> r' = r
                          \<or> default_stored_parse_failed w bdl r e r')))))
   \<and> ((\<forall>j<k. still_waiting w order (polls s + j)) \<and> k < n
       \<and> Orders_Get w (polls s + k) (o_Location order) = Inr ord
       \<and> o_Status ord = StatusValid
       \<and> Certificates_GetAll w (o_Certificate ord) bdl = Inr certs
       \<and> map_of certs (o_Certificate ord) = Some dflt
       \<and> (pc = [] \<or> (\<forall>(l, c) \<in> set certs. issuer_parses w c))
      \<longrightarrow> poll_certificate w c order bdl pc r s =
            Inr (emit (EvGetAll (o_Certificate ord) bdl) (polled (Suc k) order s0),
                 Some (select_chain w pc certs (o_Certificate ord) dflt r), None))
   \<and> ((\<forall>j<k. still_waiting w order (polls s + j)) \<and> k < n
       \<and> Orders_Get w (polls s + k) (o_Location order) = Inr ord
       \<and> o_Status ord = StatusValid
       \<and> Certificates_GetAll w (o_Certificate ord) bdl = Inl e
      \<longrightarrow> poll_certificate w c order bdl pc r s =
            Inr (emit (EvGetAll (o_Certificate ord) bdl) (polled (Suc k) order s0),
                 Some r, Some e))
   \<and> ((\<forall>j<k. still_waiting w order (polls s + j)) \<and> k < n
       \<and> Orders_Get w (polls s + k) (o_Location order) = Inr ord
       \<and> o_Status ord = StatusValid
       \<and> Certificates_GetAll w (o_Certificate ord) bdl = Inr ((link, cert) # others)
       \<and> map_of ((link, cert) # others) (o_Certificate ord) = Some dflt
       \<and> pc \<noteq> [] \<and> ParsePEMBundle w (Issuer cert) = Inl e
      \<longrightarrow> poll_certificate w c order bdl pc r s =
            Inr (emit (EvGetAll (o_Certificate ord) bdl) (polled (Suc k) order s0),
                 Some (store_chain (o_Certificate ord) dflt r), Some e))
   \<and> ((\<forall>j<k. still_waiting w order (polls s + j)) \<and> k < n
       \<and> Orders_Get w (polls s + k) (o_Location order) = Inr ord
       \<and> o_Status ord = StatusInvalid
      \<longrightarrow> poll_certificate w c order bdl pc r s =
            Inr (polled (Suc k) order s0, Some r, Some (ErrInvalidOrder (o_Err ord))))
   \<and> ((\<forall>j<n. still_waiting w order (polls s + j))
      \<longrightarrow> poll_certificate w c order bdl pc r s =
            Inr (polled n order s0, Some r, Some (ErrTimeLimit ''certificate'')))
   \<and> ErrTimeLimit ''certificate'' \<noteq> ErrInvalidOrder (o_Err ord)"
proof -
  have p0: "polls s0 = polls s"
    by (simp add: s0_def)
  have pk: "polls (polled k order s0) = polls s + k"
    by (simp add: p0)
  have sk: "polled (Suc 0) order (polled k order s0) = polled (Suc k) order s0"
    by (simp add: polled_polled)
  have A: "checkOrderStatus ord =
     (if o_Status ord = StatusValid then (True, None)
      else if o_Status ord = StatusInvalid then (False, Some (ErrInvalidOrder (o_Err ord)))
      else (False, None))"
    by (simp add: checkOrderStatus_def)
  have V: "(\<forall>j<k. still_waiting w order (polls s + j)) \<and> k < n
       \<and> Orders_Get w (polls s + k) (o_Location order) = Inr ord
       \<and> o_Status ord = StatusValid
      \<longrightarrow> (\<exists>p. poll_certificate w c order bdl pc r s = Inl p)
          \<or> (\<exists>r' err. poll_certificate w c order bdl pc r s =
                Inr (emit (EvGetAll (o_Certificate ord) bdl) (polled (Suc k) order s0),
                     Some r', err)
              \<and> (err = None \<and> chain_stored w bdl r r'
                 \<or> (\<exists>e. err = Some e
                       \<and> (Certificates_GetAll w (o_Certificate ord) bdl = Inl e \<and> r' = r
                          \<or> default_stored_parse_failed w bdl r e r'))))"
  proof
    assume h: "(\<forall>j<k. still_waiting w order (polls s + j)) \<and> k < n
       \<and> Orders_Get w (polls s + k) (o_Location order) = Inr ord
       \<and> o_Status ord = StatusValid"
    then have h1: "\<forall>j<k. still_waiting w order (polls s + j)"
      and h2: "k < wait_samples w (pollTimeout c) (pollInterval c)"
      and h3: "Orders_Get w (polls (polled k order s0)) (o_Location order) = Inr ord"
      and h4: "o_Status ord = StatusValid"
      unfolding pk n_def by blast+
    let ?E = "emit (EvGetAll (o_Certificate ord) bdl) (polled (Suc k) order s0)"
    from poll_step_valid_cases [OF h3 h4, of bdl pc r] consider
      (panic) p where "poll_step w order bdl pc (polled k order s0, r) = Inl p"
      | (ok) r' where "poll_step w order bdl pc (polled k order s0, r) =
            Inr ((?E, r'), True, None)" "chain_stored w bdl r r'"
      | (err) r' e0 where "poll_step w order bdl pc (polled k order s0, r) =
            Inr ((?E, r'), False, Some e0)"
          "Certificates_GetAll w (o_Certificate ord) bdl = Inl e0 \<and> r' = r
           \<or> default_stored_parse_failed w bdl r e0 r'"
      unfolding sk by blast
    then show "(\<exists>p. poll_certificate w c order bdl pc r s = Inl p)
          \<or> (\<exists>r' err. poll_certificate w c order bdl pc r s = Inr (?E, Some r', err)
              \<and> (err = None \<and> chain_stored w bdl r r'
                 \<or> (\<exists>e. err = Some e
                       \<and> (Certificates_GetAll w (o_Certificate ord) bdl = Inl e \<and> r' = r
                          \<or> default_stored_parse_failed w bdl r e r'))))"
    proof cases
      case panic
      from poll_certificate_then_panic [OF h1 h2 panic [unfolded s0_def]]
      show ?thesis by blast
    next
      case ok
      from poll_certificate_then [OF h1 h2 ok(1) [unfolded s0_def]]
      have "poll_certificate w c order bdl pc r s = Inr (?E, Some r', None)"
        by (simp add: s0_def)
      with ok(2) show ?thesis by blast
    next
      case err
      from poll_certificate_then [OF h1 h2 err(1) [unfolded s0_def]]
      have "poll_certificate w c order bdl pc r s = Inr (?E, Some r', Some e0)"
        by (simp add: s0_def)
      with err(2) show ?thesis by blast
    qed
  qed
  have B: "(\<forall>j<k. still_waiting w order (polls s + j)) \<and> k < n
       \<and> Orders_Get w (polls s + k) (o_Location order) = Inr ord
       \<and> o_Status ord = StatusValid
       \<and> Certificates_GetAll w (o_Certificate ord) bdl = Inr certs
       \<and> map_of certs (o_Certificate ord) = Some dflt
       \<and> (pc = [] \<or> (\<forall>(l, c) \<in> set certs. issuer_parses w c))
      \<longrightarrow> poll_certificate w c order bdl pc r s =
            Inr (emit (EvGetAll (o_Certificate ord) bdl) (polled (Suc k) order s0),
                 Some (select_chain w pc certs (o_Certificate ord) dflt r), None)"
  proof
    assume h: "(\<forall>j<k. still_waiting w order (polls s + j)) \<and> k < n
       \<and> Orders_Get w (polls s + k) (o_Location order) = Inr ord
       \<and> o_Status ord = StatusValid
       \<and> Certificates_GetAll w (o_Certificate ord) bdl = Inr certs
       \<and> map_of certs (o_Certificate ord) = Some dflt
       \<and> (pc = [] \<or> (\<forall>(l, c) \<in> set certs. issuer_parses w c))"
    then have h1: "\<forall>j<k. still_waiting w order (polls s0 + j)"
      and h2: "k < n"
      and h3: "Orders_Get w (polls s0 + k) (o_Location order) = Inr ord"
      and h4: "o_Status ord = StatusValid"
      and h5: "Certificates_GetAll w (o_Certificate ord) bdl = Inr certs"
      and h6: "map_of certs (o_Certificate ord) = Some dflt"
      and h7: "pc = [] \<or> (\<forall>(l, c) \<in> set certs. issuer_parses w c)"
      unfolding p0 by blast+
    have "wait_loop n ''certificate'' (poll_step w order bdl pc) (s0, r) =
           Inr ((emit (EvGetAll (o_Certificate ord) bdl) (polled (Suc k) order s0),
                 select_chain w pc certs (o_Certificate ord) dflt r), None)"
      by (rule wait_loop_then_valid [OF h1 h2 h3 h4 h5 h6 h7])
    then show "poll_certificate w c order bdl pc r s =
            Inr (emit (EvGetAll (o_Certificate ord) bdl) (polled (Suc k) order s0),
                 Some (select_chain w pc certs (o_Certificate ord) dflt r), None)"
      by (simp add: poll_certificate_unfold n_def s0_def)
  qed
  have F: "(\<forall>j<k. still_waiting w order (polls s + j)) \<and> k < n
       \<and> Orders_Get w (polls s + k) (o_Location order) = Inr ord
       \<and> o_Status ord = StatusValid
       \<and> Certificates_GetAll w (o_Certificate ord) bdl = Inl e
      \<longrightarrow> poll_certificate w c order bdl pc r s =
            Inr (emit (EvGetAll (o_Certificate ord) bdl) (polled (Suc k) order s0),
                 Some r, Some e)"
  proof
    assume h: "(\<forall>j<k. still_waiting w order (polls s + j)) \<and> k < n
       \<and> Orders_Get w (polls s + k) (o_Location order) = Inr ord
       \<and> o_Status ord = StatusValid
       \<and> Certificates_GetAll w (o_Certificate ord) bdl = Inl e"
    then have h1: "\<forall>j<k. still_waiting w order (polls s + j)"
      and h2: "k < wait_samples w (pollTimeout c) (pollInterval c)"
      and h3: "Orders_Get w (polls (polled k order s0)) (o_Location order) = Inr ord"
      and h4: "o_Status ord = StatusValid"
      and h5: "Certificates_GetAll w (o_Certificate ord) bdl = Inl e"
      unfolding pk n_def by blast+
    from poll_step_fetch_fails [OF h3 h4 h5, of pc r]
    have st: "poll_step w order bdl pc (polled k order s0, r) =
        Inr ((emit (EvGetAll (o_Certificate ord) bdl) (polled (Suc k) order s0), r),
             False, Some e)"
      unfolding sk .
    from poll_certificate_then [OF h1 h2 st [unfolded s0_def]]
    show "poll_certificate w c order bdl pc r s =
            Inr (emit (EvGetAll (o_Certificate ord) bdl) (polled (Suc k) order s0),
                 Some r, Some e)"
      by (simp add: s0_def)
  qed
  have P: "(\<forall>j<k. still_waiting w order (polls s + j)) \<and> k < n
       \<and> Orders_Get w (polls s + k) (o_Location order) = Inr ord
       \<and> o_Status ord = StatusValid
       \<and> Certificates_GetAll w (o_Certificate ord) bdl = Inr ((link, cert) # others)
       \<and> map_of ((link, cert) # others) (o_Certificate ord) = Some dflt
       \<and> pc \<noteq> [] \<and> ParsePEMBundle w (Issuer cert) = Inl e
      \<longrightarrow> poll_certificate w c order bdl pc r s =
            Inr (emit (EvGetAll (o_Certificate ord) bdl) (polled (Suc k) order s0),
                 Some (store_chain (o_Certificate ord) dflt r), Some e)"
  proof
    assume h: "(\<forall>j<k. still_waiting w order (polls s + j)) \<and> k < n
       \<and> Orders_Get w (polls s + k) (o_Location order) = Inr ord
       \<and> o_Status ord = StatusValid
       \<and> Certificates_GetAll w (o_Certificate ord) bdl = Inr ((link, cert) # others)
       \<and> map_of ((link, cert) # others) (o_Certificate ord) = Some dflt
       \<and> pc \<noteq> [] \<and> ParsePEMBundle w (Issuer cert) = Inl e"
    then have h1: "\<forall>j<k. still_waiting w order (polls s + j)"
      and h2: "k < wait_samples w (pollTimeout c) (pollInterval c)"
      and h3: "Orders_Get w (polls (polled k order s0)) (o_Location order) = Inr ord"
      and h4: "o_Status ord = StatusValid"
      and h5: "Certificates_GetAll w (o_Certificate ord) bdl = Inr ((link, cert) # others)"
      and h6: "map_of ((link, cert) # others) (o_Certificate ord) = Some dflt"
      and h7: "pc \<noteq> []"
      and h8: "ParsePEMBundle w (Issuer cert) = Inl e"
      unfolding pk n_def by blast+
    from poll_step_parse_fails [OF h3 h4 h5 h6 h7 h8, of r]
    have st: "poll_step w order bdl pc (polled k order s0, r) =
        Inr ((emit (EvGetAll (o_Certificate ord) bdl) (polled (Suc k) order s0),
              store_chain (o_Certificate ord) dflt r), False, Some e)"
      unfolding sk .
    from poll_certificate_then [OF h1 h2 st [unfolded s0_def]]
    show "poll_certificate w c order bdl pc r s =
            Inr (emit (EvGetAll (o_Certificate ord) bdl) (polled (Suc k) order s0),
                 Some (store_chain (o_Certificate ord) dflt r), Some e)"
      by (simp add: s0_def)
  qed
  have C: "(\<forall>j<k. still_waiting w order (polls s + j)) \<and> k < n
       \<and> Orders_Get w (polls s + k) (o_Location order) = Inr ord
       \<and> o_Status ord = StatusInvalid
      \<longrightarrow> poll_certificate w c order bdl pc r s =
            Inr (polled (Suc k) order s0, Some r, Some (ErrInvalidOrder (o_Err ord)))"
  proof
    assume h: "(\<forall>j<k. still_waiting w order (polls s + j)) \<and> k < n
       \<and> Orders_Get w (polls s + k) (o_Location order) = Inr ord
       \<and> o_Status ord = StatusInvalid"
    then have h1: "\<forall>j<k. still_waiting w order (polls s0 + j)"
      and h2: "k < n"
      and h3: "Orders_Get w (polls s0 + k) (o_Location order) = Inr ord"
      and h4: "o_Status ord = StatusInvalid"
      unfolding p0 by blast+
    have "wait_loop n ''certificate'' (poll_step w order bdl pc) (s0, r) =
           Inr ((polled (Suc k) order s0, r), Some (ErrInvalidOrder (o_Err ord)))"
      by (rule wait_loop_then_invalid [OF h1 h2 h3 h4])
    then show "poll_certificate w c order bdl pc r s =
            Inr (polled (Suc k) order s0, Some r, Some (ErrInvalidOrder (o_Err ord)))"
      by (simp add: poll_certificate_unfold n_def s0_def)
  qed
  have D: "(\<forall>j<n. still_waiting w order (polls s + j))
      \<longrightarrow> poll_certificate w c order bdl pc r s =
            Inr (polled n order s0, Some r, Some (ErrTimeLimit ''certificate''))"
  proof
    assume h: "\<forall>j<n. still_waiting w order (polls s + j)"
    then have h1: "\<forall>j<n. still_waiting w order (polls s0 + j)"
      unfolding p0 .
    have "wait_loop n ''certificate'' (poll_step w order bdl pc) (s0, r) =
           Inr ((polled n order s0, r), Some (ErrTimeLimit ''certificate''))"
      by (rule wait_loop_timeout [OF h1])
    then show "poll_certificate w c order bdl pc r s =
            Inr (polled n order s0, Some r, Some (ErrTimeLimit ''certificate''))"
      by (simp add: poll_certificate_unfold n_def s0_def)
  qed
  have E: "ErrTimeLimit ''certificate'' \<noteq> ErrInvalidOrder (o_Err ord)"
    by simp
  show ?thesis
    by (rule conjI [OF A conjI [OF V conjI [OF B conjI [OF F conjI [OF P
          conjI [OF C conjI [OF D E]]]]]]])
qed

lemma demo_still_waiting:
  "still_waiting demo_world order j = (j < 2)"
  "still_waiting demo_world_invalid order j = (j < 1)"
  "still_waiting demo_world_pending order j"
  by (simp_all add: still_waiting_def demo_world_def demo_world_invalid_def
        demo_world_pending_def demo_order_def StatusValid_def StatusInvalid_def)

lemma demo_poll_facts:
  "wait_samples demo_world t i = 60"
  "wait_samples demo_world_invalid t i = 60"
  "wait_samples demo_world_pending t i = 3"
  "Orders_Get demo_world j url =
     Inr (demo_order (if j < 2 then ''processing'' else ''valid'') [''example.com''])"
  "Orders_Get demo_world_invalid j url =
     Inr (demo_order (if j < 1 then ''pending'' else ''invalid'') [''example.com''])"
  "o_Status (demo_order ''invalid'' ds) = StatusInvalid"
  "polls net0 = 0"
  by (simp_all add: demo_world_def demo_world_invalid_def demo_world_pending_def
        demo_order_def StatusInvalid_def net0_def)

lemma demo_poll_variant_facts:
  "still_waiting demo_world_valid_fetch_fails order j = (j < 2)"
  "still_waiting demo_world_no_issuer order j = (j < 2)"
  "wait_samples demo_world_valid_fetch_fails t i = 60"
  "wait_samples demo_world_no_issuer t i = 60"
  "Orders_Get demo_world_valid_fetch_fails j url =
     Inr (demo_order (if j < 2 then ''processing'' else ''valid'') [''example.com''])"
  "Orders_Get demo_world_no_issuer j url =
     Inr (demo_order (if j < 2 then ''processing'' else ''valid'') [''example.com''])"
  "Certificates_GetAll demo_world_valid_fetch_fails u b = Inl (ErrExternal ''fetch failed'')"
  "Certificates_GetAll demo_world_no_issuer u b =
     Inr [(''cert/1'', \<lparr>Cert = Some ''leaf 1'', Issuer = Some ''chain A''\<rparr>),
          (''cert/2'', \<lparr>Cert = Some ''leaf 2'', Issuer = Some ''chain B''\<rparr>)]"
  "ParsePEMBundle demo_world_no_issuer bs = Inl (ErrExternal ''no certificates were found'')"
  by (simp_all add: still_waiting_def demo_world_valid_fetch_fails_def demo_world_no_issuer_def
        demo_world_def demo_order_def StatusValid_def StatusInvalid_def)

theorem poll_outcomes_witness:
  "poll_certificate demo_world demo_certifier (demo_order ''pending'' [''example.com'']) False
      ''Root B'' demo_partial_resource net0 =
     Inr (emit (EvGetAll ''cert/1'' False)
            (polled 3 (demo_order ''pending'' [''example.com''])
               (emit (EvWait ''certificate'' (pollTimeout demo_certifier)
                        (pollInterval demo_certifier)) net0)),
          Some (store_chain ''cert/2'' \<lparr>Cert = Some ''leaf 2'', Issuer = Some ''chain B''\<rparr>
                  demo_partial_resource),
          None)
   \<and> poll_certificate demo_world_valid_fetch_fails demo_certifier
        (demo_order ''pending'' [''example.com'']) False [] demo_partial_resource net0 =
     Inr (emit (EvGetAll ''cert/1'' False)
            (polled 3 (demo_order ''pending'' [''example.com''])
               (emit (EvWait ''certificate'' (pollTimeout demo_certifier)
                        (pollInterval demo_certifier)) net0)),
          Some demo_partial_resource,
          Some (ErrExternal ''fetch failed''))
   \<and> poll_certificate demo_world_no_issuer demo_certifier
        (demo_order ''pending'' [''example.com'']) False ''Root B'' demo_partial_resource net0 =
     Inr (emit (EvGetAll ''cert/1'' False)
            (polled 3 (demo_order ''pending'' [''example.com''])
               (emit (EvWait ''certificate'' (pollTimeout demo_certifier)
                        (pollInterval demo_certifier)) net0)),
          Some (store_chain ''cert/1'' \<lparr>Cert = Some ''leaf 1'', Issuer = Some ''chain A''\<rparr>
                  demo_partial_resource),
          Some (ErrExternal ''no certificates were found''))
   \<and> ((\<exists>p. poll_certificate demo_world demo_certifier
              (demo_order ''pending'' [''example.com'']) False ''Root A''
              demo_partial_resource net0 = Inl p)
       \<or> (\<exists>r' err. poll_certificate demo_world demo_certifier
              (demo_order ''pending'' [''example.com'']) False ''Root A''
              demo_partial_resource net0 =
            Inr (emit (EvGetAll ''cert/1'' False)
                   (polled 3 (demo_order ''pending'' [''example.com''])
                      (emit (EvWait ''certificate'' (pollTimeout demo_certifier)
                               (pollInterval demo_certifier)) net0)),
                 Some r', err)
           \<and> (err = None \<and> chain_stored demo_world False demo_partial_resource r'
              \<or> (\<exists>e. err = Some e
                    \<and> (Certificates_GetAll demo_world ''cert/1'' False = Inl e
                         \<and> r' = demo_partial_resource
                       \<or> default_stored_parse_failed demo_world False
                            demo_partial_resource e r')))))
   \<and> poll_certificate demo_world_invalid demo_certifier
        (demo_order ''pending'' [''example.com'']) False [] demo_partial_resource net0 =
     Inr (polled 2 (demo_order ''pending'' [''example.com''])
            (emit (EvWait ''certificate'' (pollTimeout demo_certifier)
                     (pollInterval demo_certifier)) net0),
          Some demo_partial_resource,
          Some (ErrInvalidOrder (Some (ErrExternal ''rejectedIdentifier''))))
   \<and> poll_certificate demo_world_pending demo_certifier
        (demo_order ''pending'' [''example.com'']) False [] demo_partial_resource net0 =
     Inr (polled 3 (demo_order ''pending'' [''example.com''])
            (emit (EvWait ''certificate'' (pollTimeout demo_certifier)
                     (pollInterval demo_certifier)) net0),
          Some demo_partial_resource,
          Some (ErrTimeLimit ''certificate''))"
proof -
  let ?order = "demo_order ''pending'' [''example.com'']"
  let ?valid = "demo_order ''valid'' [''example.com'']"
  let ?c1 = "\<lparr>Cert = Some ''leaf 1'', Issuer = Some ''chain A''\<rparr>"
  let ?c2 = "\<lparr>Cert = Some ''leaf 2'', Issuer = Some ''chain B''\<rparr>"
  let ?s0 = "emit (EvWait ''certificate'' (pollTimeout demo_certifier)
                     (pollInterval demo_certifier)) net0"
  note inst = poll_outcomes [where c = demo_certifier and order = ?order and bdl = False
      and r = demo_partial_resource and s = net0]
  have sel: "select_chain demo_world ''Root B'' [(''cert/1'', ?c1), (''cert/2'', ?c2)] url ?c1
               demo_partial_resource = store_chain ''cert/2'' ?c2 demo_partial_resource" for url
    by (simp add: select_chain_def demo_chain_facts)
  have a: "poll_certificate demo_world demo_certifier ?order False ''Root B''
             demo_partial_resource net0 =
     Inr (emit (EvGetAll (o_Certificate ?valid) False) (polled (Suc 2) ?order ?s0),
          Some (select_chain demo_world ''Root B'' [(''cert/1'', ?c1), (''cert/2'', ?c2)]
                  (o_Certificate ?valid) ?c1 demo_partial_resource),
          None)"
    by (rule inst [where w = demo_world and k = 2 and pc = "''Root B''" and ord = ?valid
                     and certs = "[(''cert/1'', ?c1), (''cert/2'', ?c2)]" and dflt = ?c1,
                   THEN conjunct2, THEN conjunct2, THEN conjunct1, THEN mp])
       (simp add: demo_still_waiting demo_poll_facts demo_chain_facts)
  have f: "poll_certificate demo_world_valid_fetch_fails demo_certifier ?order False []
             demo_partial_resource net0 =
     Inr (emit (EvGetAll (o_Certificate ?valid) False) (polled (Suc 2) ?order ?s0),
          Some demo_partial_resource, Some (ErrExternal ''fetch failed''))"
    by (rule inst [where w = demo_world_valid_fetch_fails and k = 2 and pc = "[]"
                     and ord = ?valid and e = "ErrExternal ''fetch failed''",
                   THEN conjunct2, THEN conjunct2, THEN conjunct2, THEN conjunct1, THEN mp])
       (simp add: demo_poll_variant_facts demo_poll_facts demo_chain_facts)
  have p: "poll_certificate demo_world_no_issuer demo_certifier ?order False ''Root B''
             demo_partial_resource net0 =
     Inr (emit (EvGetAll (o_Certificate ?valid) False) (polled (Suc 2) ?order ?s0),
          Some (store_chain (o_Certificate ?valid) ?c1 demo_partial_resource),
          Some (ErrExternal ''no certificates were found''))"
    by (rule inst [where w = demo_world_no_issuer and k = 2 and pc = "''Root B''"
                     and ord = ?valid and link = "''cert/1''" and cert = ?c1
                     and others = "[(''cert/2'', ?c2)]" and dflt = ?c1
                     and e = "ErrExternal ''no certificates were found''",
                   THEN conjunct2, THEN conjunct2, THEN conjunct2, THEN conjunct2,
                   THEN conjunct1, THEN mp])
       (simp add: demo_poll_variant_facts demo_poll_facts demo_chain_facts)
  have v: "(\<exists>p. poll_certificate demo_world demo_certifier ?order False ''Root A''
              demo_partial_resource net0 = Inl p)
       \<or> (\<exists>r' err. poll_certificate demo_world demo_certifier ?order False ''Root A''
              demo_partial_resource net0 =
            Inr (emit (EvGetAll (o_Certificate ?valid) False) (polled (Suc 2) ?order ?s0),
                 Some r', err)
           \<and> (err = None \<and> chain_stored demo_world False demo_partial_resource r'
              \<or> (\<exists>e. err = Some e
                    \<and> (Certificates_GetAll demo_world (o_Certificate ?valid) False = Inl e
                         \<and> r' = demo_partial_resource
                       \<or> default_stored_parse_failed demo_world False
                            demo_partial_resource e r'))))"
    by (rule inst [where w = demo_world and k = 2 and pc = "''Root A''" and ord = ?valid,
                   THEN conjunct2, THEN conjunct1, THEN mp])
       (simp add: demo_still_waiting demo_poll_facts demo_chain_facts)
  have b: "poll_certificate demo_world_invalid demo_certifier ?order False []
             demo_partial_resource net0 =
     Inr (polled (Suc 1) ?order ?s0, Some demo_partial_resource,
          Some (ErrInvalidOrder (o_Err (demo_order ''invalid'' [''example.com'']))))"
    by (rule inst [where w = demo_world_invalid and k = 1 and pc = "[]"
                     and ord = "demo_order ''invalid'' [''example.com'']",
                   THEN conjunct2, THEN conjunct2, THEN conjunct2, THEN conjunct2,
                   THEN conjunct2, THEN conjunct1, THEN mp])
       (simp add: demo_still_waiting demo_poll_facts)
  have c: "poll_certificate demo_world_pending demo_certifier ?order False []
             demo_partial_resource net0 =
     Inr (polled (wait_samples demo_world_pending (pollTimeout demo_certifier)
                    (pollInterval demo_certifier)) ?order ?s0,
          Some demo_partial_resource, Some (ErrTimeLimit ''certificate''))"
    by (rule inst [where w = demo_world_pending and pc = "[]",
                   THEN conjunct2, THEN conjunct2, THEN conjunct2, THEN conjunct2,
                   THEN conjunct2, THEN conjunct2, THEN conjunct1, THEN mp])
       (simp add: demo_still_waiting)
  have n3: "Suc 2 = 3" "Suc 1 = 2" by simp_all
  have url: "o_Certificate ?valid = ''cert/1''"
    by (rule demo_chain_facts)
  have err: "o_Err (demo_order ''invalid'' [''example.com'']) =
      Some (ErrExternal ''rejectedIdentifier'')"
    by (simp add: demo_order_def)
  note a' = a [unfolded sel n3 url]
  note f' = f [unfolded n3 url]
  note p' = p [unfolded n3 url]
  note v' = v [unfolded n3 url]
  note b' = b [unfolded n3 err]
  note c' = c [unfolded demo_poll_facts]
  show ?thesis
    by (rule conjI [OF a' conjI [OF f' conjI [OF p' conjI [OF v' conjI [OF b' c']]]]])
qed

text \<open>
  The claim as stated fails where it calls valid a success: the third poll finds the
  order valid, but the CA fails to deliver the certificate chains, so the callback
  reports an error and the poll loop ends with it; likewise when the issuer bytes of an
  offered chain do not parse while a preferred chain is asked for.
\<close>

theorem poll_outcomes_counterexample:
  "Orders_Get demo_world_valid_fetch_fails 2 ''order/1'' =
     Inr (demo_order ''valid'' [''example.com''])
   \<and> checkOrderStatus (demo_order ''valid'' [''example.com'']) = (True, None)
   \<and> poll_step demo_world_valid_fetch_fails (demo_order ''pending'' [''example.com'']) False []
        (\<lparr>events = [], polls = 2\<rparr>, demo_partial_resource) =
     Inr ((\<lparr>events = [EvOrderGet ''order/1'', EvGetAll ''cert/1'' False], polls = 3\<rparr>,
           demo_partial_resource),
          False, Some (ErrExternal ''fetch failed''))
   \<and> poll_certificate demo_world_valid_fetch_fails demo_certifier
        (demo_order ''pending'' [''example.com'']) False [] demo_partial_resource net0 =
     Inr (\<lparr>events = [EvWait ''certificate'' 30000000000 500000000,
                     EvOrderGet ''order/1'', EvOrderGet ''order/1'', EvOrderGet ''order/1'',
                     EvGetAll ''cert/1'' False],
            polls = 3\<rparr>,
          Some demo_partial_resource,
          Some (ErrExternal ''fetch failed''))
   \<and> poll_certificate demo_world_no_issuer demo_certifier
        (demo_order ''pending'' [''example.com'']) False ''Root B'' demo_partial_resource net0 =
     Inr (\<lparr>events = [EvWait ''certificate'' 30000000000 500000000,
                     EvOrderGet ''order/1'', EvOrderGet ''order/1'', EvOrderGet ''order/1'',
                     EvGetAll ''cert/1'' False],
            polls = 3\<rparr>,
          Some \<lparr>Domain = ''example.com'', CertURL = ''cert/1'', CertStableURL = ''cert/1'',
                 PrivateKey = Some ''key'', Certificate = Some ''leaf 1'',
                 IssuerCertificate = Some ''chain A'', CSR = None\<rparr>,
          Some (ErrExternal ''no certificates were found''))"
  by code_simp

subsection \<open>The first sanitized domain\<close>

lemma hasPreferredChain_panic:
  assumes "hasPreferredChain w issuer pc = Inl p"
  shows "p = IndexOutOfRange AtHasPreferredChain"
  using assms
  by (cases "ParsePEMBundle w issuer")
     (simp_all add: hasPreferredChain_def Let_def split: if_splits)

lemma chain_loop_panic:
  assumes "chain_loop w pc certs r = Inl p"
  shows "p = IndexOutOfRange AtHasPreferredChain"
  using assms
proof (induction certs)
  case Nil
  then show ?case by simp
next
  case (Cons a certs)
  obtain link cert where a: "a = (link, cert)" by (cases a)
  show ?case
  proof (cases "hasPreferredChain w (Issuer cert) pc")
    case (Inl q)
    with Cons.prems have "q = p"
      by (simp add: a chain_loop_Cons del: chain_loop.simps)
    with hasPreferredChain_panic [OF Inl] show ?thesis by simp
  next
    case (Inr res)
    obtain ok0 e0 where res: "res = (ok0, e0)" by (cases res)
    show ?thesis
    proof (cases e0)
      case (Some err)
      with Cons.prems Inr res show ?thesis
        by (simp add: a chain_loop_Cons del: chain_loop.simps)
    next
      case None
      show ?thesis
      proof (cases ok0)
        case True
        with Cons.prems Inr res None show ?thesis
          by (simp add: a chain_loop_Cons del: chain_loop.simps)
      next
        case False
        with Cons.prems Inr res None have "chain_loop w pc certs r = Inl p"
          by (simp add: a chain_loop_Cons del: chain_loop.simps)
        then show ?thesis by (rule Cons.IH)
      qed
    qed
  qed
qed

lemma checkResponse_panic:
  assumes "checkResponse w order r bdl pc s = Inl p"
  shows "p = NilDereference \<or> p = IndexOutOfRange AtHasPreferredChain"
proof (cases "o_Status order = StatusValid")
  case False
  with assms show ?thesis by (simp add: checkResponse_not_valid)
next
  case True
  note v = checkResponse_valid [OF True, of w r bdl pc s]
  show ?thesis
  proof (cases "Certificates_GetAll w (o_Certificate order) bdl")
    case (Inl e0)
    with assms v show ?thesis by simp
  next
    case (Inr certs)
    show ?thesis
    proof (cases "map_of certs (o_Certificate order)")
      case None
      with assms v Inr show ?thesis by simp
    next
      case (Some dflt)
      show ?thesis
      proof (cases "pc = []")
        case True
        with assms v Inr Some show ?thesis by simp
      next
        case False
        show ?thesis
        proof (cases "chain_loop w pc certs (store_chain (o_Certificate order) dflt r)")
          case (Inl q)
          with assms v Inr Some False have "q = p" by simp
          with chain_loop_panic [OF Inl] show ?thesis by simp
        next
          case cl: (Inr res)
          obtain r0 ok0 e0 where "res = (r0, ok0, e0)" by (cases res)
          with assms v Inr Some False cl show ?thesis by simp
        qed
      qed
    qed
  qed
qed

lemma poll_step_panic:
  assumes "poll_step w order bdl pc st = Inl p"
  shows "p = NilDereference \<or> p = IndexOutOfRange AtHasPreferredChain"
proof (cases "Orders_Get w (polls (fst st)) (o_Location order)")
  case (Inl e0)
  with assms show ?thesis by (simp add: poll_step_def Let_def)
next
  case (Inr ord)
  let ?s1 = "(emit (EvOrderGet (o_Location order)) (fst st))\<lparr>polls := Suc (polls (fst st))\<rparr>"
  show ?thesis
  proof (cases "checkResponse w ord (snd st) bdl pc ?s1")
    case (Inl q)
    with assms Inr have "q = p" by (simp add: poll_step_def Let_def)
    with checkResponse_panic [OF Inl] show ?thesis by simp
  next
    case cr: (Inr res)
    obtain s2 r2 ok e where "res = (s2, r2, ok, e)" by (cases res)
    with assms Inr cr show ?thesis
      by (cases e) (simp_all add: poll_step_def Let_def)
  qed
qed

lemma poll_certificate_panic:
  assumes "poll_certificate w c order bdl pc r s = Inl p"
  shows "p = NilDereference \<or> p = IndexOutOfRange AtHasPreferredChain"
proof -
  let ?f = "poll_step w order bdl pc"
  let ?s0 = "emit (EvWait ''certificate'' (pollTimeout c) (pollInterval c)) s"
  from assms have
    loop: "wait_loop (wait_samples w (pollTimeout c) (pollInterval c)) ''certificate'' ?f (?s0, r)
             = Inl p"
    by (simp add: poll_certificate_unfold split: sum.splits prod.splits)
  from wait_loop_panic [where P = "\<lambda>st. True", OF loop] obtain a where "?f a = Inl p"
    by blast
  then show ?thesis by (rule poll_step_panic)
qed

lemma getForCSR_panic:
  assumes "getForCSR w c domains order bdl csr key pc s = Inl p"
  shows "(domains = [] \<and> p = IndexOutOfRange AtGetForCSR)
       \<or> p = NilDereference \<or> p = IndexOutOfRange AtHasPreferredChain"
proof (cases "Orders_UpdateForCSR w (o_Finalize order) csr")
  case (Inl e0)
  with assms show ?thesis by (simp add: getForCSR_unfold)
next
  case (Inr respOrder)
  show ?thesis
  proof (cases domains)
    case Nil
    with assms Inr show ?thesis by (simp add: getForCSR_unfold)
  next
    case (Cons d0 ds)
    let ?r0 = "fresh_resource d0 respOrder key"
    let ?s1 = "emit (EvFinalize (o_Finalize order)) s"
    show ?thesis
    proof (cases "o_Status respOrder = StatusValid")
      case False
      with assms Inr Cons have "poll_certificate w c order bdl pc ?r0 ?s1 = Inl p"
        by (simp add: getForCSR_unfold)
      from poll_certificate_panic [OF this] show ?thesis by simp
    next
      case True
      show ?thesis
      proof (cases "checkResponse w respOrder ?r0 bdl pc ?s1")
        case (Inl q)
        with assms Inr Cons True have "q = p" by (simp add: getForCSR_unfold)
        with checkResponse_panic [OF Inl] show ?thesis by simp
      next
        case cr: (Inr quad)
        obtain s2 r2 ok errR where quad: "quad = (s2, r2, ok, errR)" by (cases quad)
        show ?thesis
        proof (cases errR)
          case (Some e)
          with assms Inr Cons True cr quad show ?thesis by (simp add: getForCSR_unfold)
        next
          case None
          show ?thesis
          proof (cases ok)
            case ok: True
            with assms Inr Cons True cr quad None show ?thesis by (simp add: getForCSR_unfold)
          next
            case nok: False
            with assms Inr Cons True cr quad None
            have "poll_certificate w c order bdl pc r2 s2 = Inl p"
              by (simp add: getForCSR_unfold)
            from poll_certificate_panic [OF this] show ?thesis by simp
          qed
        qed
      qed
    qed
  qed
qed

lemma getForOrder_panic:
  assumes "getForOrder w c domains order request s = Inl p"
  shows "(domains = [] \<and> p = IndexOutOfRange AtGetForOrder)
       \<or> p = NilDereference \<or> p = IndexOutOfRange AtHasPreferredChain"
proof -
  let ?k = "case req_PrivateKey request of
              Some k \<Rightarrow> Inr k
            | None \<Rightarrow> GeneratePrivateKey w (KeyType (options c))"
  show ?thesis
  proof (cases ?k)
    case (Inl e0)
    with assms show ?thesis by (simp add: getForOrder_unfold)
  next
    case (Inr privateKey)
    show ?thesis
    proof (cases domains)
      case Nil
      with assms Inr show ?thesis by (simp add: getForOrder_unfold)
    next
      case (Cons d0 ds)
      show ?thesis
      proof (cases "CreateCSR w privateKey (csrOptions_of c d0 order request)")
        case (Inl e0)
        with assms Inr Cons show ?thesis by (simp add: getForOrder_unfold)
      next
        case cs: (Inr csr)
        with assms Inr Cons have
          "getForCSR w c domains order (req_Bundle request) csr (PEMEncode_key w privateKey)
             (req_PreferredChain request) s = Inl p"
          by (simp add: getForOrder_unfold)
        from getForCSR_panic [OF this] Cons show ?thesis by simp
      qed
    qed
  qed
qed

lemma Obtain_panic:
  assumes "Obtain w c request s = Inl p"
  shows "\<exists>order s3. getForOrder w c (sanitizeDomain w (req_Domains request)) order request s3
           = Inl p"
proof -
  let ?ds = "sanitizeDomain w (req_Domains request)"
  from assms have ne: "req_Domains request \<noteq> []"
    by (auto simp: Obtain_unfold)
  from assms ne obtain order where
    o: "Orders_NewWithOptions w ?ds (orderOptions_of request) = Inr order"
    by (cases "Orders_NewWithOptions w ?ds (orderOptions_of request)")
       (auto simp: Obtain_unfold)
  from assms ne o obtain authz where a: "getAuthorizations w order = Inr authz"
    by (cases "getAuthorizations w order") (auto simp: Obtain_unfold)
  from assms ne o a have sv: "resolver_Solve w authz = None"
    by (cases "resolver_Solve w authz") (auto simp: Obtain_unfold)
  let ?s3 = "emit EvSolve (emit EvGetAuthorizations (emit (EvNewOrder ?ds (orderOptions_of request)) s))"
  from assms ne o a sv have "getForOrder w c ?ds order request ?s3 = Inl p"
    by (cases "getForOrder w c ?ds order request ?s3") (auto simp: Obtain_unfold)
  then show ?thesis by blast
qed


lemma sanitizeDomain_empty_iff:
  "sanitizeDomain w ds = [] \<longleftrightarrow> (\<forall>d \<in> set ds. isl (idna_ToASCII w d))"
  by (simp add: sanitizeDomain_eq filter_empty_conv)

text \<open>
  Claim C9. Obtain rejects an empty list of requested domains, and checks nothing after
  the sanitization. If at least one requested domain converts to ASCII, the sanitized
  list is not empty and neither \<^verbatim>\<open>domains[0]\<close> of getForOrder nor that of getForCSR
  is out of range. The precondition is needed: if the request is not empty but no
  domain converts, and the order, its authorizations, the solver and the private key
  succeed, Obtain panics at \<^verbatim>\<open>domains[0]\<close> in getForOrder; and getForCSR, called with
  an empty list, panics at its own \<^verbatim>\<open>domains[0]\<close> once the finalize request succeeded.
\<close>

theorem first_domain_in_bounds:
  "((\<exists>d \<in> set (req_Domains request). \<not> isl (idna_ToASCII w d))
      \<longrightarrow> sanitizeDomain w (req_Domains request) \<noteq> []
        \<and> Obtain w c request s \<noteq> Inl (IndexOutOfRange AtGetForOrder)
        \<and> Obtain w c request s \<noteq> Inl (IndexOutOfRange AtGetForCSR))
   \<and> (domains \<noteq> []
      \<longrightarrow> getForOrder w c domains order request s \<noteq> Inl (IndexOutOfRange AtGetForOrder)
        \<and> getForOrder w c domains order request s \<noteq> Inl (IndexOutOfRange AtGetForCSR)
        \<and> getForCSR w c domains order bdl csr keypem pc s \<noteq> Inl (IndexOutOfRange AtGetForCSR))
   \<and> (req_Domains request \<noteq> []
       \<and> (\<forall>d \<in> set (req_Domains request). isl (idna_ToASCII w d))
       \<and> Orders_NewWithOptions w [] (orderOptions_of request) = Inr order
       \<and> getAuthorizations w order = Inr authz
       \<and> resolver_Solve w authz = None
       \<and> (req_PrivateKey request = Some key
           \<or> req_PrivateKey request = None
              \<and> GeneratePrivateKey w (KeyType (options c)) = Inr key)
      \<longrightarrow> Obtain w c request s = Inl (IndexOutOfRange AtGetForOrder))
   \<and> (Orders_UpdateForCSR w (o_Finalize order) csr = Inr respOrder
      \<longrightarrow> getForCSR w c [] order bdl csr keypem pc s = Inl (IndexOutOfRange AtGetForCSR))"
proof -
  have B: "domains \<noteq> []
      \<longrightarrow> getForOrder w c domains order request s \<noteq> Inl (IndexOutOfRange AtGetForOrder)
        \<and> getForOrder w c domains order request s \<noteq> Inl (IndexOutOfRange AtGetForCSR)
        \<and> getForCSR w c domains order bdl csr keypem pc s \<noteq> Inl (IndexOutOfRange AtGetForCSR)"
    for domains order s
    using getForOrder_panic [of w c domains order request s]
      getForCSR_panic [of w c domains order bdl csr keypem pc s]
    by auto
  have A: "(\<exists>d \<in> set (req_Domains request). \<not> isl (idna_ToASCII w d))
      \<longrightarrow> sanitizeDomain w (req_Domains request) \<noteq> []
        \<and> Obtain w c request s \<noteq> Inl (IndexOutOfRange AtGetForOrder)
        \<and> Obtain w c request s \<noteq> Inl (IndexOutOfRange AtGetForCSR)"
  proof
    assume "\<exists>d \<in> set (req_Domains request). \<not> isl (idna_ToASCII w d)"
    then have ne: "sanitizeDomain w (req_Domains request) \<noteq> []"
      by (simp add: sanitizeDomain_empty_iff)
    have "Obtain w c request s \<noteq> Inl p"
      if "p = IndexOutOfRange AtGetForOrder \<or> p = IndexOutOfRange AtGetForCSR" for p
    proof
      assume "Obtain w c request s = Inl p"
      from Obtain_panic [OF this] obtain order' s3 where
        "getForOrder w c (sanitizeDomain w (req_Domains request)) order' request s3 = Inl p"
        by blast
      with B [of "sanitizeDomain w (req_Domains request)" order' s3] ne that
      show False by auto
    qed
    with ne show "sanitizeDomain w (req_Domains request) \<noteq> []
        \<and> Obtain w c request s \<noteq> Inl (IndexOutOfRange AtGetForOrder)
        \<and> Obtain w c request s \<noteq> Inl (IndexOutOfRange AtGetForCSR)"
      by blast
  qed
  have C: "req_Domains request \<noteq> []
       \<and> (\<forall>d \<in> set (req_Domains request). isl (idna_ToASCII w d))
       \<and> Orders_NewWithOptions w [] (orderOptions_of request) = Inr order
       \<and> getAuthorizations w order = Inr authz
       \<and> resolver_Solve w authz = None
       \<and> (req_PrivateKey request = Some key
           \<or> req_PrivateKey request = None
              \<and> GeneratePrivateKey w (KeyType (options c)) = Inr key)
      \<longrightarrow> Obtain w c request s = Inl (IndexOutOfRange AtGetForOrder)"
  proof
    assume h: "req_Domains request \<noteq> []
       \<and> (\<forall>d \<in> set (req_Domains request). isl (idna_ToASCII w d))
       \<and> Orders_NewWithOptions w [] (orderOptions_of request) = Inr order
       \<and> getAuthorizations w order = Inr authz
       \<and> resolver_Solve w authz = None
       \<and> (req_PrivateKey request = Some key
           \<or> req_PrivateKey request = None
              \<and> GeneratePrivateKey w (KeyType (options c)) = Inr key)"
    then have e: "sanitizeDomain w (req_Domains request) = []"
      by (simp add: sanitizeDomain_empty_iff)
    from h have g: "getForOrder w c [] order request s3 = Inl (IndexOutOfRange AtGetForOrder)"
      for s3
      by (auto simp: getForOrder_unfold)
    from h show "Obtain w c request s = Inl (IndexOutOfRange AtGetForOrder)"
      by (simp add: Obtain_unfold e g)
  qed
  have D: "Orders_UpdateForCSR w (o_Finalize order) csr = Inr respOrder
      \<longrightarrow> getForCSR w c [] order bdl csr keypem pc s = Inl (IndexOutOfRange AtGetForCSR)"
    by (simp add: getForCSR_unfold)
  show ?thesis
    by (rule conjI [OF A conjI [OF B conjI [OF C D]]])
qed

lemma demo_bad_domain_facts:
  "isl (idna_ToASCII demo_world d) = (d = ''bad domain'')"
  "Orders_NewWithOptions demo_world ds oo = Inr (demo_order ''pending'' ds)"
  "getAuthorizations demo_world (demo_order ''pending'' []) = Inr []"
  "resolver_Solve demo_world authz = None"
  "GeneratePrivateKey demo_world kt = Inr ''fresh key''"
  "Orders_UpdateForCSR demo_world url b = Inr (demo_order ''processing'' [''example.com''])"
  by (simp_all add: demo_world_def demo_order_def)

theorem first_domain_in_bounds_witness:
  "sanitizeDomain demo_world (req_Domains (demo_request [''bad domain'', ''example.com''])) \<noteq> []
   \<and> Obtain demo_world demo_certifier (demo_request [''bad domain'', ''example.com'']) net0
       \<noteq> Inl (IndexOutOfRange AtGetForOrder)
   \<and> Obtain demo_world demo_certifier (demo_request [''bad domain'', ''example.com'']) net0
       \<noteq> Inl (IndexOutOfRange AtGetForCSR)
   \<and> getForCSR demo_world demo_certifier [''example.com'']
        (demo_order ''pending'' [''example.com'']) False (Some ''csr'') (Some ''key'') [] net0
       \<noteq> Inl (IndexOutOfRange AtGetForCSR)
   \<and> Obtain demo_world demo_certifier (demo_request [''bad domain'']) net0 =
       Inl (IndexOutOfRange AtGetForOrder)
   \<and> getForCSR demo_world demo_certifier [] (demo_order ''pending'' []) False (Some ''csr'')
        (Some ''key'') [] net0 = Inl (IndexOutOfRange AtGetForCSR)"
proof -
  note inst = first_domain_in_bounds [where w = demo_world and c = demo_certifier and s = net0]
  have a: "sanitizeDomain demo_world (req_Domains (demo_request [''bad domain'', ''example.com'']))
             \<noteq> []
        \<and> Obtain demo_world demo_certifier (demo_request [''bad domain'', ''example.com'']) net0
            \<noteq> Inl (IndexOutOfRange AtGetForOrder)
        \<and> Obtain demo_world demo_certifier (demo_request [''bad domain'', ''example.com'']) net0
            \<noteq> Inl (IndexOutOfRange AtGetForCSR)"
    by (rule inst [THEN conjunct1, THEN mp])
       (simp add: demo_request_def demo_bad_domain_facts)
  have b: "getForCSR demo_world demo_certifier [''example.com'']
        (demo_order ''pending'' [''example.com'']) False (Some ''csr'') (Some ''key'') [] net0
       \<noteq> Inl (IndexOutOfRange AtGetForCSR)"
    using inst [where domains = "[''example.com'']"
        and order = "demo_order ''pending'' [''example.com'']" and bdl = False
        and csr = "Some ''csr''" and keypem = "Some ''key''" and pc = "[]",
        THEN conjunct2, THEN conjunct1]
    by simp
  have c: "Obtain demo_world demo_certifier (demo_request [''bad domain'']) net0 =
       Inl (IndexOutOfRange AtGetForOrder)"
    by (rule inst [where order = "demo_order ''pending'' []" and authz = "[]"
                     and key = "''fresh key''",
                   THEN conjunct2, THEN conjunct2, THEN conjunct1, THEN mp])
       (simp add: demo_request_def demo_bad_domain_facts)
  have d: "getForCSR demo_world demo_certifier [] (demo_order ''pending'' []) False (Some ''csr'')
        (Some ''key'') [] net0 = Inl (IndexOutOfRange AtGetForCSR)"
    by (rule inst [where respOrder = "demo_order ''processing'' [''example.com'']",
                   THEN conjunct2, THEN conjunct2, THEN conjunct2, THEN mp])
       (rule demo_bad_domain_facts)
  from a b c d show ?thesis
    by blast
qed

end
